theory Spec2Isabelle
  imports Main "HOL-Library.Sublist"
begin

section \<open>The Fleet package-policy service\<close>

text \<open>
  A shallow embedding of \<^verbatim>\<open>x-pack/plugins/fleet/server/services/package_policy.ts\<close>.
  The service is glue between collaborators that live in other files: the saved-objects
  client, the agent-policy service, the package registry, the template engine, the clock
  and the uuid generator. They are parameters of the model (the record \<open>collaborators\<close>),
  each a function on an abstract world \<open>'w\<close> that returns a value or rejects with an error.
  Every call of a collaborator is appended to a call log, so that theorems can speak about
  what was persisted and how often a collaborator was invoked.
\<close>

subsection \<open>Data model\<close>

text \<open>JSON-like values: the contents of variables and of compiled templates (\<^verbatim>\<open>any\<close>).\<close>

datatype json =
  JNull | JBool bool | JNum int | JStr string | JArr "json list" | JObj "(string \<times> json) list"

text \<open>\<^verbatim>\<open>PackagePolicyConfigRecord\<close>: an object, as its list of own properties in insertion order.\<close>

type_synonym config_record = "(string \<times> json) list"

text \<open>
  \<^verbatim>\<open>PackagePolicyInputStream\<close>. The field \<open>stream_id\<close> is absent on a
  \<^verbatim>\<open>NewPackagePolicyInputStream\<close>; \<open>stream_dataset\<close> is \<^verbatim>\<open>data_stream.dataset\<close>.
\<close>

record package_policy_input_stream =
  stream_id :: "string option"
  stream_enabled :: bool
  stream_dataset :: string
  stream_data_stream_type :: string
  stream_vars :: "config_record option"
  stream_config :: "config_record option"
  compiled_stream :: "json option"

record package_policy_input =
  input_type :: string
  input_enabled :: bool
  input_vars :: "config_record option"
  input_config :: "config_record option"
  streams :: "package_policy_input_stream list"
  compiled_input :: "json option"

record package_policy_package =
  pkg_name :: string
  pkg_title :: string
  pkg_version :: string

text \<open>
  \<^verbatim>\<open>NewPackagePolicy\<close>, and the interfaces that extend it: \<^verbatim>\<open>UpdatePackagePolicy\<close> adds
  the version token, \<^verbatim>\<open>PackagePolicySOAttributes\<close> the revision and the stamps, and
  \<^verbatim>\<open>PackagePolicy\<close> the id and version of the saved object.
\<close>

record new_package_policy =
  name :: string
  description :: "string option"
  namespace :: string
  enabled :: bool
  policy_id :: string
  output_id :: string
  package :: "package_policy_package option"
  inputs :: "package_policy_input list"

record update_package_policy = new_package_policy +
  version :: "string option"

record package_policy_so_attributes = new_package_policy +
  revision :: int
  created_at :: string
  created_by :: string
  updated_at :: string
  updated_by :: string

record package_policy = package_policy_so_attributes +
  pp_id :: string
  pp_version :: "string option"

text \<open>
  The partial attributes that \<^verbatim>\<open>update\<close> hands to the store: the policy without its
  version token, the new revision and the update stamps (no creation stamps).
\<close>

record package_policy_update_attributes = new_package_policy +
  upd_revision :: int
  upd_updated_at :: string
  upd_updated_by :: string

text \<open>
  A saved object as the store returns it. By its declared type the attributes are always
  present; \<open>so_error\<close> is the message of the optional \<^verbatim>\<open>error\<close> member.
\<close>

record saved_object =
  so_id :: string
  so_version :: "string option"
  so_attributes :: package_policy_so_attributes
  so_error :: "string option"

record so_bulk_create_object =
  bo_type :: string
  bo_id :: string
  bo_attributes :: package_policy_so_attributes

record authenticated_user =
  username :: string

text \<open>
  The optional \<^verbatim>\<open>options\<close> argument of \<^verbatim>\<open>create\<close>, \<^verbatim>\<open>bulkCreate\<close>, \<^verbatim>\<open>update\<close> and
  \<^verbatim>\<open>delete\<close>; an absent argument is the record with every member absent.
\<close>

record service_options =
  opt_id :: "string option"
  opt_user :: "authenticated_user option"
  opt_bumpRevision :: "bool option"
  opt_skipUnassignFromAgentPolicies :: "bool option"

text \<open>
  An agent policy as \<^verbatim>\<open>agentPolicyService.get\<close> returns it, with its package policies
  loaded (the code casts \<^verbatim>\<open>package_policies as PackagePolicy[]\<close>).
\<close>

record agent_policy =
  ap_id :: string
  is_managed :: bool
  package_policies :: "package_policy list"

text \<open>Package metadata (\<^verbatim>\<open>PackageInfo\<close>) and what the registry returns.\<close>

record registry_input =
  ri_type :: string
  ri_template_path :: "string option"

record registry_policy_template =
  pt_inputs :: "registry_input list option"

record registry_stream =
  rs_input :: string
  rs_template_path :: "string option"

record registry_data_stream =
  ds_dataset :: string
  ds_streams :: "registry_stream list option"

record package_info =
  pi_name :: string
  pi_version :: string
  policy_templates :: "registry_policy_template list option"
  data_streams :: "registry_data_stream list option"

record registry_package =
  rp_name :: string
  rp_version :: string

record archive_entry =
  ae_path :: string
  ae_buffer :: "string option"

text \<open>
  The result of \<^verbatim>\<open>ingestErrorToResponseOptions\<close> (a status code and a body with a message)
  and the entries of a \<^verbatim>\<open>DeletePackagePoliciesResponse\<close>; a failure entry has the former
  spread into it.
\<close>

record response_options =
  statusCode :: int
  body_message :: string

record delete_result =
  del_id :: string
  del_name :: "string option"
  del_success :: bool
  del_response :: "response_options option"

typedecl request_handler_context
typedecl kibana_request

subsection \<open>Errors, the call log and the monad of the service\<close>

text \<open>
  \<open>Error\<close> and \<open>IngestManagerError\<close> are the two classes this file throws; a collaborator
  may also reject with an error of another class.
\<close>

datatype error = Error string | IngestManagerError string | OtherError string

datatype call =
    AgentPolicyGet string "bool option"
  | AssignPackagePolicies string "string list" "authenticated_user option" bool
  | UnassignPackagePolicies string "string list" "authenticated_user option"
  | BumpRevision string "authenticated_user option"
  | EnsureInstalledPackage string
  | GetPackageInfo string string
  | RegistryFetchInfo string string
  | GetAssetsData registry_package string "string option"
  | SoCreate string package_policy_so_attributes service_options
  | SoBulkCreate "so_bulk_create_object list"
  | SoGet string string
  | SoUpdate string string package_policy_update_attributes "string option"
  | SoDelete string string
  | DateNow
  | UuidV4
  | ExternalCallbackCall string nat

record 'w state =
  world :: 'w
  calls :: "call list"

type_synonym ('a, 'w) io = "'w state \<Rightarrow> (error + 'a) \<times> 'w state"

definition return :: "'a \<Rightarrow> ('a, 'w) io" where
  "return x s = (Inr x, s)"

definition throw :: "error \<Rightarrow> ('a, 'w) io" where
  "throw e s = (Inl e, s)"

text \<open>\<^verbatim>\<open>const x = await m; f(x)\<close>: a rejection of \<open>m\<close> skips \<open>f\<close>, the effects of \<open>m\<close> stay.\<close>

definition bind :: "('a, 'w) io \<Rightarrow> ('a \<Rightarrow> ('b, 'w) io) \<Rightarrow> ('b, 'w) io" where
  "bind m f s = (case m s of (Inl e, s1) \<Rightarrow> (Inl e, s1) | (Inr x, s1) \<Rightarrow> f x s1)"

text \<open>\<^verbatim>\<open>try { m } catch (error) { h(error) }\<close>.\<close>

definition try_catch :: "('a, 'w) io \<Rightarrow> (error \<Rightarrow> ('a, 'w) io) \<Rightarrow> ('a, 'w) io" where
  "try_catch m h s = (case m s of (Inl e, s1) \<Rightarrow> h e s1 | (Inr x, s1) \<Rightarrow> (Inr x, s1))"

text \<open>A synchronous helper that may throw.\<close>

definition lift :: "error + 'a \<Rightarrow> ('a, 'w) io" where
  "lift r s = (r, s)"

text \<open>A call of a collaborator: it acts on the world, and the call is logged.\<close>

definition invoke :: "call \<Rightarrow> ('w \<Rightarrow> (error + 'a) \<times> 'w) \<Rightarrow> ('a, 'w) io" where
  "invoke c f s = (case f (world s) of (r, w) \<Rightarrow> (r, \<lparr>world = w, calls = calls s @ [c]\<rparr>))"

text \<open>Running an asynchronous function over a list, one element after the other.\<close>

primrec mapM :: "('a \<Rightarrow> ('b, 'w) io) \<Rightarrow> 'a list \<Rightarrow> ('b list, 'w) io" where
  "mapM f [] = return []"
| "mapM f (x # xs) = bind (f x) (\<lambda>y. bind (mapM f xs) (\<lambda>ys. return (y # ys)))"

subsection \<open>The collaborators\<close>

text \<open>
  None of these is defined in \<^verbatim>\<open>package_policy.ts\<close>; the names are those of the imports.
  \<open>getAssetsData\<close> takes the path predicate the service builds; \<open>compileTemplate\<close>,
  \<open>isPackageLimited\<close>, \<open>doesAgentPolicyAlreadyIncludePackage\<close>, the two schema validators,
  \<open>ingestErrorToResponseOptions\<close> and \<open>getExternalCallbacks\<close> are synchronous.
\<close>

type_synonym ('a, 'w) collaborator = "'w \<Rightarrow> (error + 'a) \<times> 'w"

type_synonym 'w external_callback =
  "new_package_policy \<Rightarrow> request_handler_context \<Rightarrow> kibana_request
     \<Rightarrow> (new_package_policy, 'w) collaborator"

record 'w collaborators =
  SAVED_OBJECT_TYPE :: string
  agentPolicyService_get :: "string \<Rightarrow> bool option \<Rightarrow> (agent_policy option, 'w) collaborator"
  agentPolicyService_assignPackagePolicies ::
    "string \<Rightarrow> string list \<Rightarrow> authenticated_user option \<Rightarrow> bool \<Rightarrow> (unit, 'w) collaborator"
  agentPolicyService_unassignPackagePolicies ::
    "string \<Rightarrow> string list \<Rightarrow> authenticated_user option \<Rightarrow> (unit, 'w) collaborator"
  agentPolicyService_bumpRevision ::
    "string \<Rightarrow> authenticated_user option \<Rightarrow> (unit, 'w) collaborator"
  ensureInstalledPackage :: "string \<Rightarrow> (unit, 'w) collaborator"
  getPackageInfo :: "string \<Rightarrow> string \<Rightarrow> (package_info, 'w) collaborator"
  Registry_fetchInfo :: "string \<Rightarrow> string \<Rightarrow> (registry_package, 'w) collaborator"
  getAssetsData ::
    "registry_package \<Rightarrow> (string \<Rightarrow> bool) \<Rightarrow> string option
       \<Rightarrow> (archive_entry list, 'w) collaborator"
  compileTemplate :: "config_record \<Rightarrow> string \<Rightarrow> error + json"
  isPackageLimited :: "package_info \<Rightarrow> bool"
  doesAgentPolicyAlreadyIncludePackage :: "agent_policy \<Rightarrow> string \<Rightarrow> bool"
  soClient_create ::
    "string \<Rightarrow> package_policy_so_attributes \<Rightarrow> service_options \<Rightarrow> (saved_object, 'w) collaborator"
  soClient_bulkCreate :: "so_bulk_create_object list \<Rightarrow> (saved_object list, 'w) collaborator"
  soClient_get :: "string \<Rightarrow> string \<Rightarrow> (saved_object option, 'w) collaborator"
  soClient_update ::
    "string \<Rightarrow> string \<Rightarrow> package_policy_update_attributes \<Rightarrow> string option
       \<Rightarrow> (unit, 'w) collaborator"
  soClient_delete :: "string \<Rightarrow> string \<Rightarrow> (unit, 'w) collaborator"
  date_now :: "'w \<Rightarrow> string \<times> 'w"
  uuid_v4 :: "'w \<Rightarrow> string \<times> 'w"
  ingestErrorToResponseOptions :: "error \<Rightarrow> response_options"
  getExternalCallbacks :: "string \<Rightarrow> 'w external_callback list option"
  NewPackagePolicySchema_validate :: "new_package_policy \<Rightarrow> error + new_package_policy"
  UpdatePackagePolicySchema_validate :: "new_package_policy \<Rightarrow> error + new_package_policy"

text \<open>
  The calls as the service makes them: each is logged together with its arguments. Both
  uses of \<open>getAssetsData\<close> pass a predicate \<^verbatim>\<open>(path) => path.endsWith(...)\<close>; the log
  keeps the suffix. \<^verbatim>\<open>new Date().toISOString()\<close> and \<^verbatim>\<open>uuid.v4()\<close> read the world and
  cannot fail.
\<close>

definition call_agentPolicyService_get ::
  "'w collaborators \<Rightarrow> string \<Rightarrow> bool option \<Rightarrow> (agent_policy option, 'w) io" where
  "call_agentPolicyService_get env agentPolicyId withPackagePolicies =
     invoke (AgentPolicyGet agentPolicyId withPackagePolicies)
       (agentPolicyService_get env agentPolicyId withPackagePolicies)"

definition call_assignPackagePolicies ::
  "'w collaborators \<Rightarrow> string \<Rightarrow> string list \<Rightarrow> authenticated_user option \<Rightarrow> bool
     \<Rightarrow> (unit, 'w) io" where
  "call_assignPackagePolicies env agentPolicyId ids user bump =
     invoke (AssignPackagePolicies agentPolicyId ids user bump)
       (agentPolicyService_assignPackagePolicies env agentPolicyId ids user bump)"

definition call_unassignPackagePolicies ::
  "'w collaborators \<Rightarrow> string \<Rightarrow> string list \<Rightarrow> authenticated_user option \<Rightarrow> (unit, 'w) io" where
  "call_unassignPackagePolicies env agentPolicyId ids user =
     invoke (UnassignPackagePolicies agentPolicyId ids user)
       (agentPolicyService_unassignPackagePolicies env agentPolicyId ids user)"

definition call_bumpRevision ::
  "'w collaborators \<Rightarrow> string \<Rightarrow> authenticated_user option \<Rightarrow> (unit, 'w) io" where
  "call_bumpRevision env agentPolicyId user =
     invoke (BumpRevision agentPolicyId user)
       (agentPolicyService_bumpRevision env agentPolicyId user)"

definition call_ensureInstalledPackage :: "'w collaborators \<Rightarrow> string \<Rightarrow> (unit, 'w) io" where
  "call_ensureInstalledPackage env pkgName =
     invoke (EnsureInstalledPackage pkgName) (ensureInstalledPackage env pkgName)"

definition call_getPackageInfo ::
  "'w collaborators \<Rightarrow> string \<Rightarrow> string \<Rightarrow> (package_info, 'w) io" where
  "call_getPackageInfo env pkgName pkgVersion =
     invoke (GetPackageInfo pkgName pkgVersion) (getPackageInfo env pkgName pkgVersion)"

definition call_Registry_fetchInfo ::
  "'w collaborators \<Rightarrow> string \<Rightarrow> string \<Rightarrow> (registry_package, 'w) io" where
  "call_Registry_fetchInfo env pkgName pkgVersion =
     invoke (RegistryFetchInfo pkgName pkgVersion) (Registry_fetchInfo env pkgName pkgVersion)"

definition call_getAssetsData ::
  "'w collaborators \<Rightarrow> registry_package \<Rightarrow> string \<Rightarrow> string option
     \<Rightarrow> (archive_entry list, 'w) io" where
  "call_getAssetsData env registryPkgInfo ending datasetName =
     invoke (GetAssetsData registryPkgInfo ending datasetName)
       (getAssetsData env registryPkgInfo (\<lambda>path. suffix ending path) datasetName)"

definition call_soClient_create ::
  "'w collaborators \<Rightarrow> package_policy_so_attributes \<Rightarrow> service_options
     \<Rightarrow> (saved_object, 'w) io" where
  "call_soClient_create env attributes options =
     invoke (SoCreate (SAVED_OBJECT_TYPE env) attributes options)
       (soClient_create env (SAVED_OBJECT_TYPE env) attributes options)"

definition call_soClient_bulkCreate ::
  "'w collaborators \<Rightarrow> so_bulk_create_object list \<Rightarrow> (saved_object list, 'w) io" where
  "call_soClient_bulkCreate env objects =
     invoke (SoBulkCreate objects) (soClient_bulkCreate env objects)"

definition call_soClient_get :: "'w collaborators \<Rightarrow> string \<Rightarrow> (saved_object option, 'w) io" where
  "call_soClient_get env id0 =
     invoke (SoGet (SAVED_OBJECT_TYPE env) id0) (soClient_get env (SAVED_OBJECT_TYPE env) id0)"

definition call_soClient_update ::
  "'w collaborators \<Rightarrow> string \<Rightarrow> package_policy_update_attributes \<Rightarrow> string option
     \<Rightarrow> (unit, 'w) io" where
  "call_soClient_update env id0 attributes version0 =
     invoke (SoUpdate (SAVED_OBJECT_TYPE env) id0 attributes version0)
       (soClient_update env (SAVED_OBJECT_TYPE env) id0 attributes version0)"

definition call_soClient_delete :: "'w collaborators \<Rightarrow> string \<Rightarrow> (unit, 'w) io" where
  "call_soClient_delete env id0 =
     invoke (SoDelete (SAVED_OBJECT_TYPE env) id0) (soClient_delete env (SAVED_OBJECT_TYPE env) id0)"

definition new_Date_toISOString :: "'w collaborators \<Rightarrow> (string, 'w) io" where
  "new_Date_toISOString env =
     invoke DateNow (\<lambda>w. case date_now env w of (t, w1) \<Rightarrow> (Inr t, w1))"

definition call_uuid_v4 :: "'w collaborators \<Rightarrow> (string, 'w) io" where
  "call_uuid_v4 env =
     invoke UuidV4 (\<lambda>w. case uuid_v4 env w of (u, w1) \<Rightarrow> (Inr u, w1))"

subsection \<open>Helpers of the language\<close>

text \<open>\<^verbatim>\<open>obj[k] = v\<close>: an existing property keeps its place, a new one goes last.\<close>

primrec set_property :: "string \<Rightarrow> json \<Rightarrow> config_record \<Rightarrow> config_record" where
  "set_property k v [] = [(k, v)]"
| "set_property k v (p # ps) = (if fst p = k then (k, v) # ps else p # set_property k v ps)"

text \<open>
  \<^verbatim>\<open>Object.assign(target, ...sources)\<close>: the properties of each source are copied in turn;
  a source that is \<^verbatim>\<open>undefined\<close> is skipped.
\<close>

definition Object_assign :: "config_record \<Rightarrow> config_record option list \<Rightarrow> config_record" where
  "Object_assign target sources =
     fold (\<lambda>source obj. case source of
             None \<Rightarrow> obj
           | Some props \<Rightarrow> fold (\<lambda>(k, v). set_property k v) props obj) sources target"

text \<open>\<^verbatim>\<open>st.split(c)\<close> for a one-character separator.\<close>

primrec split_on :: "char \<Rightarrow> string \<Rightarrow> string list" where
  "split_on c [] = [[]]"
| "split_on c (x # xs) =
     (if x = c then [] # split_on c xs
      else (case split_on c xs of [] \<Rightarrow> [[x]] | y # ys \<Rightarrow> (x # y) # ys))"

text \<open>How a template literal prints a value that may be \<^verbatim>\<open>undefined\<close>.\<close>

definition template_string :: "string option \<Rightarrow> string" where
  "template_string v = (case v of None \<Rightarrow> ''undefined'' | Some t \<Rightarrow> t)"

text \<open>
  A \<^verbatim>\<open>number\<close> is an IEEE 754 double. The revision of a policy is a whole number (the
  service writes 1, or a stored revision with 1 added) and is kept as an \<open>int\<close>.
  \<open>to_double n\<close> is the double nearest to the integer \<open>n\<close>: \<open>n\<close> itself when it fits the
  53 bits of a significand, and otherwise the nearest multiple of the spacing of the doubles
  of that magnitude, a tie going to the even significand. \<open>js_plus a b\<close> is \<^verbatim>\<open>a + b\<close> on
  two such numbers, the sum rounded to a double; the service only ever adds 1, which never
  takes a double beyond the largest one. \<open>bit_length n\<close> is the number of binary digits of
  \<open>n\<close>.
\<close>

function bit_length :: "int \<Rightarrow> nat" where
  "bit_length n = (if n \<le> 0 then 0 else Suc (bit_length (n div 2)))"
  by pat_completeness auto
termination
  by (relation "measure nat") auto

declare bit_length.simps [simp del]

definition to_double :: "int \<Rightarrow> int" where
  "to_double n =
     (let m = \<bar>n\<bar>;
          ulp = 2 ^ (bit_length m - 53);
          q = m div ulp;
          r = m mod ulp
      in sgn n * ((if 2 * r < ulp \<or> (2 * r = ulp \<and> even q) then q else q + 1) * ulp))"

definition js_plus :: "int \<Rightarrow> int \<Rightarrow> int" where
  "js_plus a b = to_double (a + b)"

subsection \<open>The service\<close>

definition getDataset :: "string \<Rightarrow> string option" where
  "getDataset st =
     (let parts = split_on CHR ''.'' st in if 1 < length parts then Some (parts ! 1) else None)"

definition assignStreamIdToInput :: "string \<Rightarrow> package_policy_input \<Rightarrow> package_policy_input" where
  "assignStreamIdToInput packagePolicyId input =
     input\<lparr>streams :=
       map (\<lambda>stream. stream\<lparr>stream_id :=
              Some (input_type input @ ''-'' @ stream_dataset stream @ ''-'' @ packagePolicyId)\<rparr>)
           (streams input)\<rparr>"

text \<open>\<^verbatim>\<open>{ id: so.id, version: so.version, ...so.attributes }\<close>, written out at each use in the source.\<close>

definition saved_object_to_package_policy :: "saved_object \<Rightarrow> package_policy" where
  "saved_object_to_package_policy so =
     package_policy_so_attributes.extend (so_attributes so)
       (package_policy.fields (so_id so) (so_version so))"

text \<open>\<^verbatim>\<open>options?.user?.username ?? 'system'\<close>.\<close>

definition actor :: "service_options \<Rightarrow> string" where
  "actor options = (case opt_user options of None \<Rightarrow> ''system'' | Some user \<Rightarrow> username user)"

text \<open>\<^verbatim>\<open>packagePolicy.package?.name\<close> as a condition: the package is there and its name is not empty.\<close>

definition has_package_name :: "'a new_package_policy_scheme \<Rightarrow> bool" where
  "has_package_name packagePolicy =
     (case package packagePolicy of None \<Rightarrow> False | Some pkg \<Rightarrow> pkg_name pkg \<noteq> [])"

text \<open>\<^verbatim>\<open>pkgInfo.policy_templates?.[0]?.inputs\<close>.\<close>

definition first_policy_template_inputs :: "package_info \<Rightarrow> registry_input list option" where
  "first_policy_template_inputs pkgInfo =
     (case policy_templates pkgInfo of
        None \<Rightarrow> None
      | Some [] \<Rightarrow> None
      | Some (policy_template # _) \<Rightarrow> pt_inputs policy_template)"

text \<open>\<^verbatim>\<open>const [template] = assets\<close> followed by \<^verbatim>\<open>!template || !template.buffer\<close>.\<close>

definition first_buffer :: "archive_entry list \<Rightarrow> string option" where
  "first_buffer assets = (case assets of [] \<Rightarrow> None | template # _ \<Rightarrow> ae_buffer template)"

text \<open>
  \<^verbatim>\<open>_compilePackagePolicyInput\<close> (an Isabelle name cannot start with an underscore). Its
  guard is \<^verbatim>\<open>(!input.enabled || !pkgInfo.policy_templates?.[0]?.inputs?.length) ?? 0 > 0\<close>;
  the left operand of \<^verbatim>\<open>??\<close> is a boolean, never nullish, so the guard is that operand.
\<close>

definition compilePackagePolicyInput ::
  "'w collaborators \<Rightarrow> registry_package \<Rightarrow> package_info \<Rightarrow> package_policy_input
     \<Rightarrow> (json option, 'w) io" where
  "compilePackagePolicyInput env registryPkgInfo pkgInfo input =
     (if \<not> input_enabled input
         \<or> (case first_policy_template_inputs pkgInfo of
               None \<Rightarrow> True | Some packageInputs \<Rightarrow> length packageInputs = 0)
      then return None
      else
        (case find (\<lambda>pkgInput. ri_type pkgInput = input_type input)
                (case first_policy_template_inputs pkgInfo of
                   None \<Rightarrow> [] | Some packageInputs \<Rightarrow> packageInputs) of
           None \<Rightarrow>
             throw (Error (''Input template not found, unable to find input type ''
                            @ input_type input))
         | Some packageInput \<Rightarrow>
             (case ri_template_path packageInput of
                None \<Rightarrow> return None
              | Some template_path \<Rightarrow>
                  if template_path = [] then return None
                  else
                    bind (call_getAssetsData env registryPkgInfo
                            (''/agent/input/'' @ template_path) None)
                      (\<lambda>assets.
                         case first_buffer assets of
                           None \<Rightarrow>
                             throw (Error (''Unable to load input template at /agent/input/''
                                            @ template_path))
                         | Some buffer \<Rightarrow>
                             bind (lift (compileTemplate env
                                           (Object_assign [] [input_vars input]) buffer))
                               (\<lambda>yaml. return (Some yaml))))))"

text \<open>
  \<^verbatim>\<open>_compilePackageStream\<close>. On success the source also stores the compiled text on the
  stream object it was given; that object is one \<^verbatim>\<open>assignStreamIdToInput\<close> has just made,
  and the callers in this file use only the returned copy, which is what is modelled.
\<close>

definition compilePackageStream ::
  "'w collaborators \<Rightarrow> registry_package \<Rightarrow> package_info \<Rightarrow> package_policy_input
     \<Rightarrow> package_policy_input_stream \<Rightarrow> (package_policy_input_stream, 'w) io" where
  "compilePackageStream env registryPkgInfo pkgInfo input stream =
     (if \<not> stream_enabled stream then return (stream\<lparr>compiled_stream := None\<rparr>)
      else
        case data_streams pkgInfo of
          None \<Rightarrow> throw (Error ''Stream template not found, no data streams'')
        | Some packageDataStreams \<Rightarrow>
        (case find (\<lambda>pkgDataStream. ds_dataset pkgDataStream = stream_dataset stream)
                packageDataStreams of
          None \<Rightarrow>
            throw (Error (''Stream template not found, unable to find dataset ''
                           @ template_string (getDataset (stream_dataset stream))))
        | Some packageDataStream \<Rightarrow>
        (case find (\<lambda>pkgStream. rs_input pkgStream = input_type input)
                (case ds_streams packageDataStream of None \<Rightarrow> [] | Some ss \<Rightarrow> ss) of
          None \<Rightarrow>
            throw (Error (''Stream template not found, unable to find stream for input ''
                           @ input_type input))
        | Some streamFromPkg \<Rightarrow>
        (case (case rs_template_path streamFromPkg of
                 None \<Rightarrow> None
               | Some template_path \<Rightarrow> if template_path = [] then None else Some template_path) of
          None \<Rightarrow>
            throw (Error (''Stream template path not found for dataset ''
                           @ template_string (getDataset (stream_dataset stream))))
        | Some template_path \<Rightarrow>
            bind (call_getAssetsData env registryPkgInfo template_path
                    (getDataset (stream_dataset stream)))
              (\<lambda>assets.
                 case first_buffer assets of
                   None \<Rightarrow>
                     throw (Error (''Unable to load stream template '' @ template_path
                                    @ '' for dataset ''
                                    @ template_string (getDataset (stream_dataset stream))))
                 | Some buffer \<Rightarrow>
                     bind (lift (compileTemplate env
                                   (Object_assign [] [input_vars input, stream_vars stream])
                                   buffer))
                       (\<lambda>yaml. return (stream\<lparr>compiled_stream := Some yaml\<rparr>)))))))"

text \<open>
  \<^verbatim>\<open>Promise.all\<close> over a list of tasks is modelled by running them in list order and
  stopping at the first rejection. The interleaving of concurrent tasks, and which of
  several rejections wins, are outside the model; no theorem below depends on them.
\<close>

definition compilePackageStreams ::
  "'w collaborators \<Rightarrow> registry_package \<Rightarrow> package_info \<Rightarrow> package_policy_input
     \<Rightarrow> (package_policy_input_stream list, 'w) io" where
  "compilePackageStreams env registryPkgInfo pkgInfo input =
     mapM (compilePackageStream env registryPkgInfo pkgInfo input) (streams input)"

text \<open>The asynchronous function that \<^verbatim>\<open>compilePackagePolicyInputs\<close> maps over the inputs.\<close>

definition compile_one_input ::
  "'w collaborators \<Rightarrow> registry_package \<Rightarrow> package_info \<Rightarrow> package_policy_input
     \<Rightarrow> (package_policy_input, 'w) io" where
  "compile_one_input env registryPkgInfo pkgInfo input =
     bind (compilePackagePolicyInput env registryPkgInfo pkgInfo input)
       (\<lambda>compiledInput.
     bind (compilePackageStreams env registryPkgInfo pkgInfo input)
       (\<lambda>compiledStreams.
     return (input\<lparr>compiled_input := compiledInput, streams := compiledStreams\<rparr>)))"

definition compilePackagePolicyInputs ::
  "'w collaborators \<Rightarrow> package_info \<Rightarrow> package_policy_input list
     \<Rightarrow> (package_policy_input list, 'w) io" where
  "compilePackagePolicyInputs env pkgInfo inputs0 =
     bind (call_Registry_fetchInfo env (pi_name pkgInfo) (pi_version pkgInfo))
       (\<lambda>registryPkgInfo. mapM (compile_one_input env registryPkgInfo pkgInfo) inputs0)"

text \<open>
  The block of \<^verbatim>\<open>create\<close> under \<^verbatim>\<open>if (packagePolicy.package?.name)\<close>, with the value of
  \<^verbatim>\<open>inputs\<close> after it. The two tasks of its \<^verbatim>\<open>Promise.all\<close> run in the order written.
\<close>

definition create_package_step ::
  "'w collaborators \<Rightarrow> new_package_policy \<Rightarrow> package_policy_input list
     \<Rightarrow> (package_policy_input list, 'w) io" where
  "create_package_step env packagePolicy inputs0 =
     (if has_package_name packagePolicy then
        bind (call_ensureInstalledPackage env (pkg_name (the (package packagePolicy))))
          (\<lambda>_.
        bind (call_getPackageInfo env (pkg_name (the (package packagePolicy)))
                (pkg_version (the (package packagePolicy))))
          (\<lambda>pkgInfo.
        bind (if isPackageLimited env pkgInfo then
                bind (call_agentPolicyService_get env (policy_id packagePolicy) (Some True))
                  (\<lambda>agentPolicy.
                     case agentPolicy of
                       None \<Rightarrow> return ()
                     | Some found \<Rightarrow>
                         if doesAgentPolicyAlreadyIncludePackage env found (pi_name pkgInfo)
                         then throw (Error (''Unable to create package policy. Package ''
                                            @ [CHR 0x27] @ pi_name pkgInfo @ [CHR 0x27]
                                            @ '' already exists on this agent policy.''))
                         else return ())
              else return ())
          (\<lambda>_.
        compilePackagePolicyInputs env pkgInfo inputs0)))
      else return inputs0)"

text \<open>The attributes \<^verbatim>\<open>create\<close> and \<^verbatim>\<open>bulkCreate\<close> persist: the policy, revision 1, the stamps.\<close>

definition new_attributes ::
  "new_package_policy \<Rightarrow> string \<Rightarrow> service_options \<Rightarrow> package_policy_so_attributes" where
  "new_attributes packagePolicy isoDate options =
     new_package_policy.extend packagePolicy
       (package_policy_so_attributes.fields 1 isoDate (actor options) isoDate (actor options))"

text \<open>\<^verbatim>\<open>options?.bumpRevision ?? true\<close>.\<close>

definition bump_option :: "service_options \<Rightarrow> bool" where
  "bump_option options = (case opt_bumpRevision options of None \<Rightarrow> True | Some b \<Rightarrow> b)"

text \<open>
  \<^verbatim>\<open>create\<close>. \<^verbatim>\<open>options?.id || uuid.v4()\<close> takes the supplied id unless it is absent or
  empty.
\<close>

definition create ::
  "'w collaborators \<Rightarrow> new_package_policy \<Rightarrow> service_options \<Rightarrow> (package_policy, 'w) io" where
  "create env packagePolicy options =
     bind (call_agentPolicyService_get env (policy_id packagePolicy) None)
       (\<lambda>parentAgentPolicy.
     case parentAgentPolicy of
       None \<Rightarrow> throw (Error ''Agent policy not found'')
     | Some parent \<Rightarrow>
     if is_managed parent then
       throw (IngestManagerError (''Cannot add integrations to managed policy '' @ ap_id parent))
     else if find (\<lambda>siblingPackagePolicy. name siblingPackagePolicy = name packagePolicy)
               (package_policies parent) \<noteq> None then
       throw (Error ''There is already a package with the same name on this agent policy'')
     else
     bind (case opt_id options of
             None \<Rightarrow> call_uuid_v4 env
           | Some supplied \<Rightarrow> if supplied = [] then call_uuid_v4 env else return supplied)
       (\<lambda>packagePolicyId.
     bind (create_package_step env packagePolicy
             (map (assignStreamIdToInput packagePolicyId) (inputs packagePolicy)))
       (\<lambda>inputs1.
     bind (new_Date_toISOString env)
       (\<lambda>isoDate.
     bind (call_soClient_create env
             (new_attributes (packagePolicy\<lparr>inputs := inputs1\<rparr>) isoDate options)
             (options\<lparr>opt_id := Some packagePolicyId\<rparr>))
       (\<lambda>newSo.
     bind (call_assignPackagePolicies env (policy_id packagePolicy) [so_id newSo]
             (opt_user options) (bump_option options))
       (\<lambda>_.
     return (saved_object_to_package_policy newSo)))))))"

text \<open>
  \<^verbatim>\<open>bulkCreate\<close>: the timestamp is read once, before the policies are mapped; the function
  mapped over the policies draws an id and builds the object to persist.
\<close>

definition bulk_create_object ::
  "'w collaborators \<Rightarrow> string \<Rightarrow> string \<Rightarrow> service_options \<Rightarrow> new_package_policy
     \<Rightarrow> (so_bulk_create_object, 'w) io" where
  "bulk_create_object env agentPolicyId isoDate options packagePolicy =
     bind (call_uuid_v4 env)
       (\<lambda>packagePolicyId.
          return \<lparr>bo_type = SAVED_OBJECT_TYPE env,
                  bo_id = packagePolicyId,
                  bo_attributes =
                    new_attributes
                      (packagePolicy\<lparr>inputs := map (assignStreamIdToInput packagePolicyId)
                                                   (inputs packagePolicy),
                                     policy_id := agentPolicyId\<rparr>)
                      isoDate options\<rparr>)"

definition bulkCreate ::
  "'w collaborators \<Rightarrow> new_package_policy list \<Rightarrow> string \<Rightarrow> service_options
     \<Rightarrow> (package_policy list, 'w) io" where
  "bulkCreate env packagePolicies agentPolicyId options =
     bind (new_Date_toISOString env)
       (\<lambda>isoDate.
     bind (mapM (bulk_create_object env agentPolicyId isoDate options) packagePolicies)
       (\<lambda>objects.
     bind (call_soClient_bulkCreate env objects)
       (\<lambda>saved_objects.
     bind (call_assignPackagePolicies env agentPolicyId
             (map so_id (filter (\<lambda>so. so_error so = None) saved_objects))
             (opt_user options) (bump_option options))
       (\<lambda>_.
     return (map saved_object_to_package_policy
               (filter (\<lambda>so. so_error so = None) saved_objects))))))"

definition get :: "'w collaborators \<Rightarrow> string \<Rightarrow> (package_policy option, 'w) io" where
  "get env id0 =
     bind (call_soClient_get env id0)
       (\<lambda>packagePolicySO.
          case packagePolicySO of
            None \<Rightarrow> return None
          | Some so \<Rightarrow>
              (case so_error so of
                 Some message \<Rightarrow> throw (Error message)
               | None \<Rightarrow> return (Some (saved_object_to_package_policy so))))"

text \<open>The block of \<^verbatim>\<open>update\<close> under \<^verbatim>\<open>if (packagePolicy.package?.name)\<close>.\<close>

definition update_package_step ::
  "'w collaborators \<Rightarrow> update_package_policy \<Rightarrow> package_policy_input list
     \<Rightarrow> (package_policy_input list, 'w) io" where
  "update_package_step env packagePolicy inputs0 =
     (if has_package_name packagePolicy then
        bind (call_getPackageInfo env (pkg_name (the (package packagePolicy)))
                (pkg_version (the (package packagePolicy))))
          (\<lambda>pkgInfo. compilePackagePolicyInputs env pkgInfo inputs0)
      else return inputs0)"

text \<open>
  The attributes \<^verbatim>\<open>update\<close> persists: \<^verbatim>\<open>restOfPackagePolicy\<close> (the argument without its
  version token), the inputs, the revision and the update stamps.
\<close>

definition update_attributes ::
  "update_package_policy \<Rightarrow> package_policy_input list \<Rightarrow> int \<Rightarrow> string \<Rightarrow> service_options
     \<Rightarrow> package_policy_update_attributes" where
  "update_attributes packagePolicy inputs1 revision1 isoDate options =
     new_package_policy.extend
       ((new_package_policy.truncate packagePolicy)\<lparr>inputs := inputs1\<rparr>)
       (package_policy_update_attributes.fields revision1 isoDate (actor options))"

text \<open>
  \<^verbatim>\<open>update\<close>. Its result is what the final \<^verbatim>\<open>this.get\<close> returns, which the source casts
  to \<^verbatim>\<open>PackagePolicy\<close>; it is \<^verbatim>\<open>null\<close> when the store no longer has the object.
\<close>

definition update ::
  "'w collaborators \<Rightarrow> string \<Rightarrow> update_package_policy \<Rightarrow> service_options
     \<Rightarrow> (package_policy option, 'w) io" where
  "update env id0 packagePolicy options =
     bind (get env id0)
       (\<lambda>oldPackagePolicy0.
     case oldPackagePolicy0 of
       None \<Rightarrow> throw (Error ''Package policy not found'')
     | Some oldPackagePolicy \<Rightarrow>
     bind (call_agentPolicyService_get env (policy_id packagePolicy) None)
       (\<lambda>parentAgentPolicy.
     case parentAgentPolicy of
       None \<Rightarrow> throw (Error ''Agent policy not found'')
     | Some parent \<Rightarrow>
     if is_managed parent then
       throw (IngestManagerError (''Cannot update integrations of managed policy '' @ id0))
     else if find (\<lambda>siblingPackagePolicy.
                     pp_id siblingPackagePolicy \<noteq> id0
                     \<and> name siblingPackagePolicy = name packagePolicy)
               (package_policies parent) \<noteq> None then
       throw (Error ''There is already a package with the same name on this agent policy'')
     else
     bind (update_package_step env packagePolicy
             (map (assignStreamIdToInput (pp_id oldPackagePolicy)) (inputs packagePolicy)))
       (\<lambda>inputs1.
     bind (new_Date_toISOString env)
       (\<lambda>isoDate.
     bind (call_soClient_update env id0
             (update_attributes packagePolicy inputs1 (js_plus (revision oldPackagePolicy) 1)
                isoDate options)
             (version packagePolicy))
       (\<lambda>_.
     bind (call_bumpRevision env (policy_id packagePolicy) (opt_user options))
       (\<lambda>_.
     get env id0))))))"

text \<open>
  \<^verbatim>\<open>delete\<close>: the \<^verbatim>\<open>try\<close> block for one id, the \<^verbatim>\<open>try\<close>/\<^verbatim>\<open>catch\<close> statement that is the
  body of the \<^verbatim>\<open>for\<close> loop, and the loop over the ids with the \<^verbatim>\<open>result\<close> array it
  pushes to.
\<close>

definition delete_try ::
  "'w collaborators \<Rightarrow> service_options \<Rightarrow> string \<Rightarrow> (delete_result, 'w) io" where
  "delete_try env options id0 =
     bind (get env id0)
       (\<lambda>packagePolicy0.
     case packagePolicy0 of
       None \<Rightarrow> throw (Error ''Package policy not found'')
     | Some packagePolicy \<Rightarrow>
     bind (if opt_skipUnassignFromAgentPolicies options \<noteq> Some True then
             call_unassignPackagePolicies env (policy_id packagePolicy)
               [pp_id packagePolicy] (opt_user options)
           else return ())
       (\<lambda>_.
     bind (call_soClient_delete env id0)
       (\<lambda>_.
     return \<lparr>del_id = id0, del_name = Some (name packagePolicy), del_success = True,
             del_response = None\<rparr>)))"

definition delete_one ::
  "'w collaborators \<Rightarrow> service_options \<Rightarrow> string \<Rightarrow> (delete_result, 'w) io" where
  "delete_one env options id0 =
     try_catch (delete_try env options id0)
       (\<lambda>error.
          return \<lparr>del_id = id0, del_name = None, del_success = False,
                  del_response = Some (ingestErrorToResponseOptions env error)\<rparr>)"

primrec delete_loop ::
  "'w collaborators \<Rightarrow> service_options \<Rightarrow> string list \<Rightarrow> delete_result list
     \<Rightarrow> (delete_result list, 'w) io" where
  "delete_loop env options [] result = return result"
| "delete_loop env options (id0 # ids) result =
     bind (delete_one env options id0)
       (\<lambda>entry. delete_loop env options ids (result @ [entry]))"

definition delete ::
  "'w collaborators \<Rightarrow> string list \<Rightarrow> service_options \<Rightarrow> (delete_result list, 'w) io" where
  "delete env ids options = delete_loop env options ids []"

text \<open>
  \<^verbatim>\<open>runExternalCallbacks\<close>: the loop over the registered callbacks (a \<^verbatim>\<open>Set\<close>, in insertion
  order), then the function. The counter numbers the calls in the log.
\<close>

primrec run_callbacks ::
  "'w collaborators \<Rightarrow> string \<Rightarrow> request_handler_context \<Rightarrow> kibana_request \<Rightarrow> nat
     \<Rightarrow> 'w external_callback list \<Rightarrow> new_package_policy \<Rightarrow> (new_package_policy, 'w) io" where
  "run_callbacks env externalCallbackType context request n [] updatedNewData =
     return updatedNewData"
| "run_callbacks env externalCallbackType context request n (callback # callbacks) updatedNewData =
     bind (invoke (ExternalCallbackCall externalCallbackType n)
             (callback updatedNewData context request))
       (\<lambda>result.
     bind (if externalCallbackType = ''packagePolicyCreate'' then
             lift (NewPackagePolicySchema_validate env result)
           else if externalCallbackType = ''packagePolicyUpdate'' then
             lift (UpdatePackagePolicySchema_validate env result)
           else return updatedNewData)
       (\<lambda>validated.
     run_callbacks env externalCallbackType context request (Suc n) callbacks validated))"

definition runExternalCallbacks ::
  "'w collaborators \<Rightarrow> string \<Rightarrow> new_package_policy \<Rightarrow> request_handler_context
     \<Rightarrow> kibana_request \<Rightarrow> (new_package_policy, 'w) io" where
  "runExternalCallbacks env externalCallbackType newPackagePolicy context request =
     (case getExternalCallbacks env externalCallbackType of
        None \<Rightarrow> return newPackagePolicy
      | Some externalCallbacks \<Rightarrow>
          if 0 < length externalCallbacks then
            run_callbacks env externalCallbackType context request 0 externalCallbacks
              newPackagePolicy
          else return newPackagePolicy)"

subsection \<open>Properties of runs\<close>

text \<open>
  \<open>post m P Q\<close>: every run of \<open>m\<close> only appends calls that satisfy \<open>P\<close> to the log, and a
  run that returns a value returns one that satisfies \<open>Q\<close>.
\<close>

definition post :: "('a, 'w) io \<Rightarrow> (call \<Rightarrow> bool) \<Rightarrow> ('a \<Rightarrow> bool) \<Rightarrow> bool" where
  "post m P Q \<longleftrightarrow>
     (\<forall>s r s'. m s = (r, s') \<longrightarrow>
        (\<exists>cs. calls s' = calls s @ cs \<and> list_all P cs) \<and> (\<forall>x. r = Inr x \<longrightarrow> Q x))"

text \<open>
  Every stream of every input carries the identifier derived from the input type, the
  dataset and the policy id.
\<close>

definition stream_ids_derived :: "string \<Rightarrow> package_policy_input list \<Rightarrow> bool" where
  "stream_ids_derived packagePolicyId inputs0 \<longleftrightarrow>
     (\<forall>input \<in> set inputs0. \<forall>stream \<in> set (streams input).
        stream_id stream
          = Some (input_type input @ ''-'' @ stream_dataset stream @ ''-'' @ packagePolicyId))"

text \<open>
  The calls made before anything is persisted: lookups, package installation, registry
  reads, the uuid.
\<close>

definition preparation_call :: "call \<Rightarrow> bool" where
  "preparation_call c =
     (case c of
        AgentPolicyGet agentPolicyId withPackagePolicies \<Rightarrow> True
      | EnsureInstalledPackage pkgName \<Rightarrow> True
      | GetPackageInfo pkgName pkgVersion \<Rightarrow> True
      | RegistryFetchInfo pkgName pkgVersion \<Rightarrow> True
      | GetAssetsData registryPkgInfo ending datasetName \<Rightarrow> True
      | UuidV4 \<Rightarrow> True
      | _ \<Rightarrow> False)"

text \<open>The id of a created policy: the supplied one, or one the uuid generator gives.\<close>

definition chosen_id :: "'w collaborators \<Rightarrow> service_options \<Rightarrow> string \<Rightarrow> bool" where
  "chosen_id env options packagePolicyId \<longleftrightarrow>
     (case opt_id options of
        None \<Rightarrow> packagePolicyId \<in> range (\<lambda>w. fst (uuid_v4 env w))
      | Some supplied \<Rightarrow>
          if supplied = [] then packagePolicyId \<in> range (\<lambda>w. fst (uuid_v4 env w))
          else packagePolicyId = supplied)"

text \<open>The own properties of an object that may be \<^verbatim>\<open>undefined\<close>.\<close>

definition properties :: "config_record option \<Rightarrow> config_record" where
  "properties source = (case source of None \<Rightarrow> [] | Some props \<Rightarrow> props)"

text \<open>
  What \<open>create\<close> writes into a record it persists: one timestamp, read from the clock, in
  both timestamp fields, and the acting user in both actor fields.
\<close>

definition stamps_agree :: "'w collaborators \<Rightarrow> service_options \<Rightarrow> call \<Rightarrow> bool" where
  "stamps_agree env options c =
     (case c of
        SoCreate type0 attributes options' \<Rightarrow>
          created_at attributes = updated_at attributes
          \<and> created_by attributes = updated_by attributes
          \<and> created_at attributes \<in> range (\<lambda>w. fst (date_now env w))
          \<and> created_by attributes = actor options
      | _ \<Rightarrow> True)"

text \<open>The object \<open>bulkCreate\<close> builds for one policy once its id is drawn.\<close>

definition bulk_object ::
  "'w collaborators \<Rightarrow> string \<Rightarrow> string \<Rightarrow> service_options \<Rightarrow> new_package_policy \<Rightarrow> string
     \<Rightarrow> so_bulk_create_object" where
  "bulk_object env agentPolicyId isoDate options packagePolicy packagePolicyId =
     \<lparr>bo_type = SAVED_OBJECT_TYPE env, bo_id = packagePolicyId,
      bo_attributes =
        new_attributes
          (packagePolicy\<lparr>inputs := map (assignStreamIdToInput packagePolicyId)
                                       (inputs packagePolicy),
                         policy_id := agentPolicyId\<rparr>)
          isoDate options\<rparr>"

text \<open>A call that bumps the revision of an agent policy.\<close>

definition bump_call :: "call \<Rightarrow> bool" where
  "bump_call c = (case c of BumpRevision agentPolicyId user \<Rightarrow> True | _ \<Rightarrow> False)"

text \<open>The revisions that a run hands to the store in its calls of \<^verbatim>\<open>soClient.update\<close>, in order.\<close>

definition persisted_revisions :: "call list \<Rightarrow> int list" where
  "persisted_revisions cs =
     List.map_filter
       (\<lambda>c. case c of
              SoUpdate type0 id0 attributes version0 \<Rightarrow> Some (upd_revision attributes)
            | _ \<Rightarrow> None) cs"

text \<open>
  Modelled from the spec: the saved-objects store is not part of this file. The spec
  describes it as a document store whose calls return the stored id, version token and
  attributes. For the revision that means, with \<open>rv w id\<close> the revision the store holds for
  \<open>id\<close> in the world \<open>w\<close>: a successful \<open>get\<close> returns that revision and changes none, a
  successful \<open>update\<close> stores the revision it is given, and the other collaborators that
  \<open>update\<close> calls leave the stored revisions alone.
\<close>

definition store_tracks_revision ::
  "'w collaborators \<Rightarrow> ('w \<Rightarrow> string \<Rightarrow> int option) \<Rightarrow> bool" where
  "store_tracks_revision env rv \<longleftrightarrow>
     (\<forall>t i w so w'. soClient_get env t i w = (Inr (Some so), w') \<longrightarrow> so_error so = None \<longrightarrow>
        rv w i = Some (revision (so_attributes so)))
     \<and> (\<forall>t i w x w'. soClient_get env t i w = (Inr x, w') \<longrightarrow> rv w' = rv w)
     \<and> (\<forall>t i a v w x w'. soClient_update env t i a v w = (Inr x, w') \<longrightarrow>
           rv w' = (rv w)(i \<mapsto> upd_revision a))
     \<and> (\<forall>p b w x w'. agentPolicyService_get env p b w = (Inr x, w') \<longrightarrow> rv w' = rv w)
     \<and> (\<forall>p u w x w'. agentPolicyService_bumpRevision env p u w = (Inr x, w') \<longrightarrow> rv w' = rv w)
     \<and> (\<forall>n v w x w'. getPackageInfo env n v w = (Inr x, w') \<longrightarrow> rv w' = rv w)
     \<and> (\<forall>n v w x w'. Registry_fetchInfo env n v w = (Inr x, w') \<longrightarrow> rv w' = rv w)
     \<and> (\<forall>g f d w x w'. getAssetsData env g f d w = (Inr x, w') \<longrightarrow> rv w' = rv w)
     \<and> (\<forall>w. rv (snd (date_now env w)) = rv w)"

text \<open>
  Successive updates of one policy, each with its own arguments; the first failure stops
  them.
\<close>

primrec update_repeatedly ::
  "'w collaborators \<Rightarrow> string \<Rightarrow> (update_package_policy \<times> service_options) list
     \<Rightarrow> (unit, 'w) io" where
  "update_repeatedly env id0 [] = return ()"
| "update_repeatedly env id0 (request # requests) =
     bind (update env id0 (fst request) (snd request))
       (\<lambda>_. update_repeatedly env id0 requests)"

text \<open>
  \<open>keeps f m\<close>: a run of \<open>m\<close> that returns leaves the observation \<open>f\<close> of the world as it
  was.
\<close>

definition keeps :: "('w \<Rightarrow> 'k) \<Rightarrow> ('a, 'w) io \<Rightarrow> bool" where
  "keeps f m \<longleftrightarrow> (\<forall>s x s'. m s = (Inr x, s') \<longrightarrow> f (world s') = f (world s))"

text \<open>The error of the name check of \<open>update\<close>.\<close>

abbreviation duplicate_name :: error where
  "duplicate_name \<equiv> Error ''There is already a package with the same name on this agent policy''"

text \<open>\<open>raises m E\<close>: every error that a run of \<open>m\<close> fails with satisfies \<open>E\<close>.\<close>

definition raises :: "('a, 'w) io \<Rightarrow> (error \<Rightarrow> bool) \<Rightarrow> bool" where
  "raises m E \<longleftrightarrow> (\<forall>s e s'. m s = (Inl e, s') \<longrightarrow> E e)"

text \<open>
  \<open>raised_outside env e\<close>: the error \<open>e\<close> can reach \<open>update\<close> from outside this file. One
  of the collaborators that \<open>update\<close> calls rejects with it, or the store answers a lookup
  with a saved object whose \<^verbatim>\<open>error\<close> member carries its message, which \<open>get\<close> throws as
  an \<^verbatim>\<open>Error\<close>.
\<close>

definition raised_outside :: "'w collaborators \<Rightarrow> error \<Rightarrow> bool" where
  "raised_outside env e \<longleftrightarrow>
     (\<exists>t i w. fst (soClient_get env t i w) = Inl e)
     \<or> (\<exists>t i w so message.
           fst (soClient_get env t i w) = Inr (Some so) \<and> so_error so = Some message
           \<and> e = Error message)
     \<or> (\<exists>p b w. fst (agentPolicyService_get env p b w) = Inl e)
     \<or> (\<exists>n v w. fst (getPackageInfo env n v w) = Inl e)
     \<or> (\<exists>n v w. fst (Registry_fetchInfo env n v w) = Inl e)
     \<or> (\<exists>g f d w. fst (getAssetsData env g f d w) = Inl e)
     \<or> (\<exists>variables templateStr. compileTemplate env variables templateStr = Inl e)
     \<or> (\<exists>t i a v w. fst (soClient_update env t i a v w) = Inl e)
     \<or> (\<exists>p u w. fst (agentPolicyService_bumpRevision env p u w) = Inl e)"

text \<open>
  \<open>disabled_uncompiled input\<close>: a compiled input carries no artifact where it is switched
  off: none of its own when the input is disabled, and none on any of its disabled streams.
\<close>

definition disabled_uncompiled :: "package_policy_input \<Rightarrow> bool" where
  "disabled_uncompiled input \<longleftrightarrow>
     (\<not> input_enabled input \<longrightarrow> compiled_input input = None)
     \<and> (\<forall>stream \<in> set (streams input).
           \<not> stream_enabled stream \<longrightarrow> compiled_stream stream = None)"

subsection \<open>An in-memory instance of the collaborators\<close>

text \<open>
  Modelled from the spec: the collaborators are not part of this file, and this instance
  follows what the spec says of them. It is a small world on which the service can be run:
  a store of saved objects kept as an association list, which returns the attributes it was
  given, without an error member, and rejects an unknown id or a stale version token; agent policies with their
  managed flag and the ids of their package policies; one package (\<open>nginx\<close>) with an input
  template and a stream template; and a counter that drives the clock and the uuid
  generator. The template engine of this instance returns the bindings and the template it
  was given. The theorems hold for every instance; this one serves to run them.
\<close>

record mem_world =
  mw_objects :: "(string \<times> saved_object) list"
  mw_agent_policies :: "(string \<times> bool \<times> string list) list"
  mw_bumps :: nat
  mw_ticks :: nat

definition mem_agent_get :: "string \<Rightarrow> bool option \<Rightarrow> (agent_policy option, mem_world) collaborator" where
  "mem_agent_get agentPolicyId withPackagePolicies w =
     (case map_of (mw_agent_policies w) agentPolicyId of
        None \<Rightarrow> (Inr None, w)
      | Some (managed, ids) \<Rightarrow>
          (Inr (Some \<lparr>ap_id = agentPolicyId, is_managed = managed,
                      package_policies =
                        map saved_object_to_package_policy
                          (List.map_filter (map_of (mw_objects w)) ids)\<rparr>), w))"

definition mem_agent_assign ::
  "string \<Rightarrow> string list \<Rightarrow> authenticated_user option \<Rightarrow> bool \<Rightarrow> (unit, mem_world) collaborator" where
  "mem_agent_assign agentPolicyId ids user bump w =
     (case map_of (mw_agent_policies w) agentPolicyId of
        None \<Rightarrow> (Inl (OtherError ''Agent policy not found''), w)
      | Some (managed, old) \<Rightarrow>
          (Inr (), w\<lparr>mw_agent_policies :=
                        (agentPolicyId, managed, old @ ids) # mw_agent_policies w,
                      mw_bumps := (if bump then Suc (mw_bumps w) else mw_bumps w)\<rparr>))"

definition mem_agent_unassign ::
  "string \<Rightarrow> string list \<Rightarrow> authenticated_user option \<Rightarrow> (unit, mem_world) collaborator" where
  "mem_agent_unassign agentPolicyId ids user w =
     (case map_of (mw_agent_policies w) agentPolicyId of
        None \<Rightarrow> (Inl (OtherError ''Agent policy not found''), w)
      | Some (managed, old) \<Rightarrow>
          (Inr (), w\<lparr>mw_agent_policies :=
                        (agentPolicyId, managed, filter (\<lambda>i. i \<notin> set ids) old)
                          # mw_agent_policies w,
                      mw_bumps := Suc (mw_bumps w)\<rparr>))"

definition mem_agent_bump :: "string \<Rightarrow> authenticated_user option \<Rightarrow> (unit, mem_world) collaborator" where
  "mem_agent_bump agentPolicyId user w = (Inr (), w\<lparr>mw_bumps := Suc (mw_bumps w)\<rparr>)"

definition nginx_info :: package_info where
  "nginx_info =
     \<lparr>pi_name = ''nginx'', pi_version = ''0.3.0'',
      policy_templates =
        Some [\<lparr>pt_inputs = Some [\<lparr>ri_type = ''logfile'',
                                   ri_template_path = Some ''logfile.yml.hbs''\<rparr>]\<rparr>],
      data_streams =
        Some [\<lparr>ds_dataset = ''nginx.access'',
               ds_streams = Some [\<lparr>rs_input = ''logfile'',
                                   rs_template_path = Some ''stream.yml.hbs''\<rparr>]\<rparr>]\<rparr>"

definition mem_getPackageInfo :: "string \<Rightarrow> string \<Rightarrow> (package_info, mem_world) collaborator" where
  "mem_getPackageInfo pkgName pkgVersion w =
     (if pkgName = ''nginx'' then (Inr nginx_info, w)
      else (Inl (OtherError ''Package not found''), w))"

definition mem_assets :: "archive_entry list" where
  "mem_assets =
     [\<lparr>ae_path = ''nginx-0.3.0/agent/input/logfile.yml.hbs'', ae_buffer = Some ''type: {{a}}''\<rparr>,
      \<lparr>ae_path = ''nginx-0.3.0/data_stream/access/agent/stream/stream.yml.hbs'',
       ae_buffer = Some ''paths: {{b}}''\<rparr>]"

definition mem_getAssetsData ::
  "registry_package \<Rightarrow> (string \<Rightarrow> bool) \<Rightarrow> string option
     \<Rightarrow> (archive_entry list, mem_world) collaborator" where
  "mem_getAssetsData registryPkgInfo pathFilter datasetName w =
     (Inr (filter (\<lambda>entry. pathFilter (ae_path entry)) mem_assets), w)"

definition mem_so_create ::
  "string \<Rightarrow> package_policy_so_attributes \<Rightarrow> service_options \<Rightarrow> (saved_object, mem_world) collaborator" where
  "mem_so_create type0 attributes options w =
     (let newId = (case opt_id options of None \<Rightarrow> ''generated'' | Some i \<Rightarrow> i) in
      if map_of (mw_objects w) newId \<noteq> None then (Inl (OtherError ''Conflict''), w)
      else
        (Inr \<lparr>so_id = newId, so_version = Some ''v'', so_attributes = attributes,
              so_error = None\<rparr>,
         w\<lparr>mw_objects :=
             (newId, \<lparr>so_id = newId, so_version = Some ''v'', so_attributes = attributes,
                      so_error = None\<rparr>) # mw_objects w\<rparr>))"

definition mem_so_bulkCreate ::
  "so_bulk_create_object list \<Rightarrow> (saved_object list, mem_world) collaborator" where
  "mem_so_bulkCreate objects w =
     (Inr (map (\<lambda>object. \<lparr>so_id = bo_id object, so_version = Some ''v'',
                           so_attributes = bo_attributes object, so_error = None\<rparr>) objects),
      w\<lparr>mw_objects :=
          map (\<lambda>object. (bo_id object,
                         \<lparr>so_id = bo_id object, so_version = Some ''v'',
                          so_attributes = bo_attributes object, so_error = None\<rparr>)) objects
          @ mw_objects w\<rparr>)"

definition mem_so_get :: "string \<Rightarrow> string \<Rightarrow> (saved_object option, mem_world) collaborator" where
  "mem_so_get type0 id0 w =
     (case map_of (mw_objects w) id0 of
        None \<Rightarrow> (Inl (OtherError ''Saved object not found''), w)
      | Some so \<Rightarrow> (Inr (Some (so\<lparr>so_error := None\<rparr>)), w))"

definition mem_so_update ::
  "string \<Rightarrow> string \<Rightarrow> package_policy_update_attributes \<Rightarrow> string option
     \<Rightarrow> (unit, mem_world) collaborator" where
  "mem_so_update type0 id0 attributes version0 w =
     (case map_of (mw_objects w) id0 of
        None \<Rightarrow> (Inl (OtherError ''Saved object not found''), w)
      | Some so \<Rightarrow>
          if version0 \<noteq> None \<and> version0 \<noteq> so_version so then (Inl (OtherError ''Conflict''), w)
          else
            (Inr (),
             w\<lparr>mw_objects :=
                 (id0, so\<lparr>so_attributes :=
                            new_package_policy.extend (new_package_policy.truncate attributes)
                              (package_policy_so_attributes.fields (upd_revision attributes)
                                 (created_at (so_attributes so)) (created_by (so_attributes so))
                                 (upd_updated_at attributes) (upd_updated_by attributes))\<rparr>)
                 # mw_objects w\<rparr>))"

definition mem_so_delete :: "string \<Rightarrow> string \<Rightarrow> (unit, mem_world) collaborator" where
  "mem_so_delete type0 id0 w =
     (case map_of (mw_objects w) id0 of
        None \<Rightarrow> (Inl (OtherError ''Saved object not found''), w)
      | Some so \<Rightarrow> (Inr (), w\<lparr>mw_objects := filter (\<lambda>entry. fst entry \<noteq> id0) (mw_objects w)\<rparr>))"

definition mem_error_response :: "error \<Rightarrow> response_options" where
  "mem_error_response e =
     (case e of
        Error message \<Rightarrow> \<lparr>statusCode = 500, body_message = message\<rparr>
      | IngestManagerError message \<Rightarrow> \<lparr>statusCode = 400, body_message = message\<rparr>
      | OtherError message \<Rightarrow> \<lparr>statusCode = 500, body_message = message\<rparr>)"

definition mem_env :: "mem_world collaborators" where
  "mem_env =
     \<lparr>SAVED_OBJECT_TYPE = ''ingest-package-policies'',
      agentPolicyService_get = mem_agent_get,
      agentPolicyService_assignPackagePolicies = mem_agent_assign,
      agentPolicyService_unassignPackagePolicies = mem_agent_unassign,
      agentPolicyService_bumpRevision = mem_agent_bump,
      ensureInstalledPackage = (\<lambda>pkgName w. (Inr (), w)),
      getPackageInfo = mem_getPackageInfo,
      Registry_fetchInfo =
        (\<lambda>pkgName pkgVersion w. (Inr \<lparr>rp_name = pkgName, rp_version = pkgVersion\<rparr>, w)),
      getAssetsData = mem_getAssetsData,
      compileTemplate =
        (\<lambda>variables templateStr. Inr (JObj [(''template'', JStr templateStr),
                                              (''vars'', JObj variables)])),
      isPackageLimited = (\<lambda>pkgInfo. False),
      doesAgentPolicyAlreadyIncludePackage = (\<lambda>agentPolicy packageName. False),
      soClient_create = mem_so_create,
      soClient_bulkCreate = mem_so_bulkCreate,
      soClient_get = mem_so_get,
      soClient_update = mem_so_update,
      soClient_delete = mem_so_delete,
      date_now = (\<lambda>w. (''T'' @ replicate (mw_ticks w) (CHR ''+''), w\<lparr>mw_ticks := Suc (mw_ticks w)\<rparr>)),
      uuid_v4 = (\<lambda>w. (''u'' @ replicate (mw_ticks w) (CHR ''+''), w\<lparr>mw_ticks := Suc (mw_ticks w)\<rparr>)),
      ingestErrorToResponseOptions = mem_error_response,
      getExternalCallbacks = (\<lambda>externalCallbackType. None),
      NewPackagePolicySchema_validate = Inr,
      UpdatePackagePolicySchema_validate = Inr\<rparr>"

text \<open>Concrete inputs: a policy of the \<open>nginx\<close> package and a world with one agent policy.\<close>

definition nginx_stream :: package_policy_input_stream where
  "nginx_stream =
     \<lparr>stream_id = None, stream_enabled = True, stream_dataset = ''nginx.access'',
      stream_data_stream_type = ''logs'',
      stream_vars = Some [(''a'', JNum 2), (''b'', JNum 3)], stream_config = None,
      compiled_stream = None\<rparr>"

definition nginx_input :: package_policy_input where
  "nginx_input =
     \<lparr>input_type = ''logfile'', input_enabled = True, input_vars = Some [(''a'', JNum 1)],
      input_config = None, streams = [nginx_stream], compiled_input = None\<rparr>"

definition nginx_policy :: new_package_policy where
  "nginx_policy =
     \<lparr>name = ''nginx-1'', description = None, namespace = ''default'', enabled = True,
      policy_id = ''agent-1'', output_id = ''out'',
      package = Some \<lparr>pkg_name = ''nginx'', pkg_title = ''Nginx'', pkg_version = ''0.3.0''\<rparr>,
      inputs = [nginx_input]\<rparr>"

definition no_options :: service_options where
  "no_options =
     \<lparr>opt_id = None, opt_user = None, opt_bumpRevision = None,
      opt_skipUnassignFromAgentPolicies = None\<rparr>"

definition mem_start :: "mem_world state" where
  "mem_start =
     \<lparr>world = \<lparr>mw_objects = [], mw_agent_policies = [(''agent-1'', False, [])],
               mw_bumps = 0, mw_ticks = 0\<rparr>,
      calls = []\<rparr>"

text \<open>
  Worlds that already hold a policy: \<open>mem_stored\<close> has the policy \<open>pp-1\<close> on the agent policy
  \<open>agent-1\<close>; \<open>mem_two\<close> also has \<open>pp-2\<close>, of the same name, on \<open>agent-2\<close>; in
  \<open>mem_managed\<close> the agent policy \<open>agent-1\<close> is managed. \<open>nginx_update\<close> updates \<open>pp-1\<close> in
  place, \<open>nginx_moved\<close> moves it to \<open>agent-2\<close>; both keep its name. \<open>mem_revision\<close> reads the
  revision this store holds.
\<close>

definition nginx_stored :: saved_object where
  "nginx_stored =
     \<lparr>so_id = ''pp-1'', so_version = Some ''v'',
      so_attributes = new_attributes nginx_policy ''T'' no_options, so_error = None\<rparr>"

definition mem_stored :: "mem_world state" where
  "mem_stored =
     \<lparr>world = \<lparr>mw_objects = [(''pp-1'', nginx_stored)],
               mw_agent_policies = [(''agent-1'', False, [''pp-1''])],
               mw_bumps = 0, mw_ticks = 0\<rparr>,
      calls = []\<rparr>"

definition mem_two :: "mem_world state" where
  "mem_two =
     \<lparr>world = \<lparr>mw_objects =
                 [(''pp-1'', nginx_stored),
                  (''pp-2'', nginx_stored\<lparr>so_id := ''pp-2'',
                                so_attributes :=
                                  (so_attributes nginx_stored)\<lparr>policy_id := ''agent-2''\<rparr>\<rparr>)],
               mw_agent_policies =
                 [(''agent-1'', False, [''pp-1'']), (''agent-2'', False, [''pp-2''])],
               mw_bumps = 0, mw_ticks = 0\<rparr>,
      calls = []\<rparr>"

definition mem_managed :: "mem_world state" where
  "mem_managed =
     \<lparr>world = \<lparr>mw_objects = [(''pp-1'', nginx_stored)],
               mw_agent_policies = [(''agent-1'', True, [''pp-1''])],
               mw_bumps = 0, mw_ticks = 0\<rparr>,
      calls = []\<rparr>"

text \<open>In \<open>mem_large\<close> the policy \<open>pp-1\<close> is stored at revision \<open>2 ^ 53\<close>.\<close>

definition mem_large :: "mem_world state" where
  "mem_large =
     \<lparr>world = \<lparr>mw_objects =
                 [(''pp-1'', nginx_stored\<lparr>so_attributes :=
                                (so_attributes nginx_stored)\<lparr>revision := 9007199254740992\<rparr>\<rparr>)],
               mw_agent_policies = [(''agent-1'', False, [''pp-1''])],
               mw_bumps = 0, mw_ticks = 0\<rparr>,
      calls = []\<rparr>"

definition nginx_update :: update_package_policy where
  "nginx_update = new_package_policy.extend nginx_policy (update_package_policy.fields None)"

definition nginx_moved :: update_package_policy where
  "nginx_moved = nginx_update\<lparr>policy_id := ''agent-2''\<rparr>"

definition mem_revision :: "mem_world \<Rightarrow> string \<Rightarrow> int option" where
  "mem_revision w id0 =
     (case map_of (mw_objects w) id0 of
        None \<Rightarrow> None
      | Some so \<Rightarrow> Some (revision (so_attributes so)))"

section \<open>Verification\<close>

subsection \<open>Whole numbers as doubles\<close>

lemma bit_length_le: "n < 2 ^ k \<Longrightarrow> bit_length n \<le> k"
proof (induction k arbitrary: n)
  case 0
  then show ?case by (simp add: bit_length.simps)
next
  case (Suc k)
  from Suc.prems have "n div 2 < 2 ^ k" by simp
  from Suc.IH [OF this] show ?case by (subst bit_length.simps) simp
qed

lemma to_double_exact: "\<bar>n\<bar> < 2 ^ 53 \<Longrightarrow> to_double n = n"
  using bit_length_le [of "\<bar>n\<bar>" 53]
  by (simp add: to_double_def Let_def sgn_mult_abs)

lemma to_double_limit: "to_double 9007199254740992 = 9007199254740992"
  by code_simp

lemma js_plus_one:
  assumes "- (2 ^ 53) \<le> a" and "a < 2 ^ 53"
  shows "js_plus a 1 = a + 1"
proof (cases "a + 1 = 2 ^ 53")
  case True
  then show ?thesis using to_double_limit by (simp add: js_plus_def)
next
  case False
  with assms have "\<bar>a + 1\<bar> < 2 ^ 53" by simp
  then show ?thesis unfolding js_plus_def by (rule to_double_exact)
qed

subsection \<open>The monad and the call log\<close>

lemma bind_Inr_iff:
  "bind m f s = (Inr y, s') \<longleftrightarrow> (\<exists>x s1. m s = (Inr x, s1) \<and> f x s1 = (Inr y, s'))"
  by (auto simp: bind_def split: prod.splits sum.splits)

lemma bind_InrE:
  assumes "bind m f s = (Inr y, s')"
  obtains x s1 where "m s = (Inr x, s1)" and "f x s1 = (Inr y, s')"
  using assms unfolding bind_Inr_iff by (elim exE conjE)

lemma invoke_iff:
  "invoke c f s = (r, s') \<longleftrightarrow> (\<exists>w. f (world s) = (r, w) \<and> s' = \<lparr>world = w, calls = calls s @ [c]\<rparr>)"
  by (auto simp: invoke_def split: prod.splits)

lemma invoke_calls: "invoke c f s = (r, s') \<Longrightarrow> calls s' = calls s @ [c]"
  by (auto simp: invoke_iff)

lemma return_iff: "return x s = (r, s') \<longleftrightarrow> r = Inr x \<and> s' = s"
  by (auto simp: return_def)

lemma throw_iff: "throw e s = (r, s') \<longleftrightarrow> r = Inl e \<and> s' = s"
  by (auto simp: throw_def)

lemma lift_iff: "lift v s = (r, s') \<longleftrightarrow> v = r \<and> s' = s"
  by (auto simp: lift_def)

lemma new_Date_toISOString_iff:
  "new_Date_toISOString env s = (r, s') \<longleftrightarrow>
     r = Inr (fst (date_now env (world s)))
     \<and> s' = \<lparr>world = snd (date_now env (world s)), calls = calls s @ [DateNow]\<rparr>"
  by (auto simp: new_Date_toISOString_def invoke_iff split: prod.splits)

lemma call_uuid_v4_iff:
  "call_uuid_v4 env s = (r, s') \<longleftrightarrow>
     r = Inr (fst (uuid_v4 env (world s)))
     \<and> s' = \<lparr>world = snd (uuid_v4 env (world s)), calls = calls s @ [UuidV4]\<rparr>"
  by (auto simp: call_uuid_v4_def invoke_iff split: prod.splits)

lemma mapM_Inr:
  "mapM f xs s = (Inr ys, s') \<Longrightarrow> list_all2 (\<lambda>x y. \<exists>s1 s2. f x s1 = (Inr y, s2)) xs ys"
proof (induction xs arbitrary: ys s)
  case Nil
  then show ?case by (simp add: return_iff)
next
  case (Cons x xs)
  from Cons.prems obtain y s1 ys' where y: "f x s = (Inr y, s1)"
    and rest: "mapM f xs s1 = (Inr ys', s')" and ys: "ys = y # ys'"
    by (auto simp: bind_Inr_iff return_iff)
  from Cons.IH [OF rest] y ys show ?case by auto
qed

lemma list_all2_right_member:
  "list_all2 P xs ys \<Longrightarrow> y \<in> set ys \<Longrightarrow> \<exists>x \<in> set xs. P x y"
  by (induction rule: list_all2_induct) auto

lemma postD:
  "post m P Q \<Longrightarrow> m s = (r, s') \<Longrightarrow>
     (\<exists>cs. calls s' = calls s @ cs \<and> list_all P cs) \<and> (\<forall>x. r = Inr x \<longrightarrow> Q x)"
  unfolding post_def by (erule allE [of _ s], erule allE [of _ r], erule allE [of _ s']) simp

lemma postI:
  "(\<And>s r s'. m s = (r, s') \<Longrightarrow>
      (\<exists>cs. calls s' = calls s @ cs \<and> list_all P cs) \<and> (\<forall>x. r = Inr x \<longrightarrow> Q x))
   \<Longrightarrow> post m P Q"
  unfolding post_def by simp

lemma post_bind:
  assumes "post m P Q" and "\<And>x. Q x \<Longrightarrow> post (f x) P R"
  shows "post (bind m f) P R"
proof (rule postI)
  fix s r s'
  assume run: "bind m f s = (r, s')"
  obtain r1 s1 where m: "m s = (r1, s1)" by (cases "m s")
  from postD [OF assms(1) m] obtain cs1 where cs1: "calls s1 = calls s @ cs1" "list_all P cs1"
    and q: "\<forall>x. r1 = Inr x \<longrightarrow> Q x"
    by (elim conjE exE)
  show "(\<exists>cs. calls s' = calls s @ cs \<and> list_all P cs) \<and> (\<forall>x. r = Inr x \<longrightarrow> R x)"
  proof (cases r1)
    case (Inl e)
    with run m have "r = Inl e" "s' = s1" by (simp_all add: bind_def)
    with cs1 show ?thesis by simp
  next
    case (Inr x)
    with run m have fx: "f x s1 = (r, s')" by (simp add: bind_def)
    from q Inr have "Q x" by simp
    from postD [OF assms(2) [OF this] fx] obtain cs2 where cs2: "calls s' = calls s1 @ cs2" "list_all P cs2"
      and r: "\<forall>y. r = Inr y \<longrightarrow> R y"
      by (elim conjE exE)
    from cs1 cs2 have "calls s' = calls s @ (cs1 @ cs2) \<and> list_all P (cs1 @ cs2)" by simp
    then have "\<exists>cs. calls s' = calls s @ cs \<and> list_all P cs" by (rule exI)
    with r show ?thesis by simp
  qed
qed

lemma post_weaken:
  assumes "post m P Q" and "\<And>c. P c \<Longrightarrow> P' c" and "\<And>x. Q x \<Longrightarrow> Q' x"
  shows "post m P' Q'"
proof (rule postI)
  fix s r s'
  assume run: "m s = (r, s')"
  from postD [OF assms(1) run] obtain cs where cs: "calls s' = calls s @ cs" "list_all P cs"
    and q: "\<forall>x. r = Inr x \<longrightarrow> Q x"
    by (elim conjE exE)
  from cs(2) assms(2) have "list_all P' cs"
    by (simp add: list_all_iff)
  with cs(1) have "calls s' = calls s @ cs \<and> list_all P' cs" by simp
  then have "\<exists>cs. calls s' = calls s @ cs \<and> list_all P' cs" by (rule exI)
  moreover have "\<forall>x. r = Inr x \<longrightarrow> Q' x"
  proof (intro allI impI)
    fix x
    assume "r = Inr x"
    with q have "Q x" by simp
    then show "Q' x" by (rule assms(3))
  qed
  ultimately show "(\<exists>cs. calls s' = calls s @ cs \<and> list_all P' cs) \<and> (\<forall>x. r = Inr x \<longrightarrow> Q' x)"
    by simp
qed

lemma post_return: "Q x \<Longrightarrow> post (return x) P Q"
  by (rule postI) (auto simp: return_def)

lemma post_throw: "post (throw e) P Q"
  by (rule postI) (auto simp: throw_def)

lemma post_lift: "(\<And>x. v = Inr x \<Longrightarrow> Q x) \<Longrightarrow> post (lift v) P Q"
  by (rule postI) (auto simp: lift_def)

lemma post_invoke:
  assumes "P c" and "\<And>w x w'. f w = (Inr x, w') \<Longrightarrow> Q x"
  shows "post (invoke c f) P Q"
proof (rule postI)
  fix s r s'
  assume "invoke c f s = (r, s')"
  then obtain w where w: "f (world s) = (r, w)" and s': "s' = \<lparr>world = w, calls = calls s @ [c]\<rparr>"
    unfolding invoke_iff by (elim exE conjE)
  from s' assms(1) have "calls s' = calls s @ [c] \<and> list_all P [c]" by simp
  then have "\<exists>cs. calls s' = calls s @ cs \<and> list_all P cs" by (rule exI)
  moreover from w assms(2) have "\<forall>x. r = Inr x \<longrightarrow> Q x" by auto
  ultimately show "(\<exists>cs. calls s' = calls s @ cs \<and> list_all P cs) \<and> (\<forall>x. r = Inr x \<longrightarrow> Q x)"
    by simp
qed

lemma post_mapM:
  assumes "\<And>x. x \<in> set xs \<Longrightarrow> post (f x) P Q"
  shows "post (mapM f xs) P (list_all Q)"
  using assms
proof (induction xs)
  case Nil
  show ?case by (simp add: post_return)
next
  case (Cons x xs)
  show ?case
    apply simp
    apply (rule post_bind [where Q = Q])
     apply (rule Cons.prems, simp)
    apply (rule post_bind [where Q = "list_all Q"])
     apply (rule Cons.IH, rule Cons.prems, simp)
    apply (rule post_return, simp)
    done
qed

lemma post_bind_any:
  "post m P (\<lambda>_. True) \<Longrightarrow> (\<And>x. post (f x) P Q) \<Longrightarrow> post (bind m f) P Q"
  by (rule post_bind)

lemma post_invoke_any: "P c \<Longrightarrow> post (invoke c f) P (\<lambda>_. True)"
  by (rule post_invoke) simp_all

lemma post_any: "post m P Q \<Longrightarrow> post m P (\<lambda>_. True)"
  by (erule post_weaken) simp_all

lemma post_lift_any: "post (lift v) P (\<lambda>_. True)"
  by (rule post_lift) simp

lemma post_return_any: "post (return v) P (\<lambda>_. True)"
  by (rule post_return) simp

lemma post_mapM_any:
  assumes "\<And>x. post (f x) P (\<lambda>_. True)"
  shows "post (mapM f xs) P (\<lambda>_. True)"
  by (rule post_any, rule post_mapM, rule assms)

lemma post_new_Date:
  assumes "P DateNow"
  shows "post (new_Date_toISOString env) P (\<lambda>t. t \<in> range (\<lambda>w. fst (date_now env w)))"
  unfolding new_Date_toISOString_def
proof (rule post_invoke)
  show "P DateNow" by (rule assms)
next
  fix w x w'
  assume "(case date_now env w of (t, w1) \<Rightarrow> (Inr t, w1)) = (Inr x, w')"
  then have "x = fst (date_now env w)" by (simp split: prod.splits)
  then show "x \<in> range (\<lambda>w. fst (date_now env w))" by (rule range_eqI)
qed

lemma post_bind_date:
  assumes "P DateNow"
    and "\<And>t. t \<in> range (\<lambda>w. fst (date_now env w)) \<Longrightarrow> post (f t) P Q"
  shows "post (bind (new_Date_toISOString env) f) P Q"
proof (rule post_bind)
  show "post (new_Date_toISOString env) P (\<lambda>t. t \<in> range (\<lambda>w. fst (date_now env w)))"
    using assms(1) by (rule post_new_Date)
next
  fix t
  assume "t \<in> range (\<lambda>w. fst (date_now env w))"
  then show "post (f t) P Q" by (rule assms(2))
qed

lemma post_call_uuid_v4: "P UuidV4 \<Longrightarrow> post (call_uuid_v4 env) P (\<lambda>_. True)"
  unfolding call_uuid_v4_def by (rule post_invoke_any)

lemma post_grows:
  assumes "post m P Q" and "m s = (r, s')"
  shows "length (calls s) \<le> length (calls s')"
  using postD [OF assms] by auto

lemma bind_invoke_grows:
  assumes "\<And>x. post (f x) P Q" and "bind (invoke c g) f s = (r, s')"
  shows "length (calls s) < length (calls s')"
proof (cases "invoke c g s")
  case (Pair r1 s1)
  then have c1: "calls s1 = calls s @ [c]" by (rule invoke_calls)
  show ?thesis
  proof (cases r1)
    case (Inl e)
    with Pair assms(2) have "s' = s1" by (simp add: bind_def)
    with c1 show ?thesis by simp
  next
    case (Inr x)
    with Pair assms(2) have "f x s1 = (r, s')" by (simp add: bind_def)
    from post_grows [OF assms(1) this] c1 show ?thesis by simp
  qed
qed

lemma keepsD: "keeps f m \<Longrightarrow> m s = (Inr x, s') \<Longrightarrow> f (world s') = f (world s)"
  unfolding keeps_def by (erule allE [of _ s], erule allE [of _ x], erule allE [of _ s']) simp

lemma keepsI: "(\<And>s x s'. m s = (Inr x, s') \<Longrightarrow> f (world s') = f (world s)) \<Longrightarrow> keeps f m"
  unfolding keeps_def by simp

lemma keeps_return: "keeps f (return x)"
  by (rule keepsI) (simp add: return_iff)

lemma keeps_throw: "keeps f (throw e)"
  by (rule keepsI) (simp add: throw_iff)

lemma keeps_lift: "keeps f (lift v)"
  by (rule keepsI) (simp add: lift_iff)

lemma keeps_bind:
  assumes "keeps f m" and "\<And>x. keeps f (g x)"
  shows "keeps f (bind m g)"
proof (rule keepsI)
  fix s y s'
  assume "bind m g s = (Inr y, s')"
  then obtain x s1 where "m s = (Inr x, s1)" "g x s1 = (Inr y, s')"
    by (rule bind_InrE)
  with keepsD [OF assms(1)] keepsD [OF assms(2)] show "f (world s') = f (world s)"
    by simp
qed

lemma keeps_invoke:
  assumes "\<And>w x w'. c w = (Inr x, w') \<Longrightarrow> f w' = f w"
  shows "keeps f (invoke ev c)"
  by (rule keepsI) (auto simp: invoke_iff dest: assms)

lemma keeps_mapM:
  assumes "\<And>x. keeps f (g x)"
  shows "keeps f (mapM g xs)"
  by (induction xs) (auto intro!: keeps_return keeps_bind assms)

subsection \<open>The records that are persisted and returned\<close>

lemma new_attributes_simps:
  "revision (new_attributes p t options) = 1"
  "created_at (new_attributes p t options) = t"
  "updated_at (new_attributes p t options) = t"
  "created_by (new_attributes p t options) = actor options"
  "updated_by (new_attributes p t options) = actor options"
  "inputs (new_attributes p t options) = inputs p"
  "policy_id (new_attributes p t options) = policy_id p"
  "name (new_attributes p t options) = name p"
  by (simp_all add: new_attributes_def new_package_policy.defs package_policy_so_attributes.defs)

lemma saved_object_to_package_policy_simps:
  "pp_id (saved_object_to_package_policy so) = so_id so"
  "pp_version (saved_object_to_package_policy so) = so_version so"
  "revision (saved_object_to_package_policy so) = revision (so_attributes so)"
  "created_at (saved_object_to_package_policy so) = created_at (so_attributes so)"
  "updated_at (saved_object_to_package_policy so) = updated_at (so_attributes so)"
  "created_by (saved_object_to_package_policy so) = created_by (so_attributes so)"
  "updated_by (saved_object_to_package_policy so) = updated_by (so_attributes so)"
  "inputs (saved_object_to_package_policy so) = inputs (so_attributes so)"
  "policy_id (saved_object_to_package_policy so) = policy_id (so_attributes so)"
  "name (saved_object_to_package_policy so) = name (so_attributes so)"
  by (simp_all add: saved_object_to_package_policy_def package_policy_so_attributes.defs
        package_policy.defs)

lemma update_attributes_simps:
  "upd_revision (update_attributes p ins r t options) = r"
  "upd_updated_at (update_attributes p ins r t options) = t"
  "upd_updated_by (update_attributes p ins r t options) = actor options"
  "inputs (update_attributes p ins r t options) = ins"
  "name (update_attributes p ins r t options) = name p"
  "policy_id (update_attributes p ins r t options) = policy_id p"
  by (simp_all add: update_attributes_def new_package_policy.defs
        package_policy_update_attributes.defs)

lemma bulk_object_simps:
  "policy_id (bo_attributes (bulk_object env agentPolicyId isoDate options p i)) = agentPolicyId"
  "name (bo_attributes (bulk_object env agentPolicyId isoDate options p i)) = name p"
  "revision (bo_attributes (bulk_object env agentPolicyId isoDate options p i)) = 1"
  "created_at (bo_attributes (bulk_object env agentPolicyId isoDate options p i)) = isoDate"
  "updated_at (bo_attributes (bulk_object env agentPolicyId isoDate options p i)) = isoDate"
  "bo_id (bulk_object env agentPolicyId isoDate options p i) = i"
  by (simp_all add: bulk_object_def new_attributes_simps)

subsection \<open>Compiling templates\<close>

lemma assignStreamIdToInput_derived:
  "stream_ids_derived pid (map (assignStreamIdToInput pid) ins)"
  by (auto simp: stream_ids_derived_def assignStreamIdToInput_def)

lemma compilePackageStream_Inr:
  assumes "compilePackageStream env reg pkg input stream s = (Inr st, s')"
  shows "\<exists>c. st = stream\<lparr>compiled_stream := c\<rparr>"
  using assms
  by (auto simp: compilePackageStream_def bind_Inr_iff return_iff throw_iff lift_iff
           split: if_splits option.splits)

lemma compile_one_input_Inr:
  assumes "compile_one_input env reg pkg input s = (Inr out, s')"
  shows "input_type out = input_type input
         \<and> list_all2 (\<lambda>st st'. \<exists>c. st' = st\<lparr>compiled_stream := c\<rparr>) (streams input) (streams out)"
proof -
  from assms obtain ci cs s1 where cs: "compilePackageStreams env reg pkg input s1 = (Inr cs, s')"
    and out: "out = input\<lparr>compiled_input := ci, streams := cs\<rparr>"
    by (auto simp: compile_one_input_def bind_Inr_iff return_iff)
  from mapM_Inr [OF cs [unfolded compilePackageStreams_def]]
  have "list_all2 (\<lambda>st st'. \<exists>c. st' = st\<lparr>compiled_stream := c\<rparr>) (streams input) cs"
    by (rule list_all2_mono) (auto dest: compilePackageStream_Inr)
  with out show ?thesis by simp
qed

lemma compile_one_input_derived:
  assumes "compile_one_input env reg pkg input s = (Inr out, s')"
    and "stream_ids_derived pid [input]"
  shows "stream_ids_derived pid [out]"
proof -
  from compile_one_input_Inr [OF assms(1)]
  have ty: "input_type out = input_type input"
    and l: "list_all2 (\<lambda>st st'. \<exists>c. st' = st\<lparr>compiled_stream := c\<rparr>) (streams input) (streams out)"
    by simp_all
  show ?thesis
    unfolding stream_ids_derived_def
  proof (intro ballI)
    fix i st'
    assume "i \<in> set [out]" and st': "st' \<in> set (streams i)"
    then have i: "i = out" by simp
    from st' i have "st' \<in> set (streams out)" by simp
    from list_all2_right_member [OF l this]
    obtain st c where "st \<in> set (streams input)" "st' = st\<lparr>compiled_stream := c\<rparr>"
      by auto
    with assms(2) ty i
    show "stream_id st' = Some (input_type i @ ''-'' @ stream_dataset st' @ ''-'' @ pid)"
      by (simp add: stream_ids_derived_def)
  qed
qed

lemma stream_ids_derived_Cons:
  "stream_ids_derived pid (x # xs) \<longleftrightarrow> stream_ids_derived pid [x] \<and> stream_ids_derived pid xs"
  by (auto simp: stream_ids_derived_def)

lemma mapM_compile_derived:
  "mapM (compile_one_input env reg pkg) ins s = (Inr outs, s') \<Longrightarrow> stream_ids_derived pid ins
   \<Longrightarrow> stream_ids_derived pid outs"
proof (induction ins arbitrary: outs s)
  case Nil
  then show ?case by (simp add: return_iff)
next
  case (Cons x xs)
  from Cons.prems(1) obtain y s1 ys where y: "compile_one_input env reg pkg x s = (Inr y, s1)"
    and rest: "mapM (compile_one_input env reg pkg) xs s1 = (Inr ys, s')" and outs: "outs = y # ys"
    by (auto simp: bind_Inr_iff return_iff)
  from Cons.prems(2) have x: "stream_ids_derived pid [x]" and xs: "stream_ids_derived pid xs"
    by (simp_all add: stream_ids_derived_Cons [of pid x xs])
  from compile_one_input_derived [OF y x] Cons.IH [OF rest xs] outs
  show ?case by (simp add: stream_ids_derived_Cons [of pid y ys])
qed

lemma compilePackagePolicyInputs_derived:
  assumes "compilePackagePolicyInputs env pkg ins s = (Inr outs, s')"
    and "stream_ids_derived pid ins"
  shows "stream_ids_derived pid outs"
proof -
  from assms(1) obtain reg s1 where "mapM (compile_one_input env reg pkg) ins s1 = (Inr outs, s')"
    unfolding compilePackagePolicyInputs_def by (rule bind_InrE)
  then show ?thesis using assms(2) by (rule mapM_compile_derived)
qed

lemma post_call_getAssetsData:
  "post (call_getAssetsData env reg ending d) preparation_call (\<lambda>_. True)"
  unfolding call_getAssetsData_def by (rule post_invoke_any) (simp add: preparation_call_def)

lemma post_compilePackagePolicyInput:
  "post (compilePackagePolicyInput env reg pkg input) preparation_call (\<lambda>_. True)"
  unfolding compilePackagePolicyInput_def
  by (auto intro!: post_bind_any post_call_getAssetsData post_return_any post_throw post_lift_any
           split: option.splits)

lemma post_compilePackageStream:
  "post (compilePackageStream env reg pkg input stream) preparation_call (\<lambda>_. True)"
  unfolding compilePackageStream_def
  by (auto intro!: post_bind_any post_call_getAssetsData post_return_any post_throw post_lift_any
           split: option.splits)

lemma post_compile_one_input:
  "post (compile_one_input env reg pkg input) preparation_call (\<lambda>_. True)"
  unfolding compile_one_input_def compilePackageStreams_def
  by (intro post_bind_any post_compilePackagePolicyInput post_mapM_any post_compilePackageStream
        post_return_any)

lemma post_compilePackagePolicyInputs:
  "post (compilePackagePolicyInputs env pkg ins) preparation_call (\<lambda>_. True)"
  unfolding compilePackagePolicyInputs_def call_Registry_fetchInfo_def
  by (intro post_bind_any post_invoke_any post_mapM_any post_compile_one_input)
     (simp add: preparation_call_def)

lemma post_create_package_step:
  "post (create_package_step env pp ins) preparation_call (\<lambda>_. True)"
  unfolding create_package_step_def call_ensureInstalledPackage_def call_getPackageInfo_def
    call_agentPolicyService_get_def
  by (auto intro!: post_bind_any post_invoke_any post_compilePackagePolicyInputs post_return_any
        post_throw simp: preparation_call_def split: option.splits)

lemma post_update_package_step:
  "post (update_package_step env pp ins) preparation_call (\<lambda>_. True)"
  unfolding update_package_step_def call_getPackageInfo_def
  by (auto intro!: post_bind_any post_invoke_any post_compilePackagePolicyInputs post_return_any
        simp: preparation_call_def)

lemma create_package_step_derived:
  assumes "create_package_step env pp ins s = (Inr outs, s')" and "stream_ids_derived pid ins"
  shows "stream_ids_derived pid outs"
proof (cases "has_package_name pp")
  case False
  with assms show ?thesis by (simp add: create_package_step_def return_iff)
next
  case True
  with assms(1) obtain pkgInfo s1 where "compilePackagePolicyInputs env pkgInfo ins s1 = (Inr outs, s')"
    by (auto simp: create_package_step_def bind_Inr_iff)
  then show ?thesis using assms(2) by (rule compilePackagePolicyInputs_derived)
qed

lemma update_package_step_derived:
  assumes "update_package_step env pp ins s = (Inr outs, s')" and "stream_ids_derived pid ins"
  shows "stream_ids_derived pid outs"
proof (cases "has_package_name pp")
  case False
  with assms show ?thesis by (simp add: update_package_step_def return_iff)
next
  case True
  with assms(1) obtain pkgInfo s1 where "compilePackagePolicyInputs env pkgInfo ins s1 = (Inr outs, s')"
    by (auto simp: update_package_step_def bind_Inr_iff)
  then show ?thesis using assms(2) by (rule compilePackagePolicyInputs_derived)
qed

lemma map_of_set_property: "map_of (set_property k v ps) = (map_of ps)(k \<mapsto> v)"
  by (induction ps) (auto simp: fun_eq_iff)

lemma map_of_fold_set_property:
  "map_of (fold (\<lambda>(k, v). set_property k v) props obj) = map_of obj ++ map_of (rev props)"
proof (induction props arbitrary: obj)
  case Nil
  show ?case by simp
next
  case (Cons p props)
  obtain k v where p: "p = (k, v)" by (cases p)
  have "map_of (fold (\<lambda>(k, v). set_property k v) (p # props) obj)
        = map_of (set_property k v obj) ++ map_of (rev props)"
    using Cons.IH [of "set_property k v obj"] by (simp add: p)
  also have "\<dots> = map_of obj ++ map_of (rev (p # props))"
    by (auto simp: p map_of_set_property fun_eq_iff map_add_def split: option.splits)
  finally show ?case .
qed

lemma map_of_Object_assign2:
  "map_of (Object_assign [] [a, b]) = map_of (rev (properties a)) ++ map_of (rev (properties b))"
  by (cases a; cases b) (simp_all add: Object_assign_def properties_def map_of_fold_set_property)

lemma compilePackageStream_enabled_Inr:
  assumes "stream_enabled stream"
    and "compilePackageStream env reg pkgInfo input stream s = (Inr compiled, s')"
  shows "\<exists>buffer yaml.
           compileTemplate env (Object_assign [] [input_vars input, stream_vars stream]) buffer
             = Inr yaml
           \<and> compiled = stream\<lparr>compiled_stream := Some yaml\<rparr>"
  using assms
  by (auto simp: compilePackageStream_def bind_Inr_iff return_iff throw_iff lift_iff
           split: if_splits option.splits)

text \<open>
  Claim C5. When an enabled stream is compiled, the compiled artifact is what the template
  engine returns for the bindings \<^verbatim>\<open>Object.assign({}, input.vars, stream.vars)\<close>. These
  bindings hold the input's variables overridden by the stream's: looked up as a mapping,
  they are the input's mapping with the stream's laid over it (\<open>rev\<close> says that within one
  list a later property wins; an object has each key once). For input variables \<open>{a: 1}\<close>
  and stream variables \<open>{a: 2, b: 3}\<close> the bindings are \<open>{a: 2, b: 3}\<close>.
\<close>

theorem compile_stream_bindings:
  assumes "stream_enabled stream"
    and "compilePackageStream env registryPkgInfo pkgInfo input stream s = (Inr compiled, s')"
  shows "(\<exists>buffer yaml.
            compileTemplate env (Object_assign [] [input_vars input, stream_vars stream]) buffer
              = Inr yaml
            \<and> compiled = stream\<lparr>compiled_stream := Some yaml\<rparr>)
         \<and> map_of (Object_assign [] [input_vars input, stream_vars stream])
             = map_of (rev (properties (input_vars input)))
               ++ map_of (rev (properties (stream_vars stream)))
         \<and> (input_vars input = Some [(''a'', JNum 1)]
              \<and> stream_vars stream = Some [(''a'', JNum 2), (''b'', JNum 3)]
             \<longrightarrow> Object_assign [] [input_vars input, stream_vars stream]
                   = [(''a'', JNum 2), (''b'', JNum 3)])"
  using compilePackageStream_enabled_Inr [OF assms]
  by (simp add: map_of_Object_assign2) (simp add: Object_assign_def)

lemma compile_stream_run:
  "fst (compilePackageStream mem_env \<lparr>rp_name = ''nginx'', rp_version = ''0.3.0''\<rparr> nginx_info
          nginx_input nginx_stream mem_start)
   = Inr (nginx_stream\<lparr>compiled_stream :=
            Some (JObj [(''template'', JStr ''paths: {{b}}''),
                        (''vars'', JObj [(''a'', JNum 2), (''b'', JNum 3)])])\<rparr>)"
  by code_simp

theorem compile_stream_bindings_witness:
  "stream_enabled nginx_stream
   \<and> input_vars nginx_input = Some [(''a'', JNum 1)]
   \<and> stream_vars nginx_stream = Some [(''a'', JNum 2), (''b'', JNum 3)]
   \<and> fst (compilePackageStream mem_env \<lparr>rp_name = ''nginx'', rp_version = ''0.3.0''\<rparr>
             nginx_info nginx_input nginx_stream mem_start)
       = Inr (nginx_stream\<lparr>compiled_stream :=
                Some (JObj [(''template'', JStr ''paths: {{b}}''),
                            (''vars'', JObj [(''a'', JNum 2), (''b'', JNum 3)])])\<rparr>)
   \<and> Object_assign [] [input_vars nginx_input, stream_vars nginx_stream]
       = [(''a'', JNum 2), (''b'', JNum 3)]
   \<and> map_of (Object_assign [] [input_vars nginx_input, stream_vars nginx_stream]) ''a''
       = Some (JNum 2)"
proof -
  have enabled: "stream_enabled nginx_stream" by (simp add: nginx_stream_def)
  have vars: "input_vars nginx_input = Some [(''a'', JNum 1)]"
    "stream_vars nginx_stream = Some [(''a'', JNum 2), (''b'', JNum 3)]"
    by (simp_all add: nginx_input_def nginx_stream_def)
  obtain s' where run:
    "compilePackageStream mem_env \<lparr>rp_name = ''nginx'', rp_version = ''0.3.0''\<rparr> nginx_info
       nginx_input nginx_stream mem_start
     = (Inr (nginx_stream\<lparr>compiled_stream :=
               Some (JObj [(''template'', JStr ''paths: {{b}}''),
                           (''vars'', JObj [(''a'', JNum 2), (''b'', JNum 3)])])\<rparr>), s')"
    using compile_stream_run
    by (cases "compilePackageStream mem_env \<lparr>rp_name = ''nginx'', rp_version = ''0.3.0''\<rparr>
                 nginx_info nginx_input nginx_stream mem_start") simp
  from compile_stream_bindings [OF enabled run] vars
  have "Object_assign [] [input_vars nginx_input, stream_vars nginx_stream]
          = [(''a'', JNum 2), (''b'', JNum 3)]"
    by simp
  with enabled vars compile_stream_run show ?thesis by simp
qed

lemma compilePackageStream_disabled:
  assumes "compilePackageStream env reg pkg input stream s = (Inr compiled, s')"
  shows "\<not> stream_enabled compiled \<longrightarrow> compiled_stream compiled = None"
proof (cases "stream_enabled stream")
  case True
  with compilePackageStream_Inr [OF assms] show ?thesis by auto
next
  case False
  with assms show ?thesis by (simp add: compilePackageStream_def return_iff)
qed

lemma compile_one_input_disabled:
  assumes "compile_one_input env reg pkg input s = (Inr out, s')"
  shows "disabled_uncompiled out"
proof -
  from assms obtain ci s1 cs where
    ci: "compilePackagePolicyInput env reg pkg input s = (Inr ci, s1)"
    and cs: "compilePackageStreams env reg pkg input s1 = (Inr cs, s')"
    and out: "out = input\<lparr>compiled_input := ci, streams := cs\<rparr>"
    by (auto simp: compile_one_input_def bind_Inr_iff return_iff)
  from ci have "\<not> input_enabled input \<longrightarrow> ci = None"
    by (auto simp: compilePackagePolicyInput_def return_iff)
  moreover have "\<not> stream_enabled compiled \<longrightarrow> compiled_stream compiled = None"
    if "compiled \<in> set cs" for compiled
  proof -
    from list_all2_right_member [OF mapM_Inr [OF cs [unfolded compilePackageStreams_def]] that]
    obtain stream s2 s3 where
      "compilePackageStream env reg pkg input stream s2 = (Inr compiled, s3)"
      by auto
    then show ?thesis by (rule compilePackageStream_disabled)
  qed
  ultimately show ?thesis by (simp add: disabled_uncompiled_def out)
qed

lemma compilePackagePolicyInputs_disabled:
  assumes "compilePackagePolicyInputs env pkg ins s = (Inr outs, s')"
  shows "list_all disabled_uncompiled outs"
proof -
  from assms obtain reg s1 where run: "mapM (compile_one_input env reg pkg) ins s1 = (Inr outs, s')"
    unfolding compilePackagePolicyInputs_def by (rule bind_InrE)
  have "disabled_uncompiled out" if "out \<in> set outs" for out
  proof -
    from list_all2_right_member [OF mapM_Inr [OF run] that]
    obtain input s2 s3 where "compile_one_input env reg pkg input s2 = (Inr out, s3)"
      by auto
    then show ?thesis by (rule compile_one_input_disabled)
  qed
  then show ?thesis by (simp add: list_all_iff)
qed

lemma compile_disabled_run:
  "map_sum id (map (\<lambda>input. (compiled_input input, map compiled_stream (streams input))))
     (fst (compilePackagePolicyInputs mem_env nginx_info
             [nginx_input\<lparr>input_enabled := False\<rparr>,
              nginx_input\<lparr>streams := [nginx_stream\<lparr>stream_enabled := False\<rparr>]\<rparr>]
             mem_start))
   = Inr [(None,
           [Some (JObj [(''template'', JStr ''paths: {{b}}''),
                        (''vars'', JObj [(''a'', JNum 2), (''b'', JNum 3)])])]),
          (Some (JObj [(''template'', JStr ''type: {{a}}''), (''vars'', JObj [(''a'', JNum 1)])]),
           [None])]"
  by code_simp

text \<open>
  Claim C6. A disabled input compiles to an absent artifact and a disabled stream is
  returned with its compiled artifact absent, whatever templates the package defines; the
  state, and with it the call log, is unchanged, so no template asset is fetched. Hence
  in the result of every successful compilation of the inputs of a policy, each disabled
  input has no compiled artifact and neither has any disabled stream.
\<close>

theorem compile_skips_disabled:
  "(\<not> input_enabled input \<longrightarrow>
      compilePackagePolicyInput env registryPkgInfo pkgInfo input s = (Inr None, s))
   \<and> (\<not> stream_enabled stream \<longrightarrow>
      compilePackageStream env registryPkgInfo pkgInfo input stream s
        = (Inr (stream\<lparr>compiled_stream := None\<rparr>), s))
   \<and> (compilePackagePolicyInputs env pkgInfo inputs0 s = (Inr compiled, s') \<longrightarrow>
        list_all disabled_uncompiled compiled)"
proof (intro conjI impI)
  assume "\<not> input_enabled input"
  then show "compilePackagePolicyInput env registryPkgInfo pkgInfo input s = (Inr None, s)"
    by (simp add: compilePackagePolicyInput_def return_def)
next
  assume "\<not> stream_enabled stream"
  then show "compilePackageStream env registryPkgInfo pkgInfo input stream s
        = (Inr (stream\<lparr>compiled_stream := None\<rparr>), s)"
    by (simp add: compilePackageStream_def return_def)
next
  assume "compilePackagePolicyInputs env pkgInfo inputs0 s = (Inr compiled, s')"
  then show "list_all disabled_uncompiled compiled"
    by (rule compilePackagePolicyInputs_disabled)
qed

theorem compile_skips_disabled_witness:
  "\<not> input_enabled (nginx_input\<lparr>input_enabled := False\<rparr>)
   \<and> compilePackagePolicyInput mem_env \<lparr>rp_name = ''nginx'', rp_version = ''0.3.0''\<rparr> nginx_info
         (nginx_input\<lparr>input_enabled := False\<rparr>) mem_start
       = (Inr None, mem_start)
   \<and> fst (compilePackagePolicyInput mem_env \<lparr>rp_name = ''nginx'', rp_version = ''0.3.0''\<rparr>
              nginx_info nginx_input mem_start)
       = Inr (Some (JObj [(''template'', JStr ''type: {{a}}''), (''vars'', JObj [(''a'', JNum 1)])]))
   \<and> \<not> stream_enabled (nginx_stream\<lparr>stream_enabled := False\<rparr>)
   \<and> compilePackageStream mem_env \<lparr>rp_name = ''nginx'', rp_version = ''0.3.0''\<rparr> nginx_info
         nginx_input (nginx_stream\<lparr>stream_enabled := False\<rparr>) mem_start
       = (Inr (nginx_stream\<lparr>stream_enabled := False, compiled_stream := None\<rparr>), mem_start)
   \<and> (\<exists>compiled s'.
         compilePackagePolicyInputs mem_env nginx_info
           [nginx_input\<lparr>input_enabled := False\<rparr>,
            nginx_input\<lparr>streams := [nginx_stream\<lparr>stream_enabled := False\<rparr>]\<rparr>]
           mem_start = (Inr compiled, s')
         \<and> list_all disabled_uncompiled compiled
         \<and> map (\<lambda>input. (compiled_input input, map compiled_stream (streams input))) compiled
             = [(None,
                 [Some (JObj [(''template'', JStr ''paths: {{b}}''),
                              (''vars'', JObj [(''a'', JNum 2), (''b'', JNum 3)])])]),
                (Some (JObj [(''template'', JStr ''type: {{a}}''),
                             (''vars'', JObj [(''a'', JNum 1)])]),
                 [None])])"
proof -
  have enabled: "fst (compilePackagePolicyInput mem_env \<lparr>rp_name = ''nginx'', rp_version = ''0.3.0''\<rparr>
              nginx_info nginx_input mem_start)
       = Inr (Some (JObj [(''template'', JStr ''type: {{a}}''), (''vars'', JObj [(''a'', JNum 1)])]))"
    by code_simp
  let ?ins = "[nginx_input\<lparr>input_enabled := False\<rparr>,
               nginx_input\<lparr>streams := [nginx_stream\<lparr>stream_enabled := False\<rparr>]\<rparr>]"
  obtain compiled s' where run:
    "compilePackagePolicyInputs mem_env nginx_info ?ins mem_start = (Inr compiled, s')"
    and shape: "map (\<lambda>input. (compiled_input input, map compiled_stream (streams input))) compiled
             = [(None,
                 [Some (JObj [(''template'', JStr ''paths: {{b}}''),
                              (''vars'', JObj [(''a'', JNum 2), (''b'', JNum 3)])])]),
                (Some (JObj [(''template'', JStr ''type: {{a}}''),
                             (''vars'', JObj [(''a'', JNum 1)])]),
                 [None])]"
    using compile_disabled_run
    by (cases "compilePackagePolicyInputs mem_env nginx_info ?ins mem_start";
        cases "fst (compilePackagePolicyInputs mem_env nginx_info ?ins mem_start)") auto
  note first = compile_skips_disabled
         [where input = "nginx_input\<lparr>input_enabled := False\<rparr>" and env = mem_env
            and registryPkgInfo = "\<lparr>rp_name = ''nginx'', rp_version = ''0.3.0''\<rparr>"
            and pkgInfo = nginx_info and s = mem_start]
  note second = compile_skips_disabled
         [where input = nginx_input and env = mem_env
            and registryPkgInfo = "\<lparr>rp_name = ''nginx'', rp_version = ''0.3.0''\<rparr>"
            and pkgInfo = nginx_info and s = mem_start
            and stream = "nginx_stream\<lparr>stream_enabled := False\<rparr>"
            and ?inputs0.0 = ?ins and compiled = compiled and s' = s']
  from second run have all: "list_all disabled_uncompiled compiled" by simp
  from run all shape
  have "\<exists>compiled s'.
         compilePackagePolicyInputs mem_env nginx_info ?ins mem_start = (Inr compiled, s')
         \<and> list_all disabled_uncompiled compiled
         \<and> map (\<lambda>input. (compiled_input input, map compiled_stream (streams input))) compiled
             = [(None,
                 [Some (JObj [(''template'', JStr ''paths: {{b}}''),
                              (''vars'', JObj [(''a'', JNum 2), (''b'', JNum 3)])])]),
                (Some (JObj [(''template'', JStr ''type: {{a}}''),
                             (''vars'', JObj [(''a'', JNum 1)])]),
                 [None])]"
    by (intro exI conjI)
  with first second enabled show ?thesis by simp
qed

subsection \<open>Creating a package policy\<close>

lemma create_Inr:
  assumes "create env packagePolicy options s = (Inr created, s')"
  shows "\<exists>packagePolicyId inputs1 isoDate newSo preparation w w'.
           calls s' = calls s @ preparation
             @ [DateNow,
                SoCreate (SAVED_OBJECT_TYPE env)
                  (new_attributes (packagePolicy\<lparr>inputs := inputs1\<rparr>) isoDate options)
                  (options\<lparr>opt_id := Some packagePolicyId\<rparr>),
                AssignPackagePolicies (policy_id packagePolicy) [so_id newSo]
                  (opt_user options) (bump_option options)]
           \<and> list_all preparation_call preparation
           \<and> chosen_id env options packagePolicyId
           \<and> stream_ids_derived packagePolicyId inputs1
           \<and> isoDate \<in> range (\<lambda>w. fst (date_now env w))
           \<and> soClient_create env (SAVED_OBJECT_TYPE env)
                (new_attributes (packagePolicy\<lparr>inputs := inputs1\<rparr>) isoDate options)
                (options\<lparr>opt_id := Some packagePolicyId\<rparr>) w = (Inr newSo, w')
           \<and> created = saved_object_to_package_policy newSo"
proof -
  from assms obtain parent0 s1
    where lookup: "call_agentPolicyService_get env (policy_id packagePolicy) None s
                     = (Inr parent0, s1)"
      and run1: "(case parent0 of
             None \<Rightarrow> throw (Error ''Agent policy not found'')
           | Some parent \<Rightarrow>
           if is_managed parent then
             throw (IngestManagerError (''Cannot add integrations to managed policy '' @ ap_id parent))
           else if find (\<lambda>siblingPackagePolicy. name siblingPackagePolicy = name packagePolicy)
                     (package_policies parent) \<noteq> None then
             throw (Error ''There is already a package with the same name on this agent policy'')
           else
           bind (case opt_id options of
                   None \<Rightarrow> call_uuid_v4 env
                 | Some supplied \<Rightarrow> if supplied = [] then call_uuid_v4 env else return supplied)
             (\<lambda>packagePolicyId.
           bind (create_package_step env packagePolicy
                   (map (assignStreamIdToInput packagePolicyId) (inputs packagePolicy)))
             (\<lambda>inputs1.
           bind (new_Date_toISOString env)
             (\<lambda>isoDate.
           bind (call_soClient_create env
                   (new_attributes (packagePolicy\<lparr>inputs := inputs1\<rparr>) isoDate options)
                   (options\<lparr>opt_id := Some packagePolicyId\<rparr>))
             (\<lambda>newSo.
           bind (call_assignPackagePolicies env (policy_id packagePolicy) [so_id newSo]
                   (opt_user options) (bump_option options))
             (\<lambda>_.
           return (saved_object_to_package_policy newSo))))))) s1 = (Inr created, s')"
    unfolding create_def by (rule bind_InrE)
  from lookup have c1: "calls s1 = calls s @ [AgentPolicyGet (policy_id packagePolicy) None]"
    unfolding call_agentPolicyService_get_def by (rule invoke_calls)
  from run1 obtain pid s2 where
    pid: "(case opt_id options of
             None \<Rightarrow> call_uuid_v4 env
           | Some supplied \<Rightarrow> if supplied = [] then call_uuid_v4 env else return supplied) s1
          = (Inr pid, s2)"
    and run2: "bind (create_package_step env packagePolicy
                   (map (assignStreamIdToInput pid) (inputs packagePolicy)))
             (\<lambda>inputs1.
           bind (new_Date_toISOString env)
             (\<lambda>isoDate.
           bind (call_soClient_create env
                   (new_attributes (packagePolicy\<lparr>inputs := inputs1\<rparr>) isoDate options)
                   (options\<lparr>opt_id := Some pid\<rparr>))
             (\<lambda>newSo.
           bind (call_assignPackagePolicies env (policy_id packagePolicy) [so_id newSo]
                   (opt_user options) (bump_option options))
             (\<lambda>_.
           return (saved_object_to_package_policy newSo))))) s2 = (Inr created, s')"
    by (auto simp: throw_iff bind_Inr_iff split: option.splits if_splits)
  from pid have chosen: "chosen_id env options pid"
    and c2: "\<exists>cs. calls s2 = calls s1 @ cs \<and> list_all preparation_call cs"
    by (auto simp: chosen_id_def call_uuid_v4_iff return_iff preparation_call_def
             split: option.splits if_splits)
  from run2 obtain inputs1 s3 where
    step: "create_package_step env packagePolicy
             (map (assignStreamIdToInput pid) (inputs packagePolicy)) s2 = (Inr inputs1, s3)"
    and run3: "bind (new_Date_toISOString env)
             (\<lambda>isoDate.
           bind (call_soClient_create env
                   (new_attributes (packagePolicy\<lparr>inputs := inputs1\<rparr>) isoDate options)
                   (options\<lparr>opt_id := Some pid\<rparr>))
             (\<lambda>newSo.
           bind (call_assignPackagePolicies env (policy_id packagePolicy) [so_id newSo]
                   (opt_user options) (bump_option options))
             (\<lambda>_.
           return (saved_object_to_package_policy newSo)))) s3 = (Inr created, s')"
    by (rule bind_InrE)
  from create_package_step_derived [OF step assignStreamIdToInput_derived]
  have derived: "stream_ids_derived pid inputs1" .
  from postD [OF post_create_package_step step]
  have c3: "\<exists>cs. calls s3 = calls s2 @ cs \<and> list_all preparation_call cs" by simp
  from run3 obtain isoDate s4 where
    date: "new_Date_toISOString env s3 = (Inr isoDate, s4)"
    and run4: "bind (call_soClient_create env
                   (new_attributes (packagePolicy\<lparr>inputs := inputs1\<rparr>) isoDate options)
                   (options\<lparr>opt_id := Some pid\<rparr>))
             (\<lambda>newSo.
           bind (call_assignPackagePolicies env (policy_id packagePolicy) [so_id newSo]
                   (opt_user options) (bump_option options))
             (\<lambda>_.
           return (saved_object_to_package_policy newSo))) s4 = (Inr created, s')"
    by (rule bind_InrE)
  from date have iso: "isoDate \<in> range (\<lambda>w. fst (date_now env w))"
    and c4: "calls s4 = calls s3 @ [DateNow]"
    by (auto simp: new_Date_toISOString_iff)
  from run4 obtain newSo s5 where
    persist: "call_soClient_create env
                (new_attributes (packagePolicy\<lparr>inputs := inputs1\<rparr>) isoDate options)
                (options\<lparr>opt_id := Some pid\<rparr>) s4 = (Inr newSo, s5)"
    and run5: "bind (call_assignPackagePolicies env (policy_id packagePolicy) [so_id newSo]
                   (opt_user options) (bump_option options))
             (\<lambda>_. return (saved_object_to_package_policy newSo)) s5 = (Inr created, s')"
    by (rule bind_InrE)
  from persist have c5: "calls s5 = calls s4 @ [SoCreate (SAVED_OBJECT_TYPE env)
                  (new_attributes (packagePolicy\<lparr>inputs := inputs1\<rparr>) isoDate options)
                  (options\<lparr>opt_id := Some pid\<rparr>)]"
    and store: "\<exists>w w'. soClient_create env (SAVED_OBJECT_TYPE env)
                (new_attributes (packagePolicy\<lparr>inputs := inputs1\<rparr>) isoDate options)
                (options\<lparr>opt_id := Some pid\<rparr>) w = (Inr newSo, w')"
    by (auto simp: call_soClient_create_def invoke_iff)
  from run5 have c6: "calls s' = calls s5 @ [AssignPackagePolicies (policy_id packagePolicy)
                  [so_id newSo] (opt_user options) (bump_option options)]"
    and created: "created = saved_object_to_package_policy newSo"
    by (auto simp: bind_Inr_iff call_assignPackagePolicies_def invoke_iff return_iff)
  from c2 c3 obtain cs2 cs3 where cs: "calls s2 = calls s1 @ cs2" "list_all preparation_call cs2"
    "calls s3 = calls s2 @ cs3" "list_all preparation_call cs3"
    by (elim exE conjE)
  let ?prep = "AgentPolicyGet (policy_id packagePolicy) None # cs2 @ cs3"
  from c1 cs c4 c5 c6 have "calls s' = calls s @ ?prep
             @ [DateNow,
                SoCreate (SAVED_OBJECT_TYPE env)
                  (new_attributes (packagePolicy\<lparr>inputs := inputs1\<rparr>) isoDate options)
                  (options\<lparr>opt_id := Some pid\<rparr>),
                AssignPackagePolicies (policy_id packagePolicy) [so_id newSo]
                  (opt_user options) (bump_option options)]"
    by simp
  moreover from cs have "list_all preparation_call ?prep"
    by (simp add: preparation_call_def)
  ultimately show ?thesis
    using chosen derived iso store created by blast
qed

text \<open>
  Claim C1. Every successful \<open>create\<close> persists exactly one record, after the preparation
  calls and the reading of the clock. The persisted attributes have revision 1, the
  creation and update timestamps are the time read, the creating and updating actor is the
  user's name, or \<open>system\<close> when no user is supplied, and every stream of every input has
  the identifier \<open>{input.type}-{stream.data_stream.dataset}-{packagePolicyId}\<close>, where the
  id is the supplied one or one the uuid generator gives. The returned record is the answer
  of the store to that call; when the store answers with the attributes it was given, the
  returned record has the same revision, stamps and stream identifiers.
\<close>

theorem create_revision_one_and_stream_ids:
  assumes "create env packagePolicy options s = (Inr created, s')"
  shows "\<exists>packagePolicyId attributes newSo preparation.
           calls s' = calls s @ preparation
             @ [DateNow,
                SoCreate (SAVED_OBJECT_TYPE env) attributes
                  (options\<lparr>opt_id := Some packagePolicyId\<rparr>),
                AssignPackagePolicies (policy_id packagePolicy) [so_id newSo]
                  (opt_user options) (bump_option options)]
           \<and> list_all preparation_call preparation
           \<and> chosen_id env options packagePolicyId
           \<and> revision attributes = 1
           \<and> created_at attributes \<in> range (\<lambda>w. fst (date_now env w))
           \<and> updated_at attributes = created_at attributes
           \<and> created_by attributes
               = (case opt_user options of None \<Rightarrow> ''system'' | Some user \<Rightarrow> username user)
           \<and> updated_by attributes = created_by attributes
           \<and> stream_ids_derived packagePolicyId (inputs attributes)
           \<and> (\<exists>w w'. soClient_create env (SAVED_OBJECT_TYPE env) attributes
                         (options\<lparr>opt_id := Some packagePolicyId\<rparr>) w = (Inr newSo, w'))
           \<and> created = saved_object_to_package_policy newSo
           \<and> (so_attributes newSo = attributes \<longrightarrow>
                  revision created = 1
                  \<and> created_at created = created_at attributes
                  \<and> updated_at created = created_at attributes
                  \<and> created_by created = created_by attributes
                  \<and> updated_by created = created_by attributes
                  \<and> stream_ids_derived packagePolicyId (inputs created))"
proof -
  from create_Inr [OF assms]
  obtain packagePolicyId inputs1 isoDate newSo preparation w w' where
    log: "calls s' = calls s @ preparation
             @ [DateNow,
                SoCreate (SAVED_OBJECT_TYPE env)
                  (new_attributes (packagePolicy\<lparr>inputs := inputs1\<rparr>) isoDate options)
                  (options\<lparr>opt_id := Some packagePolicyId\<rparr>),
                AssignPackagePolicies (policy_id packagePolicy) [so_id newSo]
                  (opt_user options) (bump_option options)]"
    and prep: "list_all preparation_call preparation"
    and chosen: "chosen_id env options packagePolicyId"
    and derived: "stream_ids_derived packagePolicyId inputs1"
    and iso: "isoDate \<in> range (\<lambda>w. fst (date_now env w))"
    and store: "soClient_create env (SAVED_OBJECT_TYPE env)
                (new_attributes (packagePolicy\<lparr>inputs := inputs1\<rparr>) isoDate options)
                (options\<lparr>opt_id := Some packagePolicyId\<rparr>) w = (Inr newSo, w')"
    and created: "created = saved_object_to_package_policy newSo"
    by (elim exE conjE)
  define attributes where
    "attributes = new_attributes (packagePolicy\<lparr>inputs := inputs1\<rparr>) isoDate options"
  have a: "revision attributes = 1" "created_at attributes = isoDate"
    "updated_at attributes = isoDate" "created_by attributes = actor options"
    "updated_by attributes = actor options" "inputs attributes = inputs1"
    by (simp_all add: attributes_def new_attributes_simps)
  have echo: "so_attributes newSo = attributes \<longrightarrow>
                  revision created = 1
                  \<and> created_at created = created_at attributes
                  \<and> updated_at created = created_at attributes
                  \<and> created_by created = created_by attributes
                  \<and> updated_by created = created_by attributes
                  \<and> stream_ids_derived packagePolicyId (inputs created)"
    using a derived by (simp add: created saved_object_to_package_policy_simps)
  show ?thesis
    apply (rule exI [of _ packagePolicyId], rule exI [of _ attributes], rule exI [of _ newSo],
        rule exI [of _ preparation])
    using log prep chosen iso store created echo derived a
    apply (simp add: attributes_def [symmetric] actor_def)
    apply (intro exI, assumption)
    done
qed

lemma create_runs: "\<not> isl (fst (create mem_env nginx_policy no_options mem_start))"
  by code_simp

lemma create_stream_ids:
  "map (\<lambda>input. map stream_id (streams input))
     (inputs (projr (fst (create mem_env nginx_policy no_options mem_start))))
   = [[Some ''logfile-nginx.access-u'']]"
  by code_simp

theorem create_revision_one_and_stream_ids_witness:
  "\<exists>created s'.
     create mem_env nginx_policy no_options mem_start = (Inr created, s')
     \<and> revision created = 1
     \<and> created_by created = ''system'' \<and> updated_by created = ''system''
     \<and> updated_at created = created_at created
     \<and> (\<exists>packagePolicyId. stream_ids_derived packagePolicyId (inputs created))
     \<and> map (\<lambda>input. map stream_id (streams input)) (inputs created)
         = [[Some ''logfile-nginx.access-u'']]"
proof -
  obtain created s' where run: "create mem_env nginx_policy no_options mem_start = (Inr created, s')"
    using create_runs
    by (cases "create mem_env nginx_policy no_options mem_start";
        cases "fst (create mem_env nginx_policy no_options mem_start)") auto
  from create_revision_one_and_stream_ids [OF run]
  obtain packagePolicyId attributes newSo w w' where
    by_user: "created_by attributes
               = (case opt_user no_options of None \<Rightarrow> ''system'' | Some user \<Rightarrow> username user)"
    and store: "soClient_create mem_env (SAVED_OBJECT_TYPE mem_env) attributes
                  (no_options\<lparr>opt_id := Some packagePolicyId\<rparr>) w = (Inr newSo, w')"
    and echo: "so_attributes newSo = attributes \<longrightarrow>
                  revision created = 1
                  \<and> created_at created = created_at attributes
                  \<and> updated_at created = created_at attributes
                  \<and> created_by created = created_by attributes
                  \<and> updated_by created = created_by attributes
                  \<and> stream_ids_derived packagePolicyId (inputs created)"
    by (elim exE conjE)
  from store have "so_attributes newSo = attributes"
    by (auto simp: mem_env_def mem_so_create_def Let_def split: if_splits)
  with echo by_user have "revision created = 1" "created_by created = ''system''"
    "updated_by created = ''system''" "updated_at created = created_at created"
    "stream_ids_derived packagePolicyId (inputs created)"
    by (simp_all add: no_options_def)
  moreover from create_stream_ids run
  have "map (\<lambda>input. map stream_id (streams input)) (inputs created)
         = [[Some ''logfile-nginx.access-u'']]"
    by simp
  ultimately show ?thesis using run by auto
qed

lemma preparation_stamps_agree: "preparation_call c \<Longrightarrow> stamps_agree env options c"
  by (cases c) (simp_all add: preparation_call_def stamps_agree_def)

lemma post_create_package_step_stamps:
  "post (create_package_step env packagePolicy ins) (stamps_agree env options) (\<lambda>_. True)"
  by (rule post_weaken [OF post_create_package_step]) (simp_all add: preparation_stamps_agree)

lemma post_create_stamps:
  "post (create env packagePolicy options) (stamps_agree env options) (\<lambda>_. True)"
  unfolding create_def call_agentPolicyService_get_def call_soClient_create_def
    call_assignPackagePolicies_def
  by (auto intro!: post_bind_any post_bind_date post_invoke_any post_return_any post_throw
        post_call_uuid_v4 post_create_package_step_stamps
        simp: stamps_agree_def new_attributes_simps split: option.splits)

text \<open>
  Claim C9. In every run of \<open>create\<close>, successful or not, each record handed to the store
  has its creation timestamp equal to its update timestamp, a value read from the clock,
  and its creating actor equal to its updating actor. In a successful run the clock is read
  once, immediately before the record is persisted.
\<close>

theorem create_stamps_agree:
  assumes "create env packagePolicy options s = (r, s')"
  shows "\<exists>cs. calls s' = calls s @ cs
           \<and> (\<forall>type0 attributes options'.
                 SoCreate type0 attributes options' \<in> set cs \<longrightarrow>
                   created_at attributes = updated_at attributes
                   \<and> created_by attributes = updated_by attributes
                   \<and> created_at attributes \<in> range (\<lambda>w. fst (date_now env w))
                   \<and> created_by attributes = actor options)
           \<and> (\<forall>created. r = Inr created \<longrightarrow>
                 (\<exists>before type0 attributes options' after.
                    cs = before @ [DateNow, SoCreate type0 attributes options'] @ after
                    \<and> DateNow \<notin> set before \<and> DateNow \<notin> set after))"
proof -
  from postD [OF post_create_stamps assms]
  obtain cs where cs: "calls s' = calls s @ cs" and all: "list_all (stamps_agree env options) cs"
    by (elim exE conjE)
  have persisted: "created_at attributes = updated_at attributes
                   \<and> created_by attributes = updated_by attributes
                   \<and> created_at attributes \<in> range (\<lambda>w. fst (date_now env w))
                   \<and> created_by attributes = actor options"
    if "SoCreate type0 attributes options' \<in> set cs" for type0 attributes options'
  proof -
    from all that have "stamps_agree env options (SoCreate type0 attributes options')"
      by (simp add: list_all_iff)
    then show ?thesis unfolding stamps_agree_def call.case .
  qed
  have once: "\<exists>before type0 attributes options' after.
                cs = before @ [DateNow, SoCreate type0 attributes options'] @ after
                \<and> DateNow \<notin> set before \<and> DateNow \<notin> set after"
    if "r = Inr created" for created
  proof -
    from assms that have "create env packagePolicy options s = (Inr created, s')" by simp
    from create_Inr [OF this]
    obtain packagePolicyId inputs1 isoDate newSo preparation w w' where
      log: "calls s' = calls s @ preparation
             @ [DateNow,
                SoCreate (SAVED_OBJECT_TYPE env)
                  (new_attributes (packagePolicy\<lparr>inputs := inputs1\<rparr>) isoDate options)
                  (options\<lparr>opt_id := Some packagePolicyId\<rparr>),
                AssignPackagePolicies (policy_id packagePolicy) [so_id newSo]
                  (opt_user options) (bump_option options)]"
      and prep: "list_all preparation_call preparation"
      and "chosen_id env options packagePolicyId"
      and "stream_ids_derived packagePolicyId inputs1"
      and "isoDate \<in> range (\<lambda>w. fst (date_now env w))"
      and "soClient_create env (SAVED_OBJECT_TYPE env)
                (new_attributes (packagePolicy\<lparr>inputs := inputs1\<rparr>) isoDate options)
                (options\<lparr>opt_id := Some packagePolicyId\<rparr>) w = (Inr newSo, w')"
      and "created = saved_object_to_package_policy newSo"
      by (elim exE conjE)
    from log cs have "cs = preparation
             @ [DateNow,
                SoCreate (SAVED_OBJECT_TYPE env)
                  (new_attributes (packagePolicy\<lparr>inputs := inputs1\<rparr>) isoDate options)
                  (options\<lparr>opt_id := Some packagePolicyId\<rparr>)]
             @ [AssignPackagePolicies (policy_id packagePolicy) [so_id newSo]
                  (opt_user options) (bump_option options)]"
      by simp
    moreover from prep have "DateNow \<notin> set preparation"
      by (auto simp: list_all_iff preparation_call_def)
    moreover have "DateNow \<notin> set [AssignPackagePolicies (policy_id packagePolicy) [so_id newSo]
                  (opt_user options) (bump_option options)]"
      by simp
    ultimately show ?thesis by blast
  qed
  from cs persisted once show ?thesis by blast
qed

theorem create_stamps_agree_witness:
  "\<exists>created s' cs.
     create mem_env nginx_policy no_options mem_start = (Inr created, s')
     \<and> calls s' = calls mem_start @ cs
     \<and> (\<exists>type0 attributes options'.
           SoCreate type0 attributes options' \<in> set cs
           \<and> created_at attributes = updated_at attributes
           \<and> created_by attributes = updated_by attributes
           \<and> created_by attributes = ''system'')"
proof -
  obtain created s' where run: "create mem_env nginx_policy no_options mem_start = (Inr created, s')"
    using create_runs
    by (cases "create mem_env nginx_policy no_options mem_start";
        cases "fst (create mem_env nginx_policy no_options mem_start)") auto
  from create_stamps_agree [OF run]
  obtain cs where log: "calls s' = calls mem_start @ cs"
    and stamps: "\<forall>type0 attributes options'.
                 SoCreate type0 attributes options' \<in> set cs \<longrightarrow>
                   created_at attributes = updated_at attributes
                   \<and> created_by attributes = updated_by attributes
                   \<and> created_at attributes \<in> range (\<lambda>w. fst (date_now mem_env w))
                   \<and> created_by attributes = actor no_options"
    and once: "\<forall>created'. (Inr created :: error + package_policy) = Inr created' \<longrightarrow>
                 (\<exists>before type0 attributes options' after.
                    cs = before @ [DateNow, SoCreate type0 attributes options'] @ after
                    \<and> DateNow \<notin> set before \<and> DateNow \<notin> set after)"
    by (elim exE conjE)
  from once obtain before type0 attributes options' after where
    cs: "cs = before @ [DateNow, SoCreate type0 attributes options'] @ after"
    by auto
  then have member: "SoCreate type0 attributes options' \<in> set cs" by simp
  from stamps [rule_format, OF member]
  have "created_at attributes = updated_at attributes
                   \<and> created_by attributes = updated_by attributes
                   \<and> created_by attributes = actor no_options"
    by (elim conjE) (intro conjI; assumption)
  then have "SoCreate type0 attributes options' \<in> set cs
           \<and> created_at attributes = updated_at attributes
           \<and> created_by attributes = updated_by attributes
           \<and> created_by attributes = ''system''"
    using member by (auto simp: actor_def no_options_def)
  then have "\<exists>type0 attributes options'.
           SoCreate type0 attributes options' \<in> set cs
           \<and> created_at attributes = updated_at attributes
           \<and> created_by attributes = updated_by attributes
           \<and> created_by attributes = ''system''"
    by (intro exI)
  with run log have
    "create mem_env nginx_policy no_options mem_start = (Inr created, s')
     \<and> calls s' = calls mem_start @ cs
     \<and> (\<exists>type0 attributes options'.
           SoCreate type0 attributes options' \<in> set cs
           \<and> created_at attributes = updated_at attributes
           \<and> created_by attributes = updated_by attributes
           \<and> created_by attributes = ''system'')"
    by (intro conjI)
  then show ?thesis by (intro exI)
qed

text \<open>
  Claim C3. When the agent-policy lookup returns the target agent policy and one of its
  package policies has the name of the new policy, \<open>create\<close> fails: with the duplicate-name
  error, or, when the agent policy is managed, with the managed-policy error that is checked
  first (the spec counts both as conflicts). The policy is arbitrary, with or without a
  package, and the final state shows that the lookup is the only call made: nothing is
  installed, fetched or compiled.
\<close>

theorem create_rejects_sibling_name:
  assumes "agentPolicyService_get env (policy_id packagePolicy) None (world s)
             = (Inr (Some parent), w1)"
    and "\<exists>sibling \<in> set (package_policies parent). name sibling = name packagePolicy"
  shows "create env packagePolicy options s
           = (Inl (if is_managed parent
                   then IngestManagerError
                          (''Cannot add integrations to managed policy '' @ ap_id parent)
                   else Error ''There is already a package with the same name on this agent policy''),
              \<lparr>world = w1, calls = calls s @ [AgentPolicyGet (policy_id packagePolicy) None]\<rparr>)"
proof -
  from assms(2)
  have "find (\<lambda>siblingPackagePolicy. name siblingPackagePolicy = name packagePolicy)
          (package_policies parent) \<noteq> None"
    by (auto simp: find_None_iff)
  with assms(1) show ?thesis
    by (simp add: create_def bind_def call_agentPolicyService_get_def invoke_def throw_def)
qed

lemma mem_stored_lookup:
  "agentPolicyService_get mem_env ''agent-1'' None (world mem_stored)
   = (Inr (Some \<lparr>ap_id = ''agent-1'', is_managed = False,
                  package_policies = [saved_object_to_package_policy nginx_stored]\<rparr>),
      world mem_stored)"
  by (simp add: mem_env_def mem_agent_get_def mem_stored_def List.map_filter_def)

lemma mem_managed_lookup:
  "agentPolicyService_get mem_env ''agent-1'' None (world mem_managed)
   = (Inr (Some \<lparr>ap_id = ''agent-1'', is_managed = True,
                  package_policies = [saved_object_to_package_policy nginx_stored]\<rparr>),
      world mem_managed)"
  by (simp add: mem_env_def mem_agent_get_def mem_managed_def List.map_filter_def)

theorem create_rejects_sibling_name_witness:
  "(\<exists>sibling \<in> set [saved_object_to_package_policy nginx_stored].
      name sibling = name nginx_policy)
   \<and> create mem_env nginx_policy no_options mem_stored
       = (Inl (Error ''There is already a package with the same name on this agent policy''),
          \<lparr>world = world mem_stored, calls = [AgentPolicyGet ''agent-1'' None]\<rparr>)
   \<and> create mem_env (nginx_policy\<lparr>package := None\<rparr>) no_options mem_stored
       = (Inl (Error ''There is already a package with the same name on this agent policy''),
          \<lparr>world = world mem_stored, calls = [AgentPolicyGet ''agent-1'' None]\<rparr>)
   \<and> create mem_env nginx_policy no_options mem_managed
       = (Inl (IngestManagerError ''Cannot add integrations to managed policy agent-1''),
          \<lparr>world = world mem_managed, calls = [AgentPolicyGet ''agent-1'' None]\<rparr>)"
proof -
  let ?parent = "\<lparr>ap_id = ''agent-1'', is_managed = False,
                  package_policies = [saved_object_to_package_policy nginx_stored]\<rparr>"
  let ?managed = "\<lparr>ap_id = ''agent-1'', is_managed = True,
                  package_policies = [saved_object_to_package_policy nginx_stored]\<rparr>"
  have sibling: "\<exists>sibling \<in> set (package_policies ?parent). name sibling = name nginx_policy"
    by (simp add: saved_object_to_package_policy_simps nginx_stored_def new_attributes_simps)
  have lookup: "agentPolicyService_get mem_env (policy_id nginx_policy) None (world mem_stored)
                  = (Inr (Some ?parent), world mem_stored)"
    using mem_stored_lookup by (simp add: nginx_policy_def)
  have sibling': "\<exists>sibling \<in> set (package_policies ?parent).
                    name sibling = name (nginx_policy\<lparr>package := None\<rparr>)"
    using sibling by simp
  have lookup': "agentPolicyService_get mem_env (policy_id (nginx_policy\<lparr>package := None\<rparr>)) None
                   (world mem_stored) = (Inr (Some ?parent), world mem_stored)"
    using lookup by simp
  have sibling'': "\<exists>sibling \<in> set (package_policies ?managed). name sibling = name nginx_policy"
    using sibling by simp
  have lookup'': "agentPolicyService_get mem_env (policy_id nginx_policy) None (world mem_managed)
                  = (Inr (Some ?managed), world mem_managed)"
    using mem_managed_lookup by (simp add: nginx_policy_def)
  from create_rejects_sibling_name [OF lookup sibling, of no_options]
       create_rejects_sibling_name [OF lookup' sibling', of no_options]
       create_rejects_sibling_name [OF lookup'' sibling'', of no_options] sibling
  show ?thesis
    by (simp add: nginx_policy_def mem_stored_def mem_managed_def)
qed

subsection \<open>Creating package policies in bulk\<close>

lemma bulk_create_object_run:
  "bulk_create_object env agentPolicyId isoDate options packagePolicy s
   = (Inr (bulk_object env agentPolicyId isoDate options packagePolicy
             (fst (uuid_v4 env (world s)))),
      \<lparr>world = snd (uuid_v4 env (world s)), calls = calls s @ [UuidV4]\<rparr>)"
  by (simp add: bulk_create_object_def bulk_object_def bind_def call_uuid_v4_def invoke_def
        return_def split: prod.splits)

lemma mapM_bulk_create_object:
  "\<exists>objects s2.
     mapM (bulk_create_object env agentPolicyId isoDate options) packagePolicies s
       = (Inr objects, s2)
     \<and> calls s2 = calls s @ replicate (length packagePolicies) UuidV4
     \<and> list_all2
         (\<lambda>packagePolicy object.
            \<exists>packagePolicyId.
              object = bulk_object env agentPolicyId isoDate options packagePolicy packagePolicyId)
         packagePolicies objects"
proof (induction packagePolicies arbitrary: s)
  case Nil
  show ?case by (simp add: return_def)
next
  case (Cons packagePolicy packagePolicies)
  let ?s1 = "\<lparr>world = snd (uuid_v4 env (world s)), calls = calls s @ [UuidV4]\<rparr>"
  from Cons.IH [of ?s1] obtain objects s2 where rest:
    "mapM (bulk_create_object env agentPolicyId isoDate options) packagePolicies ?s1
       = (Inr objects, s2)"
    "calls s2 = calls ?s1 @ replicate (length packagePolicies) UuidV4"
    "list_all2
         (\<lambda>packagePolicy object.
            \<exists>packagePolicyId.
              object = bulk_object env agentPolicyId isoDate options packagePolicy packagePolicyId)
         packagePolicies objects"
    by (elim exE conjE)
  let ?object = "bulk_object env agentPolicyId isoDate options packagePolicy
                   (fst (uuid_v4 env (world s)))"
  from rest have
    "mapM (bulk_create_object env agentPolicyId isoDate options) (packagePolicy # packagePolicies) s
       = (Inr (?object # objects), s2)
     \<and> calls s2 = calls s @ replicate (length (packagePolicy # packagePolicies)) UuidV4
     \<and> list_all2
         (\<lambda>packagePolicy object.
            \<exists>packagePolicyId.
              object = bulk_object env agentPolicyId isoDate options packagePolicy packagePolicyId)
         (packagePolicy # packagePolicies) (?object # objects)"
    by (auto simp: bind_def return_def bulk_create_object_run)
  then show ?case by (intro exI)
qed

text \<open>
  Claim C10. Every run of \<open>bulkCreate\<close> reads the clock once, draws one id per policy and
  hands the store one object per policy, in order. Each object has the \<open>agentPolicyId\<close>
  argument as its \<open>policy_id\<close>, whatever the input policy carried, keeps the policy's name,
  has revision 1, and has the one time read as both of its timestamps.
\<close>

theorem bulkCreate_overwrites_policy_id:
  assumes "bulkCreate env packagePolicies agentPolicyId options s = (r, s')"
  shows "\<exists>isoDate objects after.
           calls s' = calls s @ DateNow # replicate (length packagePolicies) UuidV4
                        @ SoBulkCreate objects # after
           \<and> (after = []
                \<or> (\<exists>ids. after = [AssignPackagePolicies agentPolicyId ids (opt_user options)
                                    (bump_option options)]))
           \<and> length objects = length packagePolicies
           \<and> (\<forall>k < length packagePolicies.
                 policy_id (bo_attributes (objects ! k)) = agentPolicyId
                 \<and> name (bo_attributes (objects ! k)) = name (packagePolicies ! k)
                 \<and> revision (bo_attributes (objects ! k)) = 1
                 \<and> created_at (bo_attributes (objects ! k)) = isoDate
                 \<and> updated_at (bo_attributes (objects ! k)) = isoDate)"
proof -
  let ?isoDate = "fst (date_now env (world s))"
  let ?s1 = "\<lparr>world = snd (date_now env (world s)), calls = calls s @ [DateNow]\<rparr>"
  have date: "new_Date_toISOString env s = (Inr ?isoDate, ?s1)"
    by (simp add: new_Date_toISOString_iff)
  from mapM_bulk_create_object [of env agentPolicyId ?isoDate options packagePolicies ?s1]
  obtain objects s2 where objects:
    "mapM (bulk_create_object env agentPolicyId ?isoDate options) packagePolicies ?s1
       = (Inr objects, s2)"
    and c2: "calls s2 = calls ?s1 @ replicate (length packagePolicies) UuidV4"
    and each: "list_all2
         (\<lambda>packagePolicy object.
            \<exists>packagePolicyId.
              object = bulk_object env agentPolicyId ?isoDate options packagePolicy packagePolicyId)
         packagePolicies objects"
    by (elim exE conjE)
  from assms date objects
  have run: "bind (call_soClient_bulkCreate env objects)
               (\<lambda>saved_objects.
             bind (call_assignPackagePolicies env agentPolicyId
                     (map so_id (filter (\<lambda>so. so_error so = None) saved_objects))
                     (opt_user options) (bump_option options))
               (\<lambda>_.
             return (map saved_object_to_package_policy
                       (filter (\<lambda>so. so_error so = None) saved_objects)))) s2 = (r, s')"
    by (simp add: bulkCreate_def bind_def)
  obtain after where c3: "calls s' = calls s2 @ SoBulkCreate objects # after"
    and after: "after = []
                \<or> (\<exists>ids. after = [AssignPackagePolicies agentPolicyId ids (opt_user options)
                                    (bump_option options)])"
    using run
    by (auto simp: bind_def call_soClient_bulkCreate_def call_assignPackagePolicies_def
          invoke_def return_def split: prod.splits sum.splits)
  from each have len: "length objects = length packagePolicies"
    by (simp add: list_all2_lengthD)
  have attrs: "policy_id (bo_attributes (objects ! k)) = agentPolicyId
                 \<and> name (bo_attributes (objects ! k)) = name (packagePolicies ! k)
                 \<and> revision (bo_attributes (objects ! k)) = 1
                 \<and> created_at (bo_attributes (objects ! k)) = ?isoDate
                 \<and> updated_at (bo_attributes (objects ! k)) = ?isoDate"
    if "k < length packagePolicies" for k
  proof -
    from list_all2_nthD [OF each that]
    obtain packagePolicyId where
      "objects ! k = bulk_object env agentPolicyId ?isoDate options (packagePolicies ! k)
                       packagePolicyId"
      by (elim exE)
    then show ?thesis by (simp add: bulk_object_simps)
  qed
  from c2 c3 have "calls s' = calls s @ DateNow # replicate (length packagePolicies) UuidV4
                        @ SoBulkCreate objects # after"
    by simp
  with after len attrs show ?thesis by blast
qed

theorem bulkCreate_overwrites_policy_id_witness:
  "\<exists>r s' isoDate objects after.
     bulkCreate mem_env [nginx_policy, nginx_policy\<lparr>policy_id := ''other''\<rparr>] ''agent-1''
       no_options mem_start = (r, s')
     \<and> calls s' = calls mem_start @ DateNow # replicate 2 UuidV4 @ SoBulkCreate objects # after
     \<and> length objects = 2
     \<and> policy_id ([nginx_policy, nginx_policy\<lparr>policy_id := ''other''\<rparr>] ! 1) = ''other''
     \<and> policy_id (bo_attributes (objects ! 0)) = ''agent-1''
     \<and> policy_id (bo_attributes (objects ! 1)) = ''agent-1''
     \<and> created_at (bo_attributes (objects ! 0)) = isoDate
     \<and> created_at (bo_attributes (objects ! 1)) = isoDate
     \<and> updated_at (bo_attributes (objects ! 1)) = isoDate"
proof -
  obtain r s' where run:
    "bulkCreate mem_env [nginx_policy, nginx_policy\<lparr>policy_id := ''other''\<rparr>] ''agent-1''
       no_options mem_start = (r, s')"
    by (cases "bulkCreate mem_env [nginx_policy, nginx_policy\<lparr>policy_id := ''other''\<rparr>]
                 ''agent-1'' no_options mem_start")
  from bulkCreate_overwrites_policy_id [OF run]
  obtain isoDate objects after where
    log: "calls s' = calls mem_start
            @ DateNow # replicate (length [nginx_policy, nginx_policy\<lparr>policy_id := ''other''\<rparr>])
                          UuidV4
            @ SoBulkCreate objects # after"
    and len: "length objects = length [nginx_policy, nginx_policy\<lparr>policy_id := ''other''\<rparr>]"
    and each: "\<forall>k < length [nginx_policy, nginx_policy\<lparr>policy_id := ''other''\<rparr>].
                 policy_id (bo_attributes (objects ! k)) = ''agent-1''
                 \<and> name (bo_attributes (objects ! k))
                     = name ([nginx_policy, nginx_policy\<lparr>policy_id := ''other''\<rparr>] ! k)
                 \<and> revision (bo_attributes (objects ! k)) = 1
                 \<and> created_at (bo_attributes (objects ! k)) = isoDate
                 \<and> updated_at (bo_attributes (objects ! k)) = isoDate"
    by (elim exE conjE)
  from each have "policy_id (bo_attributes (objects ! 0)) = ''agent-1''"
    "policy_id (bo_attributes (objects ! 1)) = ''agent-1''"
    "created_at (bo_attributes (objects ! 0)) = isoDate"
    "created_at (bo_attributes (objects ! 1)) = isoDate"
    "updated_at (bo_attributes (objects ! 1)) = isoDate"
    by simp_all
  with run log len have
    "bulkCreate mem_env [nginx_policy, nginx_policy\<lparr>policy_id := ''other''\<rparr>] ''agent-1''
       no_options mem_start = (r, s')
     \<and> calls s' = calls mem_start @ DateNow # replicate 2 UuidV4 @ SoBulkCreate objects # after
     \<and> length objects = 2
     \<and> policy_id ([nginx_policy, nginx_policy\<lparr>policy_id := ''other''\<rparr>] ! 1) = ''other''
     \<and> policy_id (bo_attributes (objects ! 0)) = ''agent-1''
     \<and> policy_id (bo_attributes (objects ! 1)) = ''agent-1''
     \<and> created_at (bo_attributes (objects ! 0)) = isoDate
     \<and> created_at (bo_attributes (objects ! 1)) = isoDate
     \<and> updated_at (bo_attributes (objects ! 1)) = isoDate"
    by (simp add: numeral_2_eq_2)
  then show ?thesis by (intro exI)
qed

subsection \<open>Reading and updating a package policy\<close>

lemma get_calls: "get env id0 s = (r, s') \<Longrightarrow> calls s' = calls s @ [SoGet (SAVED_OBJECT_TYPE env) id0]"
  by (auto simp: get_def bind_def call_soClient_get_def invoke_def return_def throw_def
        split: prod.splits sum.splits option.splits)

lemma post_get: "post (get env id0) (\<lambda>_. True) (\<lambda>_. True)"
  unfolding get_def call_soClient_get_def
  by (auto intro!: post_bind_any post_invoke_any post_return_any post_throw split: option.splits)

lemma get_Inr:
  assumes "get env id0 s = (Inr found, s')"
  shows "\<exists>x. soClient_get env (SAVED_OBJECT_TYPE env) id0 (world s) = (Inr x, world s')
           \<and> (case found of
                 None \<Rightarrow> x = None
               | Some p \<Rightarrow> (\<exists>so. x = Some so \<and> so_error so = None
                                 \<and> p = saved_object_to_package_policy so))"
proof -
  from assms obtain x s1 where call: "call_soClient_get env id0 s = (Inr x, s1)"
    and rest: "(case x of
            None \<Rightarrow> return None
          | Some so \<Rightarrow>
              (case so_error so of
                 Some message \<Rightarrow> throw (Error message)
               | None \<Rightarrow> return (Some (saved_object_to_package_policy so)))) s1
          = (Inr found, s')"
    unfolding get_def by (rule bind_InrE)
  from call have store: "soClient_get env (SAVED_OBJECT_TYPE env) id0 (world s) = (Inr x, world s1)"
    by (auto simp: call_soClient_get_def invoke_iff)
  show ?thesis
  proof (cases x)
    case None
    with rest store show ?thesis by (auto simp: return_iff)
  next
    case (Some so)
    show ?thesis
    proof (cases "so_error so")
      case None
      with Some rest store show ?thesis by (auto simp: return_iff)
    next
      case (Some message)
      with \<open>x = Some so\<close> rest show ?thesis by (simp add: throw_iff)
    qed
  qed
qed

lemma update_Inr:
  assumes "update env id0 packagePolicy options s = (Inr updated, s')"
  shows "\<exists>old s1. get env id0 s = (Inr (Some old), s1) \<and>
          (\<exists>parent s2.
             call_agentPolicyService_get env (policy_id packagePolicy) None s1
               = (Inr (Some parent), s2) \<and>
          (\<exists>inputs1 s3.
             update_package_step env packagePolicy
                 (map (assignStreamIdToInput (pp_id old)) (inputs packagePolicy)) s2
               = (Inr inputs1, s3) \<and>
          (\<exists>s5.
             call_soClient_update env id0
                 (update_attributes packagePolicy inputs1 (js_plus (revision old) 1)
                    (fst (date_now env (world s3))) options)
                 (version packagePolicy)
                 \<lparr>world = snd (date_now env (world s3)), calls = calls s3 @ [DateNow]\<rparr>
               = (Inr (), s5) \<and>
          (\<exists>s6.
             call_bumpRevision env (policy_id packagePolicy) (opt_user options) s5 = (Inr (), s6)
             \<and> get env id0 s6 = (Inr updated, s')))))"
  using assms
  apply (simp add: update_def bind_Inr_iff)
  apply (elim exE conjE)
  subgoal for old0 s1
    apply (cases old0)
     apply (simp add: throw_iff)
    apply (simp add: bind_Inr_iff)
    apply (elim exE conjE)
    subgoal for old parent0 s2
      apply (cases parent0)
       apply (simp add: throw_iff)
      apply (simp add: throw_iff bind_Inr_iff new_Date_toISOString_iff split: if_splits)
      done
    done
  done

lemma update_log:
  assumes "update env id0 packagePolicy options s = (Inr updated, s')"
  shows "\<exists>old s1 attributes middle.
           get env id0 s = (Inr (Some old), s1)
           \<and> calls s' = calls s
               @ [SoGet (SAVED_OBJECT_TYPE env) id0, AgentPolicyGet (policy_id packagePolicy) None]
               @ middle
               @ [DateNow,
                  SoUpdate (SAVED_OBJECT_TYPE env) id0 attributes (version packagePolicy),
                  BumpRevision (policy_id packagePolicy) (opt_user options),
                  SoGet (SAVED_OBJECT_TYPE env) id0]
           \<and> list_all preparation_call middle
           \<and> upd_revision attributes = js_plus (revision old) 1"
proof -
  from update_Inr [OF assms]
  obtain old s1 parent s2 inputs1 s3 s5 s6 where
    found: "get env id0 s = (Inr (Some old), s1)"
    and lookup: "call_agentPolicyService_get env (policy_id packagePolicy) None s1
               = (Inr (Some parent), s2)"
    and step: "update_package_step env packagePolicy
                 (map (assignStreamIdToInput (pp_id old)) (inputs packagePolicy)) s2
               = (Inr inputs1, s3)"
    and persist: "call_soClient_update env id0
                 (update_attributes packagePolicy inputs1 (js_plus (revision old) 1)
                    (fst (date_now env (world s3))) options)
                 (version packagePolicy)
                 \<lparr>world = snd (date_now env (world s3)), calls = calls s3 @ [DateNow]\<rparr>
               = (Inr (), s5)"
    and bump: "call_bumpRevision env (policy_id packagePolicy) (opt_user options) s5 = (Inr (), s6)"
    and reload: "get env id0 s6 = (Inr updated, s')"
    by (elim exE conjE)
  from postD [OF post_update_package_step step]
  obtain middle where middle: "calls s3 = calls s2 @ middle" "list_all preparation_call middle"
    by (elim exE conjE)
  let ?attributes = "update_attributes packagePolicy inputs1 (js_plus (revision old) 1)
                    (fst (date_now env (world s3))) options"
  from get_calls [OF found] lookup middle persist bump get_calls [OF reload]
  have "calls s' = calls s
               @ [SoGet (SAVED_OBJECT_TYPE env) id0, AgentPolicyGet (policy_id packagePolicy) None]
               @ middle
               @ [DateNow,
                  SoUpdate (SAVED_OBJECT_TYPE env) id0 ?attributes (version packagePolicy),
                  BumpRevision (policy_id packagePolicy) (opt_user options),
                  SoGet (SAVED_OBJECT_TYPE env) id0]"
    by (auto simp: call_agentPolicyService_get_def call_soClient_update_def call_bumpRevision_def
          invoke_iff)
  moreover have "upd_revision ?attributes = js_plus (revision old) 1"
    by (simp add: update_attributes_simps)
  ultimately show ?thesis using found middle(2) by blast
qed

lemma contract_get_value:
  assumes "store_tracks_revision env rv" and "soClient_get env t i w = (Inr (Some so), w')"
    and "so_error so = None"
  shows "rv w i = Some (revision (so_attributes so))"
proof -
  from assms(1) have "\<forall>t i w so w'. soClient_get env t i w = (Inr (Some so), w') \<longrightarrow>
        so_error so = None \<longrightarrow> rv w i = Some (revision (so_attributes so))"
    unfolding store_tracks_revision_def by (elim conjE)
  from this [rule_format, OF assms(2) assms(3)] show ?thesis .
qed

lemma contract_get:
  assumes "store_tracks_revision env rv" and "soClient_get env t i w = (Inr x, w')"
  shows "rv w' = rv w"
proof -
  from assms(1) have "\<forall>t i w x w'. soClient_get env t i w = (Inr x, w') \<longrightarrow> rv w' = rv w"
    unfolding store_tracks_revision_def by (elim conjE)
  from this [rule_format, OF assms(2)] show ?thesis .
qed

lemma contract_update:
  assumes "store_tracks_revision env rv" and "soClient_update env t i a v w = (Inr x, w')"
  shows "rv w' = (rv w)(i \<mapsto> upd_revision a)"
proof -
  from assms(1) have "\<forall>t i a v w x w'. soClient_update env t i a v w = (Inr x, w') \<longrightarrow> rv w' = (rv w)(i \<mapsto> upd_revision a)"
    unfolding store_tracks_revision_def by (elim conjE)
  from this [rule_format, OF assms(2)] show ?thesis .
qed

lemma contract_agent_get:
  assumes "store_tracks_revision env rv" and "agentPolicyService_get env p b w = (Inr x, w')"
  shows "rv w' = rv w"
proof -
  from assms(1) have "\<forall>p b w x w'. agentPolicyService_get env p b w = (Inr x, w') \<longrightarrow> rv w' = rv w"
    unfolding store_tracks_revision_def by (elim conjE)
  from this [rule_format, OF assms(2)] show ?thesis .
qed

lemma contract_bump:
  assumes "store_tracks_revision env rv" and "agentPolicyService_bumpRevision env p u w = (Inr x, w')"
  shows "rv w' = rv w"
proof -
  from assms(1) have "\<forall>p u w x w'. agentPolicyService_bumpRevision env p u w = (Inr x, w') \<longrightarrow> rv w' = rv w"
    unfolding store_tracks_revision_def by (elim conjE)
  from this [rule_format, OF assms(2)] show ?thesis .
qed

lemma contract_getPackageInfo:
  assumes "store_tracks_revision env rv" and "getPackageInfo env n v w = (Inr x, w')"
  shows "rv w' = rv w"
proof -
  from assms(1) have "\<forall>n v w x w'. getPackageInfo env n v w = (Inr x, w') \<longrightarrow> rv w' = rv w"
    unfolding store_tracks_revision_def by (elim conjE)
  from this [rule_format, OF assms(2)] show ?thesis .
qed

lemma contract_fetchInfo:
  assumes "store_tracks_revision env rv" and "Registry_fetchInfo env n v w = (Inr x, w')"
  shows "rv w' = rv w"
proof -
  from assms(1) have "\<forall>n v w x w'. Registry_fetchInfo env n v w = (Inr x, w') \<longrightarrow> rv w' = rv w"
    unfolding store_tracks_revision_def by (elim conjE)
  from this [rule_format, OF assms(2)] show ?thesis .
qed

lemma contract_getAssetsData:
  assumes "store_tracks_revision env rv" and "getAssetsData env g f d w = (Inr x, w')"
  shows "rv w' = rv w"
proof -
  from assms(1) have "\<forall>g f d w x w'. getAssetsData env g f d w = (Inr x, w') \<longrightarrow> rv w' = rv w"
    unfolding store_tracks_revision_def by (elim conjE)
  from this [rule_format, OF assms(2)] show ?thesis .
qed

lemma contract_date:
  assumes "store_tracks_revision env rv"
  shows "rv (snd (date_now env w)) = rv w"
proof -
  from assms have "\<forall>w. rv (snd (date_now env w)) = rv w"
    unfolding store_tracks_revision_def by (elim conjE)
  then show ?thesis by (rule spec)
qed

lemma keeps_call_getAssetsData:
  "store_tracks_revision env rv \<Longrightarrow> keeps rv (call_getAssetsData env reg ending d)"
  unfolding call_getAssetsData_def
  by (rule keeps_invoke) (erule contract_getAssetsData)

lemma keeps_compilePackagePolicyInput:
  "store_tracks_revision env rv \<Longrightarrow> keeps rv (compilePackagePolicyInput env reg pkg input)"
  unfolding compilePackagePolicyInput_def
  by (auto intro!: keeps_bind keeps_call_getAssetsData keeps_return keeps_throw keeps_lift
        split: option.splits)

lemma keeps_compilePackageStream:
  "store_tracks_revision env rv \<Longrightarrow> keeps rv (compilePackageStream env reg pkg input stream)"
  unfolding compilePackageStream_def
  by (auto intro!: keeps_bind keeps_call_getAssetsData keeps_return keeps_throw keeps_lift
        split: option.splits)

lemma keeps_compile_one_input:
  "store_tracks_revision env rv \<Longrightarrow> keeps rv (compile_one_input env reg pkg input)"
  unfolding compile_one_input_def compilePackageStreams_def
  by (intro keeps_bind keeps_compilePackagePolicyInput keeps_mapM keeps_compilePackageStream
        keeps_return)

lemma keeps_compilePackagePolicyInputs:
  "store_tracks_revision env rv \<Longrightarrow> keeps rv (compilePackagePolicyInputs env pkg ins)"
  unfolding compilePackagePolicyInputs_def call_Registry_fetchInfo_def
  by (intro keeps_bind keeps_invoke keeps_mapM keeps_compile_one_input)
     (erule contract_fetchInfo)

lemma keeps_update_package_step:
  "store_tracks_revision env rv \<Longrightarrow> keeps rv (update_package_step env pp ins)"
  unfolding update_package_step_def call_getPackageInfo_def
  by (auto intro!: keeps_bind keeps_invoke keeps_compilePackagePolicyInputs keeps_return
        elim: contract_getPackageInfo)

lemma get_keeps:
  assumes "store_tracks_revision env rv" and "get env id0 s = (Inr found, s')"
  shows "rv (world s') = rv (world s)"
  using get_Inr [OF assms(2)] contract_get [OF assms(1)] by auto

lemma get_revision:
  assumes "store_tracks_revision env rv" and "get env id0 s = (Inr (Some p), s')"
  shows "rv (world s) id0 = Some (revision p)"
  using get_Inr [OF assms(2)] contract_get_value [OF assms(1)]
  by (auto simp: saved_object_to_package_policy_simps)

lemma update_stored_revision:
  assumes "store_tracks_revision env rv"
    and "update env id0 packagePolicy options s = (Inr updated, s')"
  shows "\<exists>r. rv (world s) id0 = Some r \<and> rv (world s') id0 = Some (js_plus r 1)"
proof -
  from update_Inr [OF assms(2)]
  obtain old s1 parent s2 inputs1 s3 s5 s6 where
    found: "get env id0 s = (Inr (Some old), s1)"
    and lookup: "call_agentPolicyService_get env (policy_id packagePolicy) None s1
               = (Inr (Some parent), s2)"
    and step: "update_package_step env packagePolicy
                 (map (assignStreamIdToInput (pp_id old)) (inputs packagePolicy)) s2
               = (Inr inputs1, s3)"
    and persist: "call_soClient_update env id0
                 (update_attributes packagePolicy inputs1 (js_plus (revision old) 1)
                    (fst (date_now env (world s3))) options)
                 (version packagePolicy)
                 \<lparr>world = snd (date_now env (world s3)), calls = calls s3 @ [DateNow]\<rparr>
               = (Inr (), s5)"
    and bump: "call_bumpRevision env (policy_id packagePolicy) (opt_user options) s5 = (Inr (), s6)"
    and reload: "get env id0 s6 = (Inr updated, s')"
    by (elim exE conjE)
  note c = assms(1)
  from get_revision [OF c found] have r0: "rv (world s) id0 = Some (revision old)" .
  from get_keeps [OF c found] have k1: "rv (world s1) = rv (world s)" .
  from lookup contract_agent_get [OF c] have k2: "rv (world s2) = rv (world s1)"
    by (auto simp: call_agentPolicyService_get_def invoke_iff)
  from keepsD [OF keeps_update_package_step [OF c] step] have k3: "rv (world s3) = rv (world s2)" .
  from persist contract_update [OF c] contract_date [OF c, of "world s3"]
  have k5: "rv (world s5) = (rv (world s3))(id0 \<mapsto> js_plus (revision old) 1)"
    by (auto simp: call_soClient_update_def invoke_iff update_attributes_simps)
  from bump contract_bump [OF c] have k6: "rv (world s6) = rv (world s5)"
    by (auto simp: call_bumpRevision_def invoke_iff)
  from get_keeps [OF c reload] have k7: "rv (world s') = rv (world s6)" .
  from r0 k5 k6 k7 show ?thesis by simp
qed

lemma update_repeatedly_revision:
  assumes "store_tracks_revision env rv"
  shows "update_repeatedly env id0 requests s = (Inr (), s') \<Longrightarrow> rv (world s) id0 = Some r
         \<Longrightarrow> - (2 ^ 53) \<le> r \<Longrightarrow> r + int (length requests) \<le> 2 ^ 53
         \<Longrightarrow> rv (world s') id0 = Some (r + int (length requests))
             \<and> (\<exists>cs. calls s' = calls s @ cs \<and> length (filter bump_call cs) = length requests)"
proof (induction requests arbitrary: s r)
  case Nil
  then show ?case by (simp add: return_iff)
next
  case (Cons request requests)
  from Cons.prems(1) obtain updated s1 where
    first: "update env id0 (fst request) (snd request) s = (Inr updated, s1)"
    and rest: "update_repeatedly env id0 requests s1 = (Inr (), s')"
    by (auto simp: bind_Inr_iff)
  from Cons.prems(4) have below: "r < 2 ^ 53" by simp
  from update_stored_revision [OF assms first] Cons.prems(2)
  have "rv (world s1) id0 = Some (js_plus r 1)" by auto
  with js_plus_one [OF Cons.prems(3) below]
  have r1: "rv (world s1) id0 = Some (r + 1)" by simp
  from update_log [OF first]
  obtain attributes middle where
    log: "calls s1 = calls s
               @ [SoGet (SAVED_OBJECT_TYPE env) id0, AgentPolicyGet (policy_id (fst request)) None]
               @ middle
               @ [DateNow,
                  SoUpdate (SAVED_OBJECT_TYPE env) id0 attributes (version (fst request)),
                  BumpRevision (policy_id (fst request)) (opt_user (snd request)),
                  SoGet (SAVED_OBJECT_TYPE env) id0]"
    and middle: "list_all preparation_call middle"
    by auto
  from middle have "filter bump_call middle = []"
    by (auto simp: list_all_iff filter_empty_conv preparation_call_def bump_call_def
          split: call.splits)
  with log have one: "\<exists>cs. calls s1 = calls s @ cs \<and> length (filter bump_call cs) = 1"
    by (simp add: bump_call_def)
  from Cons.prems(3) have low: "- (2 ^ 53) \<le> r + 1" by simp
  from Cons.prems(4) have high: "r + 1 + int (length requests) \<le> 2 ^ 53" by simp
  from Cons.IH [OF rest r1 low high]
  have "rv (world s') id0 = Some (r + 1 + int (length requests))"
    and "\<exists>cs. calls s' = calls s1 @ cs \<and> length (filter bump_call cs) = length requests"
    by simp_all
  with one show ?case by auto
qed

lemma mem_contract: "store_tracks_revision mem_env mem_revision"
  unfolding store_tracks_revision_def
  apply (intro conjI allI impI)
          apply (auto simp: mem_env_def mem_so_get_def mem_revision_def split: option.splits)[1]
         apply (auto simp: mem_env_def mem_so_get_def split: option.splits)[1]
        apply (auto simp: mem_env_def mem_so_update_def mem_revision_def fun_eq_iff
                 new_package_policy.defs package_policy_so_attributes.defs
                 split: option.splits if_splits)[1]
       apply (auto simp: mem_env_def mem_agent_get_def split: option.splits)[1]
      apply (auto simp: mem_env_def mem_agent_bump_def mem_revision_def fun_eq_iff)[1]
     apply (auto simp: mem_env_def mem_getPackageInfo_def split: if_splits)[1]
    apply (auto simp: mem_env_def)[1]
   apply (auto simp: mem_env_def mem_getAssetsData_def)[1]
  apply (auto simp: mem_env_def mem_revision_def fun_eq_iff)[1]
  done

text \<open>
  Claim C2, as amended. A successful \<open>update\<close> reads the stored policy, persists attributes
  whose revision is the stored revision with one added as numbers are added, and then
  bumps the revision of the agent policy: among the calls of the run exactly one is a bump.
  The persisted revision is the stored revision plus one whenever the stored revision is at
  least \<open>- 2 ^ 53\<close> and below \<open>2 ^ 53\<close>. With a store that keeps what it is given
  (\<open>store_tracks_revision\<close>), \<open>n\<close> successive successful updates of a policy stored at
  revision 1 leave it at revision \<open>n + 1\<close>, with \<open>n\<close> bumps in all, for every \<open>n\<close> below
  \<open>2 ^ 53\<close>.
\<close>

theorem update_increments_revision:
  "(update env id0 packagePolicy options s = (Inr updated, s') \<longrightarrow>
      (\<exists>old s1 attributes middle.
         get env id0 s = (Inr (Some old), s1)
         \<and> calls s' = calls s
             @ [SoGet (SAVED_OBJECT_TYPE env) id0, AgentPolicyGet (policy_id packagePolicy) None]
             @ middle
             @ [DateNow,
                SoUpdate (SAVED_OBJECT_TYPE env) id0 attributes (version packagePolicy),
                BumpRevision (policy_id packagePolicy) (opt_user options),
                SoGet (SAVED_OBJECT_TYPE env) id0]
         \<and> list_all preparation_call middle
         \<and> upd_revision attributes = js_plus (revision old) 1
         \<and> (- (2 ^ 53) \<le> revision old \<and> revision old < 2 ^ 53 \<longrightarrow>
                upd_revision attributes = revision old + 1))
      \<and> length (filter bump_call (drop (length (calls s)) (calls s'))) = 1)
   \<and> (store_tracks_revision env rv \<and> rv (world s) id0 = Some 1
        \<and> int (length requests) < 2 ^ 53
        \<and> update_repeatedly env id0 requests s = (Inr (), s2) \<longrightarrow>
        rv (world s2) id0 = Some (int (length requests) + 1)
        \<and> length (filter bump_call (drop (length (calls s)) (calls s2))) = length requests)"
proof (intro conjI impI)
  assume run: "update env id0 packagePolicy options s = (Inr updated, s')"
  from update_log [OF run]
  obtain old s1 attributes middle where
    found: "get env id0 s = (Inr (Some old), s1)"
    and log: "calls s' = calls s
             @ [SoGet (SAVED_OBJECT_TYPE env) id0, AgentPolicyGet (policy_id packagePolicy) None]
             @ middle
             @ [DateNow,
                SoUpdate (SAVED_OBJECT_TYPE env) id0 attributes (version packagePolicy),
                BumpRevision (policy_id packagePolicy) (opt_user options),
                SoGet (SAVED_OBJECT_TYPE env) id0]"
    and middle: "list_all preparation_call middle"
    and next_revision: "upd_revision attributes = js_plus (revision old) 1"
    by (elim exE conjE)
  have exact: "- (2 ^ 53) \<le> revision old \<and> revision old < 2 ^ 53 \<longrightarrow>
                upd_revision attributes = revision old + 1"
    using next_revision js_plus_one [of "revision old"] by simp
  from found log middle next_revision exact
  show "\<exists>old s1 attributes middle.
         get env id0 s = (Inr (Some old), s1)
         \<and> calls s' = calls s
             @ [SoGet (SAVED_OBJECT_TYPE env) id0, AgentPolicyGet (policy_id packagePolicy) None]
             @ middle
             @ [DateNow,
                SoUpdate (SAVED_OBJECT_TYPE env) id0 attributes (version packagePolicy),
                BumpRevision (policy_id packagePolicy) (opt_user options),
                SoGet (SAVED_OBJECT_TYPE env) id0]
         \<and> list_all preparation_call middle
         \<and> upd_revision attributes = js_plus (revision old) 1
         \<and> (- (2 ^ 53) \<le> revision old \<and> revision old < 2 ^ 53 \<longrightarrow>
                upd_revision attributes = revision old + 1)"
    by (intro exI conjI)
  from middle have "filter bump_call middle = []"
    by (auto simp: list_all_iff filter_empty_conv preparation_call_def bump_call_def
          split: call.splits)
  with log show "length (filter bump_call (drop (length (calls s)) (calls s'))) = 1"
    by (simp add: bump_call_def)
next
  assume "store_tracks_revision env rv \<and> rv (world s) id0 = Some 1
        \<and> int (length requests) < 2 ^ 53
        \<and> update_repeatedly env id0 requests s = (Inr (), s2)"
  then have c: "store_tracks_revision env rv" and r: "rv (world s) id0 = Some 1"
    and few: "int (length requests) < 2 ^ 53"
    and run: "update_repeatedly env id0 requests s = (Inr (), s2)"
    by simp_all
  have low: "- (2 ^ 53) \<le> (1 :: int)" by simp
  from few have high: "1 + int (length requests) \<le> 2 ^ 53" by simp
  from update_repeatedly_revision [OF c run r low high]
  obtain cs where "rv (world s2) id0 = Some (1 + int (length requests))"
    "calls s2 = calls s @ cs" "length (filter bump_call cs) = length requests"
    by (elim exE conjE)
  then show "rv (world s2) id0 = Some (int (length requests) + 1)"
    and "length (filter bump_call (drop (length (calls s)) (calls s2))) = length requests"
    by (simp_all add: add.commute)
qed

lemma update_runs: "\<not> isl (fst (update mem_env ''pp-1'' nginx_update no_options mem_stored))"
  by code_simp

lemma update_persists_two:
  "persisted_revisions (calls (snd (update mem_env ''pp-1'' nginx_update no_options mem_stored)))
   = [2]"
  by code_simp

lemma update_twice_runs:
  "fst (update_repeatedly mem_env ''pp-1'' [(nginx_update, no_options), (nginx_update, no_options)]
          mem_stored) = Inr ()"
  by code_simp

theorem update_increments_revision_witness:
  "store_tracks_revision mem_env mem_revision
   \<and> mem_revision (world mem_stored) ''pp-1'' = Some 1
   \<and> (\<exists>updated s'.
         update mem_env ''pp-1'' nginx_update no_options mem_stored = (Inr updated, s')
         \<and> persisted_revisions (calls s') = [2]
         \<and> length (filter bump_call (drop (length (calls mem_stored)) (calls s'))) = 1)
   \<and> (\<exists>s2.
         update_repeatedly mem_env ''pp-1'' [(nginx_update, no_options), (nginx_update, no_options)]
           mem_stored = (Inr (), s2)
         \<and> mem_revision (world s2) ''pp-1'' = Some 3
         \<and> length (filter bump_call (drop (length (calls mem_stored)) (calls s2))) = 2)"
proof -
  have start: "mem_revision (world mem_stored) ''pp-1'' = Some 1"
    by (simp add: mem_revision_def mem_stored_def nginx_stored_def new_attributes_simps)
  obtain updated s' where
    one: "update mem_env ''pp-1'' nginx_update no_options mem_stored = (Inr updated, s')"
    using update_runs
    by (cases "update mem_env ''pp-1'' nginx_update no_options mem_stored";
        cases "fst (update mem_env ''pp-1'' nginx_update no_options mem_stored)") auto
  with update_persists_two have persisted: "persisted_revisions (calls s') = [2]"
    by simp
  obtain s2 where
    two: "update_repeatedly mem_env ''pp-1'' [(nginx_update, no_options), (nginx_update, no_options)]
            mem_stored = (Inr (), s2)"
    using update_twice_runs
    by (cases "update_repeatedly mem_env ''pp-1''
                 [(nginx_update, no_options), (nginx_update, no_options)] mem_stored") auto
  from update_increments_revision
         [of mem_env "''pp-1''" nginx_update no_options mem_stored updated s' mem_revision
             "[(nginx_update, no_options), (nginx_update, no_options)]" s2]
       mem_contract start one two persisted
  show ?thesis by auto
qed

lemma large_get_run:
  "map_sum id (map_option revision) (fst (get mem_env ''pp-1'' mem_large))
   = Inr (Some 9007199254740992)"
  by code_simp

lemma large_update_persists:
  "persisted_revisions (calls (snd (update mem_env ''pp-1'' nginx_update no_options mem_large)))
   = [9007199254740992]"
  by code_simp

lemma large_update_run:
  "map_sum id (map_option revision)
     (fst (update mem_env ''pp-1'' nginx_update no_options mem_large))
   = Inr (Some 9007199254740992)"
  by code_simp

text \<open>
  The claim as it was stated holds the persisted revision to be the stored revision plus
  one for every successful update. The revision is a number of the language, and at
  \<open>2 ^ 53\<close> adding one to a number leaves it as it is: the policy \<open>pp-1\<close> of \<open>mem_large\<close>
  is stored at revision 9007199254740992, the update succeeds, and the revision it hands
  to the store and then reads back is 9007199254740992 again.
\<close>

theorem update_at_large_revision_counterexample:
  "map_sum id (map_option revision) (fst (get mem_env ''pp-1'' mem_large))
     = Inr (Some 9007199254740992)
   \<and> persisted_revisions (calls (snd (update mem_env ''pp-1'' nginx_update no_options mem_large)))
       = [9007199254740992]
   \<and> persisted_revisions (calls (snd (update mem_env ''pp-1'' nginx_update no_options mem_large)))
       \<noteq> [9007199254740992 + 1]
   \<and> map_sum id (map_option revision)
         (fst (update mem_env ''pp-1'' nginx_update no_options mem_large))
       = Inr (Some 9007199254740992)"
  using large_get_run large_update_persists large_update_run by simp

lemma update_package_step_fail_grows:
  assumes "update_package_step env packagePolicy ins s = (Inl e, s')"
  shows "length (calls s) < length (calls s')"
proof (cases "has_package_name packagePolicy")
  case False
  with assms show ?thesis by (simp add: update_package_step_def return_iff)
next
  case True
  with assms have "bind (invoke (GetPackageInfo (pkg_name (the (package packagePolicy)))
                                   (pkg_version (the (package packagePolicy))))
                           (getPackageInfo env (pkg_name (the (package packagePolicy)))
                                   (pkg_version (the (package packagePolicy)))))
                     (\<lambda>pkgInfo. compilePackagePolicyInputs env pkgInfo ins) s = (Inl e, s')"
    by (simp add: update_package_step_def call_getPackageInfo_def)
  then show ?thesis
    by (rule bind_invoke_grows [rotated]) (rule post_compilePackagePolicyInputs)
qed

lemma update_continues:
  assumes found: "get env id0 s = (Inr (Some old), s1)"
    and lookup: "call_agentPolicyService_get env (policy_id packagePolicy) None s1
                   = (Inr (Some parent), s2)"
    and free: "\<not> is_managed parent"
    and unique: "find (\<lambda>siblingPackagePolicy.
                     pp_id siblingPackagePolicy \<noteq> id0
                     \<and> name siblingPackagePolicy = name packagePolicy)
               (package_policies parent) = None"
    and run: "update env id0 packagePolicy options s = (r, s')"
  shows "length (calls s2) < length (calls s')"
proof -
  let ?ins = "map (assignStreamIdToInput (pp_id old)) (inputs packagePolicy)"
  let ?tail = "\<lambda>inputs1 isoDate.
     bind (call_soClient_update env id0
             (update_attributes packagePolicy inputs1 (js_plus (revision old) 1)
                isoDate options)
             (version packagePolicy))
       (\<lambda>_.
     bind (call_bumpRevision env (policy_id packagePolicy) (opt_user options))
       (\<lambda>_.
     get env id0))"
  from found lookup free unique run
  have rest: "bind (update_package_step env packagePolicy ?ins)
       (\<lambda>inputs1. bind (new_Date_toISOString env) (\<lambda>isoDate. ?tail inputs1 isoDate)) s2 = (r, s')"
    by (simp add: update_def bind_def)
  have tail: "post (?tail inputs1 isoDate) (\<lambda>_. True) (\<lambda>_. True)" for inputs1 isoDate
    unfolding call_soClient_update_def call_bumpRevision_def
    by (intro post_bind_any post_invoke_any post_get) simp_all
  obtain r3 s3 where step: "update_package_step env packagePolicy ?ins s2 = (r3, s3)"
    by (cases "update_package_step env packagePolicy ?ins s2")
  show ?thesis
  proof (cases r3)
    case (Inl e)
    with step rest have "s' = s3" by (simp add: bind_def)
    with update_package_step_fail_grows [of env packagePolicy ?ins s2 e s3] step Inl
    show ?thesis by simp
  next
    case (Inr inputs1)
    with step rest
    have "bind (new_Date_toISOString env) (\<lambda>isoDate. ?tail inputs1 isoDate) s3 = (r, s')"
      by (simp add: bind_def)
    then have "length (calls s3) < length (calls s')"
      unfolding new_Date_toISOString_def
      by (rule bind_invoke_grows [rotated]) (rule tail)
    with post_grows [OF post_update_package_step step] show ?thesis by simp
  qed
qed

lemma raisesD: "raises m E \<Longrightarrow> m s = (Inl e, s') \<Longrightarrow> E e"
  unfolding raises_def by (elim allE impE) assumption

lemma raisesI: "(\<And>s e s'. m s = (Inl e, s') \<Longrightarrow> E e) \<Longrightarrow> raises m E"
  unfolding raises_def by (intro allI impI)

lemma raises_return: "raises (return x) E"
  by (rule raisesI) (simp add: return_def)

lemma raises_throw: "E e \<Longrightarrow> raises (throw e) E"
  by (rule raisesI) (simp add: throw_def)

lemma raises_lift: "(\<And>e. v = Inl e \<Longrightarrow> E e) \<Longrightarrow> raises (lift v) E"
  by (rule raisesI) (simp add: lift_def)

lemma raises_invoke: "(\<And>w e. fst (f w) = Inl e \<Longrightarrow> E e) \<Longrightarrow> raises (invoke c f) E"
proof (rule raisesI)
  fix s e s'
  assume step: "\<And>w e. fst (f w) = Inl e \<Longrightarrow> E e" and run: "invoke c f s = (Inl e, s')"
  from run have "fst (f (world s)) = Inl e"
    by (simp add: invoke_def split: prod.splits)
  then show "E e" by (rule step)
qed

lemma raises_bind:
  assumes "raises m E" and "\<And>x. raises (f x) E"
  shows "raises (bind m f) E"
proof (rule raisesI)
  fix s e s'
  assume run: "bind m f s = (Inl e, s')"
  obtain r s1 where first: "m s = (r, s1)" by (cases "m s")
  show "E e"
  proof (cases r)
    case (Inl e1)
    with first run have "e = e1" by (simp add: bind_def)
    with first Inl raisesD [OF assms(1)] show ?thesis by simp
  next
    case (Inr x)
    with first run have "f x s1 = (Inl e, s')" by (simp add: bind_def)
    with raisesD [OF assms(2)] show ?thesis .
  qed
qed

lemma raises_mapM:
  assumes "\<And>x. raises (f x) E"
  shows "raises (mapM f xs) E"
  by (induction xs) (auto intro!: raises_bind raises_return assms)

lemma raises_call_getAssetsData:
  "\<not> raised_outside env e \<Longrightarrow> raises (call_getAssetsData env reg ending d) (\<lambda>x. x \<noteq> e)"
  unfolding call_getAssetsData_def
  by (rule raises_invoke) (auto simp: raised_outside_def)

lemma raises_compileTemplate:
  "\<not> raised_outside env e \<Longrightarrow> raises (lift (compileTemplate env variables buffer)) (\<lambda>x. x \<noteq> e)"
  by (rule raises_lift) (auto simp: raised_outside_def)

lemma raises_compilePackagePolicyInput:
  "\<not> raised_outside env duplicate_name
   \<Longrightarrow> raises (compilePackagePolicyInput env reg pkg input) (\<lambda>x. x \<noteq> duplicate_name)"
  unfolding compilePackagePolicyInput_def
  by (auto intro!: raises_bind raises_call_getAssetsData raises_return raises_throw
        raises_compileTemplate split: option.splits)

lemma raises_compilePackageStream:
  "\<not> raised_outside env duplicate_name
   \<Longrightarrow> raises (compilePackageStream env reg pkg input stream) (\<lambda>x. x \<noteq> duplicate_name)"
  unfolding compilePackageStream_def
  by (auto intro!: raises_bind raises_call_getAssetsData raises_return raises_throw
        raises_compileTemplate split: option.splits)

lemma raises_compile_one_input:
  "\<not> raised_outside env duplicate_name
   \<Longrightarrow> raises (compile_one_input env reg pkg input) (\<lambda>x. x \<noteq> duplicate_name)"
  unfolding compile_one_input_def compilePackageStreams_def
  by (intro raises_bind raises_compilePackagePolicyInput raises_mapM raises_compilePackageStream
        raises_return)

lemma raises_compilePackagePolicyInputs:
  "\<not> raised_outside env duplicate_name
   \<Longrightarrow> raises (compilePackagePolicyInputs env pkg ins) (\<lambda>x. x \<noteq> duplicate_name)"
  unfolding compilePackagePolicyInputs_def call_Registry_fetchInfo_def
  by (intro raises_bind raises_invoke raises_mapM raises_compile_one_input)
     (auto simp: raised_outside_def)

lemma raises_update_package_step:
  "\<not> raised_outside env duplicate_name
   \<Longrightarrow> raises (update_package_step env pp ins) (\<lambda>x. x \<noteq> duplicate_name)"
  unfolding update_package_step_def call_getPackageInfo_def
  by (auto intro!: raises_bind raises_invoke raises_compilePackagePolicyInputs raises_return
        simp: raised_outside_def)

lemma raises_get:
  "\<not> raised_outside env e \<Longrightarrow> raises (get env id0) (\<lambda>x. x \<noteq> e)"
proof (rule raisesI)
  fix s x s'
  assume quiet: "\<not> raised_outside env e" and run: "get env id0 s = (Inl x, s')"
  let ?answer = "fst (soClient_get env (SAVED_OBJECT_TYPE env) id0 (world s))"
  from run have "?answer = Inl x
      \<or> (\<exists>so message. ?answer = Inr (Some so) \<and> so_error so = Some message \<and> x = Error message)"
    by (auto simp: get_def bind_def call_soClient_get_def invoke_def return_def throw_def
          split: prod.splits sum.splits option.splits)
  then have "(\<exists>t i w. fst (soClient_get env t i w) = Inl x)
     \<or> (\<exists>t i w so message.
           fst (soClient_get env t i w) = Inr (Some so) \<and> so_error so = Some message
           \<and> x = Error message)"
    by auto
  then have "raised_outside env x"
    unfolding raised_outside_def by (elim disjE) simp_all
  with quiet show "x \<noteq> e" by auto
qed

lemma raises_call_soClient_update:
  "\<not> raised_outside env e \<Longrightarrow> raises (call_soClient_update env id0 a v) (\<lambda>x. x \<noteq> e)"
  unfolding call_soClient_update_def
  by (rule raises_invoke) (auto simp: raised_outside_def)

lemma raises_call_bumpRevision:
  "\<not> raised_outside env e \<Longrightarrow> raises (call_bumpRevision env p u) (\<lambda>x. x \<noteq> e)"
  unfolding call_bumpRevision_def
  by (rule raises_invoke) (auto simp: raised_outside_def)

lemma raises_call_agentPolicyService_get:
  "\<not> raised_outside env e \<Longrightarrow> raises (call_agentPolicyService_get env p b) (\<lambda>x. x \<noteq> e)"
  unfolding call_agentPolicyService_get_def
  by (rule raises_invoke) (auto simp: raised_outside_def)

lemma raises_new_Date: "raises (new_Date_toISOString env) E"
  by (rule raisesI) (simp add: new_Date_toISOString_def invoke_def split: prod.splits)

lemma update_duplicate_name:
  assumes quiet: "\<not> raised_outside env duplicate_name"
    and run: "update env id0 packagePolicy options s = (Inl duplicate_name, s')"
  shows "\<exists>old s1 parent.
           get env id0 s = (Inr (Some old), s1)
           \<and> call_agentPolicyService_get env (policy_id packagePolicy) None s1
               = (Inr (Some parent), s')
           \<and> \<not> is_managed parent
           \<and> (\<exists>sibling \<in> set (package_policies parent).
                 pp_id sibling \<noteq> id0 \<and> name sibling = name packagePolicy)"
proof -
  obtain r1 s1 where found: "get env id0 s = (r1, s1)" by (cases "get env id0 s")
  show ?thesis
  proof (cases r1)
    case (Inl e)
    with found run have "e = duplicate_name" by (simp add: update_def bind_def)
    moreover from found Inl have "get env id0 s = (Inl e, s1)" by simp
    from raisesD [OF raises_get [OF quiet] this] have "e \<noteq> duplicate_name" .
    ultimately show ?thesis by simp
  next
    case (Inr old0)
    show ?thesis
    proof (cases old0)
      case None
      with found Inr run show ?thesis by (simp add: update_def bind_def throw_def)
    next
      case (Some old)
      obtain r2 s2 where lookup:
        "call_agentPolicyService_get env (policy_id packagePolicy) None s1 = (r2, s2)"
        by (cases "call_agentPolicyService_get env (policy_id packagePolicy) None s1")
      show ?thesis
      proof (cases r2)
        case (Inl e)
        with found \<open>r1 = Inr old0\<close> Some lookup run have "e = duplicate_name"
          by (simp add: update_def bind_def)
        moreover from lookup Inl
        have "call_agentPolicyService_get env (policy_id packagePolicy) None s1 = (Inl e, s2)"
          by simp
        from raisesD [OF raises_call_agentPolicyService_get [OF quiet] this]
        have "e \<noteq> duplicate_name" .
        ultimately show ?thesis by simp
      next
        case (Inr parent0)
        show ?thesis
        proof (cases parent0)
          case None
          with found \<open>r1 = Inr old0\<close> Some lookup Inr run show ?thesis
            by (simp add: update_def bind_def throw_def)
        next
          case parent: (Some parent)
          show ?thesis
          proof (cases "is_managed parent")
            case True
            with found \<open>r1 = Inr old0\<close> Some lookup Inr parent run show ?thesis
              by (simp add: update_def bind_def throw_def)
          next
            case free: False
            show ?thesis
            proof (cases "find (\<lambda>siblingPackagePolicy.
                     pp_id siblingPackagePolicy \<noteq> id0
                     \<and> name siblingPackagePolicy = name packagePolicy)
               (package_policies parent)")
              case (Some sibling)
              with found \<open>r1 = Inr old0\<close> \<open>old0 = Some old\<close> lookup Inr parent free run
              have "s' = s2" by (simp add: update_def bind_def throw_def)
              moreover from Some have "find (\<lambda>siblingPackagePolicy.
                     pp_id siblingPackagePolicy \<noteq> id0
                     \<and> name siblingPackagePolicy = name packagePolicy)
               (package_policies parent) \<noteq> None"
                by simp
              then have "\<exists>sibling \<in> set (package_policies parent).
                 pp_id sibling \<noteq> id0 \<and> name sibling = name packagePolicy"
                by (auto simp: find_None_iff)
              ultimately show ?thesis
                using found \<open>r1 = Inr old0\<close> \<open>old0 = Some old\<close> lookup Inr parent free by auto
            next
              case None
              let ?rest = "bind (update_package_step env packagePolicy
                     (map (assignStreamIdToInput (pp_id old)) (inputs packagePolicy)))
                 (\<lambda>inputs1.
               bind (new_Date_toISOString env)
                 (\<lambda>isoDate.
               bind (call_soClient_update env id0
                       (update_attributes packagePolicy inputs1 (js_plus (revision old) 1)
                          isoDate options)
                       (version packagePolicy))
                 (\<lambda>_.
               bind (call_bumpRevision env (policy_id packagePolicy) (opt_user options))
                 (\<lambda>_.
               get env id0))))"
              from found \<open>r1 = Inr old0\<close> \<open>old0 = Some old\<close> lookup Inr parent free None run
              have rest: "?rest s2 = (Inl duplicate_name, s')"
                by (simp add: update_def bind_def)
              have "raises ?rest (\<lambda>x. x \<noteq> duplicate_name)"
                by (intro raises_bind raises_update_package_step raises_new_Date
                      raises_call_soClient_update raises_call_bumpRevision raises_get quiet)
              from raisesD [OF this rest] show ?thesis by simp
            qed
          qed
        qed
      qed
    qed
  qed
qed

text \<open>
  Claim C7, as amended. The duplicate-name error is the error of the name check: provided
  that no collaborator rejects with that very error (\<open>raised_outside\<close>), \<open>update\<close> fails with
  it only when the policy and the target agent policy were found, the agent policy is not
  managed, and some package policy of the target agent policy with another id has the
  requested name; the update then stops right after the lookup of the agent policy. In
  that case it does fail so. The entry of the policy itself never counts: when every
  sibling of the requested name is the policy being updated, as when it keeps its name and
  no other sibling has it, the update does not fail with the duplicate-name error. \<open>update\<close>
  also fails with the error of \<open>get\<close> when that fails, with \<open>Package policy not found\<close>
  when the policy is absent, with \<open>Agent policy not found\<close> when the target agent policy is
  absent, and with the managed-policy error when it is managed.
\<close>

theorem update_rejections:
  "(\<not> raised_outside env
        (Error ''There is already a package with the same name on this agent policy'')
    \<and> update env id0 packagePolicy options s
        = (Inl (Error ''There is already a package with the same name on this agent policy''), s')
    \<longrightarrow>
      (\<exists>old s1 parent.
         get env id0 s = (Inr (Some old), s1)
         \<and> call_agentPolicyService_get env (policy_id packagePolicy) None s1
             = (Inr (Some parent), s')
         \<and> \<not> is_managed parent
         \<and> (\<exists>sibling \<in> set (package_policies parent).
               pp_id sibling \<noteq> id0 \<and> name sibling = name packagePolicy)))
   \<and> (\<forall>e s1. get env id0 s = (Inl e, s1) \<longrightarrow>
      update env id0 packagePolicy options s = (Inl e, s1))
   \<and> (\<forall>s1. get env id0 s = (Inr None, s1) \<longrightarrow>
      update env id0 packagePolicy options s = (Inl (Error ''Package policy not found''), s1))
   \<and> (\<forall>old s1. get env id0 s = (Inr (Some old), s1) \<longrightarrow>
        (\<forall>e s2. call_agentPolicyService_get env (policy_id packagePolicy) None s1 = (Inl e, s2)
           \<longrightarrow> update env id0 packagePolicy options s = (Inl e, s2))
        \<and> (\<forall>s2. call_agentPolicyService_get env (policy_id packagePolicy) None s1
                   = (Inr None, s2)
           \<longrightarrow> update env id0 packagePolicy options s
                 = (Inl (Error ''Agent policy not found''), s2))
        \<and> (\<forall>parent s2. call_agentPolicyService_get env (policy_id packagePolicy) None s1
                   = (Inr (Some parent), s2) \<longrightarrow>
             (is_managed parent \<longrightarrow>
                update env id0 packagePolicy options s
                  = (Inl (IngestManagerError
                            (''Cannot update integrations of managed policy '' @ id0)), s2))
             \<and> (\<not> is_managed parent \<longrightarrow>
                  (update env id0 packagePolicy options s
                     = (Inl (Error ''There is already a package with the same name on this agent policy''),
                        s2))
                  = (\<exists>sibling \<in> set (package_policies parent).
                       pp_id sibling \<noteq> id0 \<and> name sibling = name packagePolicy))
             \<and> (\<not> is_managed parent
                  \<and> \<not> raised_outside env
                        (Error ''There is already a package with the same name on this agent policy'')
                  \<and> (\<forall>sibling \<in> set (package_policies parent).
                        name sibling = name packagePolicy \<longrightarrow> pp_id sibling = id0)
                \<longrightarrow> fst (update env id0 packagePolicy options s)
                     \<noteq> Inl (Error ''There is already a package with the same name on this agent policy''))))"
proof -
  have name_check:
    "(update env id0 packagePolicy options s = (Inl duplicate_name, s2))
     = (\<exists>sibling \<in> set (package_policies parent).
          pp_id sibling \<noteq> id0 \<and> name sibling = name packagePolicy)"
    if found: "get env id0 s = (Inr (Some old), s1)"
      and lookup: "call_agentPolicyService_get env (policy_id packagePolicy) None s1
                     = (Inr (Some parent), s2)"
      and free: "\<not> is_managed parent"
    for old s1 parent s2
  proof (cases "find (\<lambda>siblingPackagePolicy.
                     pp_id siblingPackagePolicy \<noteq> id0
                     \<and> name siblingPackagePolicy = name packagePolicy)
               (package_policies parent)")
    case None
    obtain r s' where run: "update env id0 packagePolicy options s = (r, s')"
      by (cases "update env id0 packagePolicy options s")
    from update_continues [OF found lookup free None run] have "s' \<noteq> s2" by auto
    with run have "update env id0 packagePolicy options s \<noteq> (Inl duplicate_name, s2)"
      by simp
    moreover from None have "\<not> (\<exists>sibling \<in> set (package_policies parent).
          pp_id sibling \<noteq> id0 \<and> name sibling = name packagePolicy)"
      by (auto simp: find_None_iff)
    ultimately show ?thesis by simp
  next
    case (Some sibling)
    with found lookup free
    have "update env id0 packagePolicy options s = (Inl duplicate_name, s2)"
      by (simp add: update_def bind_def throw_def)
    moreover from Some have "find (\<lambda>siblingPackagePolicy.
                     pp_id siblingPackagePolicy \<noteq> id0
                     \<and> name siblingPackagePolicy = name packagePolicy)
               (package_policies parent) \<noteq> None"
      by simp
    then have "\<exists>sibling \<in> set (package_policies parent).
          pp_id sibling \<noteq> id0 \<and> name sibling = name packagePolicy"
      by (auto simp: find_None_iff)
    ultimately show ?thesis by simp
  qed
  have own_entry: "fst (update env id0 packagePolicy options s) \<noteq> Inl duplicate_name"
    if found: "get env id0 s = (Inr (Some old), s1)"
      and lookup: "call_agentPolicyService_get env (policy_id packagePolicy) None s1
                     = (Inr (Some parent), s2)"
      and free: "\<not> is_managed parent"
      and quiet: "\<not> raised_outside env duplicate_name"
      and own: "\<forall>sibling \<in> set (package_policies parent).
                        name sibling = name packagePolicy \<longrightarrow> pp_id sibling = id0"
    for old s1 parent s2
  proof
    assume failed: "fst (update env id0 packagePolicy options s) = Inl duplicate_name"
    obtain s3 where run: "update env id0 packagePolicy options s = (Inl duplicate_name, s3)"
      using failed by (cases "update env id0 packagePolicy options s") simp
    from update_duplicate_name [OF quiet run]
    obtain old' s1' parent' where
      found': "get env id0 s = (Inr (Some old'), s1')"
      and lookup': "call_agentPolicyService_get env (policy_id packagePolicy) None s1'
               = (Inr (Some parent'), s3)"
      and other: "\<exists>sibling \<in> set (package_policies parent').
                 pp_id sibling \<noteq> id0 \<and> name sibling = name packagePolicy"
      by (elim exE conjE)
    from found found' have "s1' = s1" by simp
    with lookup lookup' have "parent' = parent" by simp
    with other own show False by auto
  qed
  show ?thesis
    apply (intro conjI allI impI)
           apply (elim conjE, erule (1) update_duplicate_name)
          apply (simp add: update_def bind_def)
         apply (simp add: update_def bind_def throw_def)
        apply (simp add: update_def bind_def)
       apply (simp add: update_def bind_def throw_def)
      apply (simp add: update_def bind_def throw_def)
     apply (erule (2) name_check)
    apply (elim conjE, erule (4) own_entry)
    done
qed

lemma mem_quiet: "\<not> raised_outside mem_env duplicate_name"
  by (auto simp: raised_outside_def mem_env_def mem_so_get_def mem_agent_get_def
        mem_getPackageInfo_def mem_getAssetsData_def mem_so_update_def mem_agent_bump_def
        split: option.splits if_splits)

lemma mem_two_get:
  "get mem_env ''pp-1'' mem_two
   = (Inr (Some (saved_object_to_package_policy nginx_stored)),
      \<lparr>world = world mem_two, calls = [SoGet ''ingest-package-policies'' ''pp-1'']\<rparr>)"
  by (simp add: get_def bind_def call_soClient_get_def invoke_def return_def mem_env_def
        mem_so_get_def mem_two_def nginx_stored_def)

lemma mem_two_lookup:
  "call_agentPolicyService_get mem_env (policy_id nginx_moved) None
     \<lparr>world = world mem_two, calls = [SoGet ''ingest-package-policies'' ''pp-1'']\<rparr>
   = (Inr (Some \<lparr>ap_id = ''agent-2'', is_managed = False,
                  package_policies =
                    [saved_object_to_package_policy
                       (nginx_stored\<lparr>so_id := ''pp-2'',
                          so_attributes :=
                            (so_attributes nginx_stored)\<lparr>policy_id := ''agent-2''\<rparr>\<rparr>)]\<rparr>),
      \<lparr>world = world mem_two,
       calls = [SoGet ''ingest-package-policies'' ''pp-1'', AgentPolicyGet ''agent-2'' None]\<rparr>)"
  by (simp add: call_agentPolicyService_get_def invoke_def mem_env_def mem_agent_get_def
        mem_two_def nginx_moved_def List.map_filter_def)

lemma mem_stored_get:
  "get mem_env ''pp-1'' mem_stored
   = (Inr (Some (saved_object_to_package_policy nginx_stored)),
      \<lparr>world = world mem_stored, calls = [SoGet ''ingest-package-policies'' ''pp-1'']\<rparr>)"
  by (simp add: get_def bind_def call_soClient_get_def invoke_def return_def mem_env_def
        mem_so_get_def mem_stored_def nginx_stored_def)

lemma mem_stored_call_lookup:
  "call_agentPolicyService_get mem_env (policy_id nginx_update) None
     \<lparr>world = world mem_stored, calls = [SoGet ''ingest-package-policies'' ''pp-1'']\<rparr>
   = (Inr (Some \<lparr>ap_id = ''agent-1'', is_managed = False,
                  package_policies = [saved_object_to_package_policy nginx_stored]\<rparr>),
      \<lparr>world = world mem_stored,
       calls = [SoGet ''ingest-package-policies'' ''pp-1'', AgentPolicyGet ''agent-1'' None]\<rparr>)"
  by (simp add: call_agentPolicyService_get_def invoke_def mem_env_def mem_agent_get_def
        mem_stored_def nginx_update_def nginx_policy_def new_package_policy.defs
        List.map_filter_def)

lemma mem_missing_get:
  "get mem_env ''zz'' mem_stored
   = (Inl (OtherError ''Saved object not found''),
      \<lparr>world = world mem_stored, calls = [SoGet ''ingest-package-policies'' ''zz'']\<rparr>)"
  by (simp add: get_def bind_def call_soClient_get_def invoke_def mem_env_def
        mem_so_get_def mem_stored_def)

lemma mem_managed_get:
  "get mem_env ''pp-1'' mem_managed
   = (Inr (Some (saved_object_to_package_policy nginx_stored)),
      \<lparr>world = world mem_managed, calls = [SoGet ''ingest-package-policies'' ''pp-1'']\<rparr>)"
  by (simp add: get_def bind_def call_soClient_get_def invoke_def return_def mem_env_def
        mem_so_get_def mem_managed_def nginx_stored_def)

lemma mem_managed_call_lookup:
  "call_agentPolicyService_get mem_env (policy_id nginx_update) None
     \<lparr>world = world mem_managed, calls = [SoGet ''ingest-package-policies'' ''pp-1'']\<rparr>
   = (Inr (Some \<lparr>ap_id = ''agent-1'', is_managed = True,
                  package_policies = [saved_object_to_package_policy nginx_stored]\<rparr>),
      \<lparr>world = world mem_managed,
       calls = [SoGet ''ingest-package-policies'' ''pp-1'', AgentPolicyGet ''agent-1'' None]\<rparr>)"
  by (simp add: call_agentPolicyService_get_def invoke_def mem_env_def mem_agent_get_def
        mem_managed_def nginx_update_def nginx_policy_def new_package_policy.defs
        List.map_filter_def)

lemma mem_absent_agent_lookup:
  "call_agentPolicyService_get mem_env (policy_id (nginx_update\<lparr>policy_id := ''agent-9''\<rparr>)) None
     \<lparr>world = world mem_stored, calls = [SoGet ''ingest-package-policies'' ''pp-1'']\<rparr>
   = (Inr None,
      \<lparr>world = world mem_stored,
       calls = [SoGet ''ingest-package-policies'' ''pp-1'', AgentPolicyGet ''agent-9'' None]\<rparr>)"
  by (simp add: call_agentPolicyService_get_def invoke_def mem_env_def mem_agent_get_def
        mem_stored_def)

lemma mem_null_get:
  "get (mem_env\<lparr>soClient_get := \<lambda>type0 id0 w. (Inr None, w)\<rparr>) ''zz'' mem_stored
   = (Inr None,
      \<lparr>world = world mem_stored, calls = [SoGet ''ingest-package-policies'' ''zz'']\<rparr>)"
  by (simp add: get_def bind_def call_soClient_get_def invoke_def return_def mem_env_def
        mem_stored_def)

lemma mem_down_get:
  "get (mem_env\<lparr>agentPolicyService_get := \<lambda>p b w. (Inl (OtherError ''unavailable''), w)\<rparr>)
     ''pp-1'' mem_stored
   = (Inr (Some (saved_object_to_package_policy nginx_stored)),
      \<lparr>world = world mem_stored, calls = [SoGet ''ingest-package-policies'' ''pp-1'']\<rparr>)"
  by (simp add: get_def bind_def call_soClient_get_def invoke_def return_def mem_env_def
        mem_so_get_def mem_stored_def nginx_stored_def)

lemma mem_down_lookup:
  "call_agentPolicyService_get
     (mem_env\<lparr>agentPolicyService_get := \<lambda>p b w. (Inl (OtherError ''unavailable''), w)\<rparr>)
     (policy_id nginx_update) None
     \<lparr>world = world mem_stored, calls = [SoGet ''ingest-package-policies'' ''pp-1'']\<rparr>
   = (Inl (OtherError ''unavailable''),
      \<lparr>world = world mem_stored,
       calls = [SoGet ''ingest-package-policies'' ''pp-1'', AgentPolicyGet ''agent-1'' None]\<rparr>)"
  by (simp add: call_agentPolicyService_get_def invoke_def nginx_update_def nginx_policy_def
        new_package_policy.defs mem_stored_def)

theorem update_rejections_witness:
  "update mem_env ''zz'' nginx_update no_options mem_stored
     = (Inl (OtherError ''Saved object not found''),
        \<lparr>world = world mem_stored, calls = [SoGet ''ingest-package-policies'' ''zz'']\<rparr>)
   \<and> update (mem_env\<lparr>soClient_get := \<lambda>type0 id0 w. (Inr None, w)\<rparr>) ''zz'' nginx_update
         no_options mem_stored
       = (Inl (Error ''Package policy not found''),
          \<lparr>world = world mem_stored, calls = [SoGet ''ingest-package-policies'' ''zz'']\<rparr>)
   \<and> update (mem_env\<lparr>agentPolicyService_get := \<lambda>p b w. (Inl (OtherError ''unavailable''), w)\<rparr>)
         ''pp-1'' nginx_update no_options mem_stored
       = (Inl (OtherError ''unavailable''),
          \<lparr>world = world mem_stored,
           calls = [SoGet ''ingest-package-policies'' ''pp-1'', AgentPolicyGet ''agent-1'' None]\<rparr>)
   \<and> update mem_env ''pp-1'' (nginx_update\<lparr>policy_id := ''agent-9''\<rparr>) no_options mem_stored
       = (Inl (Error ''Agent policy not found''),
          \<lparr>world = world mem_stored,
           calls = [SoGet ''ingest-package-policies'' ''pp-1'', AgentPolicyGet ''agent-9'' None]\<rparr>)
   \<and> update mem_env ''pp-1'' nginx_update no_options mem_managed
       = (Inl (IngestManagerError ''Cannot update integrations of managed policy pp-1''),
          \<lparr>world = world mem_managed,
           calls = [SoGet ''ingest-package-policies'' ''pp-1'', AgentPolicyGet ''agent-1'' None]\<rparr>)
   \<and> update mem_env ''pp-1'' nginx_moved no_options mem_two
       = (Inl (Error ''There is already a package with the same name on this agent policy''),
          \<lparr>world = world mem_two,
           calls = [SoGet ''ingest-package-policies'' ''pp-1'', AgentPolicyGet ''agent-2'' None]\<rparr>)
   \<and> update mem_env ''pp-1'' nginx_update no_options mem_stored
       \<noteq> (Inl (Error ''There is already a package with the same name on this agent policy''),
          \<lparr>world = world mem_stored,
           calls = [SoGet ''ingest-package-policies'' ''pp-1'', AgentPolicyGet ''agent-1'' None]\<rparr>)
   \<and> \<not> raised_outside mem_env
         (Error ''There is already a package with the same name on this agent policy'')
   \<and> (\<exists>old s1 parent.
         get mem_env ''pp-1'' mem_two = (Inr (Some old), s1)
         \<and> call_agentPolicyService_get mem_env ''agent-2'' None s1
             = (Inr (Some parent),
                \<lparr>world = world mem_two,
                 calls = [SoGet ''ingest-package-policies'' ''pp-1'',
                          AgentPolicyGet ''agent-2'' None]\<rparr>)
         \<and> \<not> is_managed parent
         \<and> (\<exists>sibling \<in> set (package_policies parent).
               pp_id sibling \<noteq> ''pp-1'' \<and> name sibling = ''nginx-1''))
   \<and> fst (update mem_env ''pp-1'' nginx_update no_options mem_stored)
       \<noteq> Inl (Error ''There is already a package with the same name on this agent policy'')"
proof -
  note missing = update_rejections
                   [of mem_env "''zz''" nginx_update no_options mem_stored, THEN conjunct2]
  note null = update_rejections
                [of "mem_env\<lparr>soClient_get := \<lambda>type0 id0 w. (Inr None, w)\<rparr>" "''zz''"
                    nginx_update no_options mem_stored, THEN conjunct2]
  note down = update_rejections
                [of "mem_env\<lparr>agentPolicyService_get :=
                               \<lambda>p b w. (Inl (OtherError ''unavailable''), w)\<rparr>"
                    "''pp-1''" nginx_update no_options mem_stored, THEN conjunct2]
  note absent = update_rejections
                  [of mem_env "''pp-1''" "nginx_update\<lparr>policy_id := ''agent-9''\<rparr>" no_options
                      mem_stored, THEN conjunct2]
  note managed = update_rejections
                   [of mem_env "''pp-1''" nginx_update no_options mem_managed, THEN conjunct2]
  note moved_only = update_rejections
                 [of mem_env "''pp-1''" nginx_moved no_options mem_two
                     "\<lparr>world = world mem_two,
                      calls = [SoGet ''ingest-package-policies'' ''pp-1'',
                               AgentPolicyGet ''agent-2'' None]\<rparr>", THEN conjunct1, rule_format]
  note moved = update_rejections
                 [of mem_env "''pp-1''" nginx_moved no_options mem_two, THEN conjunct2]
  note kept = update_rejections
                [of mem_env "''pp-1''" nginx_update no_options mem_stored, THEN conjunct2]
  from missing mem_missing_get
  have a: "update mem_env ''zz'' nginx_update no_options mem_stored
     = (Inl (OtherError ''Saved object not found''),
        \<lparr>world = world mem_stored, calls = [SoGet ''ingest-package-policies'' ''zz'']\<rparr>)"
    by simp
  from null mem_null_get
  have a2: "update (mem_env\<lparr>soClient_get := \<lambda>type0 id0 w. (Inr None, w)\<rparr>) ''zz'' nginx_update
         no_options mem_stored
       = (Inl (Error ''Package policy not found''),
          \<lparr>world = world mem_stored, calls = [SoGet ''ingest-package-policies'' ''zz'']\<rparr>)"
    by simp
  from down mem_down_get mem_down_lookup
  have a3: "update (mem_env\<lparr>agentPolicyService_get :=
                              \<lambda>p b w. (Inl (OtherError ''unavailable''), w)\<rparr>)
         ''pp-1'' nginx_update no_options mem_stored
       = (Inl (OtherError ''unavailable''),
          \<lparr>world = world mem_stored,
           calls = [SoGet ''ingest-package-policies'' ''pp-1'', AgentPolicyGet ''agent-1'' None]\<rparr>)"
    by simp
  from absent mem_stored_get mem_absent_agent_lookup
  have a4: "update mem_env ''pp-1'' (nginx_update\<lparr>policy_id := ''agent-9''\<rparr>) no_options mem_stored
       = (Inl (Error ''Agent policy not found''),
          \<lparr>world = world mem_stored,
           calls = [SoGet ''ingest-package-policies'' ''pp-1'', AgentPolicyGet ''agent-9'' None]\<rparr>)"
    by simp
  from managed mem_managed_get mem_managed_call_lookup
  have a5: "update mem_env ''pp-1'' nginx_update no_options mem_managed
       = (Inl (IngestManagerError ''Cannot update integrations of managed policy pp-1''),
          \<lparr>world = world mem_managed,
           calls = [SoGet ''ingest-package-policies'' ''pp-1'', AgentPolicyGet ''agent-1'' None]\<rparr>)"
    by simp
  have other: "\<exists>sibling \<in> set [saved_object_to_package_policy
                       (nginx_stored\<lparr>so_id := ''pp-2'',
                          so_attributes :=
                            (so_attributes nginx_stored)\<lparr>policy_id := ''agent-2''\<rparr>\<rparr>)].
                 pp_id sibling \<noteq> ''pp-1'' \<and> name sibling = name nginx_moved"
    by (simp add: saved_object_to_package_policy_simps nginx_stored_def new_attributes_simps
          nginx_moved_def nginx_update_def new_package_policy.defs)
  from moved mem_two_get mem_two_lookup other
  have b: "update mem_env ''pp-1'' nginx_moved no_options mem_two
       = (Inl (Error ''There is already a package with the same name on this agent policy''),
          \<lparr>world = world mem_two,
           calls = [SoGet ''ingest-package-policies'' ''pp-1'', AgentPolicyGet ''agent-2'' None]\<rparr>)"
    by simp
  have own: "\<forall>sibling \<in> set [saved_object_to_package_policy nginx_stored].
               name sibling = name nginx_update \<longrightarrow> pp_id sibling = ''pp-1''"
    by (simp add: saved_object_to_package_policy_simps nginx_stored_def)
  from kept mem_stored_get mem_stored_call_lookup own
  have c: "update mem_env ''pp-1'' nginx_update no_options mem_stored
       \<noteq> (Inl (Error ''There is already a package with the same name on this agent policy''),
          \<lparr>world = world mem_stored,
           calls = [SoGet ''ingest-package-policies'' ''pp-1'', AgentPolicyGet ''agent-1'' None]\<rparr>)"
    by (simp add: saved_object_to_package_policy_simps nginx_stored_def)
  from moved_only [OF conjI [OF mem_quiet b]]
  have d: "\<exists>old s1 parent.
         get mem_env ''pp-1'' mem_two = (Inr (Some old), s1)
         \<and> call_agentPolicyService_get mem_env ''agent-2'' None s1
             = (Inr (Some parent),
                \<lparr>world = world mem_two,
                 calls = [SoGet ''ingest-package-policies'' ''pp-1'',
                          AgentPolicyGet ''agent-2'' None]\<rparr>)
         \<and> \<not> is_managed parent
         \<and> (\<exists>sibling \<in> set (package_policies parent).
               pp_id sibling \<noteq> ''pp-1'' \<and> name sibling = ''nginx-1'')"
    by (simp add: nginx_moved_def nginx_update_def nginx_policy_def new_package_policy.defs)
  from kept mem_quiet mem_stored_get mem_stored_call_lookup own
  have e: "fst (update mem_env ''pp-1'' nginx_update no_options mem_stored)
       \<noteq> Inl (Error ''There is already a package with the same name on this agent policy'')"
    by (simp add: saved_object_to_package_policy_simps nginx_stored_def)
  from a a2 a3 a4 a5 b c d e mem_quiet show ?thesis by simp
qed

lemma moved_update_run:
  "fst (update mem_env ''pp-1'' nginx_moved no_options mem_two)
   = Inl (Error ''There is already a package with the same name on this agent policy'')"
  by code_simp

lemma moved_get_run:
  "map_sum id (map_option name) (fst (get mem_env ''pp-1'' mem_two)) = Inr (Some ''nginx-1'')"
  by code_simp

text \<open>
  The claim as it was stated also says that keeping the policy's existing name never
  triggers the conflict. That fails when the update moves the policy to an agent policy on
  which another package policy has that name: the stored policy \<open>pp-1\<close> is named as the
  request is, and the update is rejected with the duplicate-name error.
\<close>

theorem update_keeping_name_counterexample:
  "map_sum id (map_option name) (fst (get mem_env ''pp-1'' mem_two)) = Inr (Some (name nginx_moved))
   \<and> fst (update mem_env ''pp-1'' nginx_moved no_options mem_two)
       = Inl (Error ''There is already a package with the same name on this agent policy'')"
  using moved_update_run moved_get_run
  by (simp add: nginx_moved_def nginx_update_def nginx_policy_def new_package_policy.defs)

subsection \<open>Deleting package policies\<close>

lemma delete_try_Inr:
  assumes "delete_try env options id0 s = (Inr entry, s1)"
  shows "\<exists>packagePolicy s2.
           get env id0 s = (Inr (Some packagePolicy), s2)
           \<and> entry = \<lparr>del_id = id0, del_name = Some (name packagePolicy), del_success = True,
                       del_response = None\<rparr>"
  using assms
  by (auto simp: delete_try_def bind_Inr_iff return_iff throw_iff split: option.splits)

lemma delete_one_cases:
  "delete_one env options id0 s =
     (case delete_try env options id0 s of
        (Inl error, s1) \<Rightarrow>
          (Inr \<lparr>del_id = id0, del_name = None, del_success = False,
                del_response = Some (ingestErrorToResponseOptions env error)\<rparr>, s1)
      | (Inr entry, s1) \<Rightarrow> (Inr entry, s1))"
  by (simp add: delete_one_def try_catch_def return_def split: prod.splits sum.splits)

lemma delete_one_total:
  "\<exists>entry s1. delete_one env options id0 s = (Inr entry, s1) \<and> del_id entry = id0"
proof (cases "delete_try env options id0 s")
  case (Pair r s1)
  show ?thesis
  proof (cases r)
    case (Inl error)
    with Pair show ?thesis by (simp add: delete_one_cases)
  next
    case (Inr entry)
    with Pair delete_try_Inr [of env options id0 s entry s1] show ?thesis
      by (auto simp: delete_one_cases)
  qed
qed

lemma delete_loop_total:
  "\<exists>rs s'. delete_loop env options ids acc s = (Inr (acc @ rs), s') \<and> map del_id rs = ids"
proof (induction ids arbitrary: acc s)
  case Nil
  show ?case by (simp add: return_def)
next
  case (Cons id0 ids)
  from delete_one_total [of env options id0 s]
  obtain entry s1 where one: "delete_one env options id0 s = (Inr entry, s1)" "del_id entry = id0"
    by (elim exE conjE)
  from Cons.IH [of "acc @ [entry]" s1]
  obtain rs s' where "delete_loop env options ids (acc @ [entry]) s1 = (Inr ((acc @ [entry]) @ rs), s')"
    "map del_id rs = ids"
    by (elim exE conjE)
  with one have "delete_loop env options (id0 # ids) acc s = (Inr (acc @ entry # rs), s')
                 \<and> map del_id (entry # rs) = id0 # ids"
    by (simp add: bind_def)
  then show ?case by (intro exI)
qed

lemma delete_loop_acc:
  "delete_loop env options ids acc s =
     (case delete_loop env options ids [] s of
        (Inl e, s') \<Rightarrow> (Inl e, s')
      | (Inr rs, s') \<Rightarrow> (Inr (acc @ rs), s'))"
proof (induction ids arbitrary: acc s)
  case Nil
  show ?case by (simp add: return_def)
next
  case (Cons id0 ids)
  from delete_one_total [of env options id0 s]
  obtain entry s1 where one: "delete_one env options id0 s = (Inr entry, s1)"
    by (elim exE conjE)
  from delete_loop_total [of env options ids "[]" s1]
  obtain rs s' where rest: "delete_loop env options ids [] s1 = (Inr rs, s')"
    by auto
  have a: "delete_loop env options ids (acc @ [entry]) s1 = (Inr ((acc @ [entry]) @ rs), s')"
    using Cons.IH [of "acc @ [entry]" s1] rest by simp
  have b: "delete_loop env options ids [entry] s1 = (Inr ([entry] @ rs), s')"
    using Cons.IH [of "[entry]" s1] rest by simp
  show ?case using one a b by (simp add: bind_def)
qed

lemma delete_Cons:
  assumes "delete_one env options id0 s = (Inr entry, s1)"
    and "delete env ids options s1 = (Inr rs, s')"
  shows "delete env (id0 # ids) options s = (Inr (entry # rs), s')"
  using assms delete_loop_acc [of env options ids "[entry]" s1]
  by (simp add: delete_def bind_def)

lemma delete_append:
  assumes "delete env (xs @ ys) options s = (Inr rs, s')"
  shows "\<exists>r1 s1 r2. delete env xs options s = (Inr r1, s1)
           \<and> delete env ys options s1 = (Inr r2, s') \<and> rs = r1 @ r2 \<and> length r1 = length xs"
  using assms
proof (induction xs arbitrary: s rs)
  case Nil
  then show ?case by (simp add: delete_def return_def)
next
  case (Cons x xs)
  from delete_one_total [of env options x s]
  obtain entry s1 where one: "delete_one env options x s = (Inr entry, s1)"
    by (elim exE conjE)
  from delete_loop_total [of env options "xs @ ys" "[]" s1]
  obtain rest s2 where rest: "delete env (xs @ ys) options s1 = (Inr rest, s2)"
    by (auto simp: delete_def)
  from delete_Cons [OF one rest] Cons.prems have eq: "rs = entry # rest" "s2 = s'"
    by simp_all
  from Cons.IH [OF rest [unfolded eq]]
  obtain r1 s3 r2 where ih: "delete env xs options s1 = (Inr r1, s3)"
    "delete env ys options s3 = (Inr r2, s')" "rest = r1 @ r2" "length r1 = length xs"
    by (elim exE conjE)
  from delete_Cons [OF one ih(1)] ih eq
  have "delete env (x # xs) options s = (Inr (entry # r1), s3)
        \<and> delete env ys options s3 = (Inr r2, s') \<and> rs = (entry # r1) @ r2
        \<and> length (entry # r1) = length (x # xs)"
    by simp
  then show ?case by (intro exI)
qed

lemma delete_one_get_fails:
  assumes "get env id0 s = (Inl error, s1)"
  shows "delete_one env options id0 s
         = (Inr \<lparr>del_id = id0, del_name = None, del_success = False,
                  del_response = Some (ingestErrorToResponseOptions env error)\<rparr>, s1)"
  using assms by (simp add: delete_one_def try_catch_def delete_try_def bind_def return_def)

lemma delete_one_absent:
  assumes "get env id0 s = (Inr None, s1)"
  shows "delete_one env options id0 s
         = (Inr \<lparr>del_id = id0, del_name = None, del_success = False,
                  del_response = Some (ingestErrorToResponseOptions env
                                         (Error ''Package policy not found''))\<rparr>, s1)"
  using assms
  by (simp add: delete_one_def try_catch_def delete_try_def bind_def return_def throw_def)

lemma delete_one_unassign_fails:
  assumes "get env id0 s = (Inr (Some packagePolicy), s1)"
    and "(if opt_skipUnassignFromAgentPolicies options \<noteq> Some True then
            call_unassignPackagePolicies env (policy_id packagePolicy)
              [pp_id packagePolicy] (opt_user options)
          else return ()) s1 = (Inl error, s2)"
  shows "delete_one env options id0 s
         = (Inr \<lparr>del_id = id0, del_name = None, del_success = False,
                  del_response = Some (ingestErrorToResponseOptions env error)\<rparr>, s2)"
  using assms
  by (simp add: delete_one_def try_catch_def delete_try_def bind_def return_def)

lemma delete_one_delete_fails:
  assumes "get env id0 s = (Inr (Some packagePolicy), s1)"
    and "(if opt_skipUnassignFromAgentPolicies options \<noteq> Some True then
            call_unassignPackagePolicies env (policy_id packagePolicy)
              [pp_id packagePolicy] (opt_user options)
          else return ()) s1 = (Inr (), s2)"
    and "call_soClient_delete env id0 s2 = (Inl error, s3)"
  shows "delete_one env options id0 s
         = (Inr \<lparr>del_id = id0, del_name = None, del_success = False,
                  del_response = Some (ingestErrorToResponseOptions env error)\<rparr>, s3)"
  using assms
  by (simp add: delete_one_def try_catch_def delete_try_def bind_def return_def)

lemma delete_one_deleted:
  assumes "get env id0 s = (Inr (Some packagePolicy), s1)"
    and "(if opt_skipUnassignFromAgentPolicies options \<noteq> Some True then
            call_unassignPackagePolicies env (policy_id packagePolicy)
              [pp_id packagePolicy] (opt_user options)
          else return ()) s1 = (Inr (), s2)"
    and "call_soClient_delete env id0 s2 = (Inr (), s3)"
  shows "delete_one env options id0 s
         = (Inr \<lparr>del_id = id0, del_name = Some (name packagePolicy), del_success = True,
                  del_response = None\<rparr>, s3)"
  using assms
  by (simp add: delete_one_def try_catch_def delete_try_def bind_def return_def)

lemma delete_one_success:
  assumes one: "delete_one env options id0 s = (Inr entry, s')"
    and success: "del_success entry"
  shows "\<exists>packagePolicy s1 s2.
           get env id0 s = (Inr (Some packagePolicy), s1)
           \<and> (if opt_skipUnassignFromAgentPolicies options \<noteq> Some True then
                 call_unassignPackagePolicies env (policy_id packagePolicy)
                   [pp_id packagePolicy] (opt_user options)
               else return ()) s1 = (Inr (), s2)
           \<and> call_soClient_delete env id0 s2 = (Inr (), s')"
proof -
  obtain r1 s1 where found: "get env id0 s = (r1, s1)" by (cases "get env id0 s")
  show ?thesis
  proof (cases r1)
    case (Inl error)
    with found delete_one_get_fails [of env id0 s error s1 options] one success
    show ?thesis by simp
  next
    case (Inr found0)
    show ?thesis
    proof (cases found0)
      case None
      with found Inr delete_one_absent [of env id0 s s1 options] one success
      show ?thesis by simp
    next
      case (Some packagePolicy)
      let ?unassign = "if opt_skipUnassignFromAgentPolicies options \<noteq> Some True then
                 call_unassignPackagePolicies env (policy_id packagePolicy)
                   [pp_id packagePolicy] (opt_user options)
               else return ()"
      from found Inr Some have got: "get env id0 s = (Inr (Some packagePolicy), s1)" by simp
      obtain r2 s2 where unassigned: "?unassign s1 = (r2, s2)" by (cases "?unassign s1")
      show ?thesis
      proof (cases r2)
        case (Inl error)
        with unassigned have "?unassign s1 = (Inl error, s2)" by simp
        from delete_one_unassign_fails [OF got this] one success show ?thesis by simp
      next
        case (Inr u)
        with unassigned have unassigned': "?unassign s1 = (Inr (), s2)" by simp
        obtain r3 s3 where deleted: "call_soClient_delete env id0 s2 = (r3, s3)"
          by (cases "call_soClient_delete env id0 s2")
        show ?thesis
        proof (cases r3)
          case (Inl error)
          with deleted have "call_soClient_delete env id0 s2 = (Inl error, s3)" by simp
          from delete_one_delete_fails [OF got unassigned' this] one success
          show ?thesis by simp
        next
          case (Inr u')
          with deleted have deleted': "call_soClient_delete env id0 s2 = (Inr (), s3)" by simp
          from delete_one_deleted [OF got unassigned' this] one have "s' = s3" by simp
          with got unassigned' deleted' show ?thesis by (intro exI conjI) simp_all
        qed
      qed
    qed
  qed
qed

lemma delete_snoc:
  assumes "delete env xs options s = (Inr rs, s1)"
    and "delete_one env options x s1 = (Inr entry, s2)"
  shows "delete env (xs @ [x]) options s = (Inr (rs @ [entry]), s2)"
  using assms
proof (induction xs arbitrary: s rs)
  case Nil
  then show ?case by (simp add: delete_def return_def bind_def)
next
  case (Cons y ys)
  from delete_one_total [of env options y s]
  obtain first s0 where one: "delete_one env options y s = (Inr first, s0)"
    by (elim exE conjE)
  from delete_loop_total [of env options ys "[]" s0]
  obtain rest s3 where rest: "delete env ys options s0 = (Inr rest, s3)"
    by (auto simp: delete_def)
  from delete_Cons [OF one rest] Cons.prems(1) have eq: "rs = first # rest" "s3 = s1"
    by simp_all
  from Cons.IH [OF rest [unfolded eq(2)] Cons.prems(2)]
  have "delete env (ys @ [x]) options s0 = (Inr (rest @ [entry]), s2)" .
  from delete_Cons [OF one this] eq show ?case by simp
qed

lemma delete_one_log:
  assumes one: "delete_one env options id0 s = (Inr entry, s')"
    and success: "del_success entry"
  shows "\<exists>packagePolicy :: package_policy.
           del_name entry = Some (name packagePolicy)
           \<and> calls s' = calls s
               @ [SoGet (SAVED_OBJECT_TYPE env) id0]
               @ (if opt_skipUnassignFromAgentPolicies options \<noteq> Some True then
                    [UnassignPackagePolicies (policy_id packagePolicy) [pp_id packagePolicy]
                       (opt_user options)]
                  else [])
               @ [SoDelete (SAVED_OBJECT_TYPE env) id0]"
proof -
  from delete_one_success [OF one success]
  obtain packagePolicy s1 s2 where
    got: "get env id0 s = (Inr (Some packagePolicy), s1)"
    and unassigned: "(if opt_skipUnassignFromAgentPolicies options \<noteq> Some True then
                   call_unassignPackagePolicies env (policy_id packagePolicy)
                     [pp_id packagePolicy] (opt_user options)
                 else return ()) s1 = (Inr (), s2)"
    and deleted: "call_soClient_delete env id0 s2 = (Inr (), s')"
    by (elim exE conjE)
  from delete_one_deleted [OF got unassigned deleted] one
  have "del_name entry = Some (name packagePolicy)" by auto
  moreover from get_calls [OF got]
  have "calls s1 = calls s @ [SoGet (SAVED_OBJECT_TYPE env) id0]" .
  moreover from unassigned
  have "calls s2 = calls s1
               @ (if opt_skipUnassignFromAgentPolicies options \<noteq> Some True then
                    [UnassignPackagePolicies (policy_id packagePolicy) [pp_id packagePolicy]
                       (opt_user options)]
                  else [])"
    by (auto simp: call_unassignPackagePolicies_def invoke_iff return_iff split: if_splits)
  moreover from deleted have "calls s' = calls s2 @ [SoDelete (SAVED_OBJECT_TYPE env) id0]"
    by (auto simp: call_soClient_delete_def invoke_iff)
  ultimately have "del_name entry = Some (name packagePolicy)
           \<and> calls s' = calls s
               @ [SoGet (SAVED_OBJECT_TYPE env) id0]
               @ (if opt_skipUnassignFromAgentPolicies options \<noteq> Some True then
                    [UnassignPackagePolicies (policy_id packagePolicy) [pp_id packagePolicy]
                       (opt_user options)]
                  else [])
               @ [SoDelete (SAVED_OBJECT_TYPE env) id0]"
    by simp
  then show ?thesis by (rule exI)
qed

lemma delete_one_outcome:
  assumes one: "delete_one env options id0 s = (Inr entry, s')"
  shows "(\<forall>error s1. get env id0 s = (Inl error, s1) \<longrightarrow>
        entry = \<lparr>del_id = id0, del_name = None, del_success = False,
                    del_response = Some (ingestErrorToResponseOptions env error)\<rparr>
        \<and> s' = s1)
   \<and> (\<forall>s1. get env id0 s = (Inr None, s1) \<longrightarrow>
        entry = \<lparr>del_id = id0, del_name = None, del_success = False,
                    del_response = Some (ingestErrorToResponseOptions env (Error ''Package policy not found''))\<rparr>
        \<and> s' = s1)
   \<and> (\<forall>packagePolicy s1. get env id0 s = (Inr (Some packagePolicy), s1) \<longrightarrow>
        (\<forall>error s2.
           (if opt_skipUnassignFromAgentPolicies options \<noteq> Some True then
                   call_unassignPackagePolicies env (policy_id packagePolicy)
                     [pp_id packagePolicy] (opt_user options)
                 else return ()) s1 = (Inl error, s2) \<longrightarrow>
           entry = \<lparr>del_id = id0, del_name = None, del_success = False,
                    del_response = Some (ingestErrorToResponseOptions env error)\<rparr>
           \<and> s' = s2)
        \<and> (\<forall>s2.
             (if opt_skipUnassignFromAgentPolicies options \<noteq> Some True then
                   call_unassignPackagePolicies env (policy_id packagePolicy)
                     [pp_id packagePolicy] (opt_user options)
                 else return ()) s1 = (Inr (), s2) \<longrightarrow>
             (\<forall>error s3. call_soClient_delete env id0 s2 = (Inl error, s3) \<longrightarrow>
                entry = \<lparr>del_id = id0, del_name = None, del_success = False,
                    del_response = Some (ingestErrorToResponseOptions env error)\<rparr>
                \<and> s' = s3)
             \<and> (\<forall>s3. call_soClient_delete env id0 s2 = (Inr (), s3) \<longrightarrow>
                  entry = \<lparr>del_id = id0, del_name = Some (name packagePolicy),
                              del_success = True, del_response = None\<rparr>
                  \<and> s' = s3)))
   \<and> (del_success (entry) \<longrightarrow>
        (\<exists>packagePolicy :: package_policy.
           del_name (entry) = Some (name packagePolicy)
           \<and> calls s' = calls s
               @ [SoGet (SAVED_OBJECT_TYPE env) id0]
               @ (if opt_skipUnassignFromAgentPolicies options \<noteq> Some True then
                    [UnassignPackagePolicies (policy_id packagePolicy) [pp_id packagePolicy]
                       (opt_user options)]
                  else [])
               @ [SoDelete (SAVED_OBJECT_TYPE env) id0]))"
proof (intro conjI allI impI)
  fix error s1
  assume "get env id0 s = (Inl error, s1)"
  from delete_one_get_fails [OF this] one
  show "entry = \<lparr>del_id = id0, del_name = None, del_success = False,
                    del_response = Some (ingestErrorToResponseOptions env error)\<rparr>" and "s' = s1"
    by simp_all
next
  fix s1
  assume "get env id0 s = (Inr None, s1)"
  from delete_one_absent [OF this] one
  show "entry = \<lparr>del_id = id0, del_name = None, del_success = False,
                    del_response = Some (ingestErrorToResponseOptions env (Error ''Package policy not found''))\<rparr>" and "s' = s1"
    by simp_all
next
  fix packagePolicy s1 error s2
  assume "get env id0 s = (Inr (Some packagePolicy), s1)"
    and "(if opt_skipUnassignFromAgentPolicies options \<noteq> Some True then
                   call_unassignPackagePolicies env (policy_id packagePolicy)
                     [pp_id packagePolicy] (opt_user options)
                 else return ()) s1 = (Inl error, s2)"
  from delete_one_unassign_fails [OF this] one
  show "entry = \<lparr>del_id = id0, del_name = None, del_success = False,
                    del_response = Some (ingestErrorToResponseOptions env error)\<rparr>" and "s' = s2"
    by simp_all
next
  fix packagePolicy s1 s2 error s3
  assume "get env id0 s = (Inr (Some packagePolicy), s1)"
    and "(if opt_skipUnassignFromAgentPolicies options \<noteq> Some True then
                   call_unassignPackagePolicies env (policy_id packagePolicy)
                     [pp_id packagePolicy] (opt_user options)
                 else return ()) s1 = (Inr (), s2)"
    and "call_soClient_delete env id0 s2 = (Inl error, s3)"
  from delete_one_delete_fails [OF this] one
  show "entry = \<lparr>del_id = id0, del_name = None, del_success = False,
                    del_response = Some (ingestErrorToResponseOptions env error)\<rparr>" and "s' = s3"
    by simp_all
next
  fix packagePolicy s1 s2 s3
  assume "get env id0 s = (Inr (Some packagePolicy), s1)"
    and "(if opt_skipUnassignFromAgentPolicies options \<noteq> Some True then
                   call_unassignPackagePolicies env (policy_id packagePolicy)
                     [pp_id packagePolicy] (opt_user options)
                 else return ()) s1 = (Inr (), s2)"
    and "call_soClient_delete env id0 s2 = (Inr (), s3)"
  from delete_one_deleted [OF this] one
  show "entry = \<lparr>del_id = id0, del_name = Some (name packagePolicy),
                              del_success = True, del_response = None\<rparr>" and "s' = s3"
    by simp_all
next
  assume "del_success entry"
  with one show "\<exists>packagePolicy :: package_policy.
           del_name entry = Some (name packagePolicy)
           \<and> calls s' = calls s
               @ [SoGet (SAVED_OBJECT_TYPE env) id0]
               @ (if opt_skipUnassignFromAgentPolicies options \<noteq> Some True then
                    [UnassignPackagePolicies (policy_id packagePolicy) [pp_id packagePolicy]
                       (opt_user options)]
                  else [])
               @ [SoDelete (SAVED_OBJECT_TYPE env) id0]"
    by (rule delete_one_log)
qed

text \<open>
  Claim C4. \<open>delete\<close> never throws. Its result has one entry per id, in the order of the
  ids. The entry of the \<open>k\<close>-th id is decided by the steps for that id, run in the state
  the earlier ids left behind, whether they succeeded or failed: the policy is fetched,
  unassigned from its agent policy unless the options say to skip that, and deleted from
  the store. When all of these succeed the entry is \<open>{id, name, success: true}\<close> with the
  name of the fetched policy, and the calls made for the id are the lookup, the
  unassignment (unless skipped) and the deletion. When the lookup fails or finds nothing,
  or the unassignment or the deletion fails, the entry is the failure entry built from that
  error and the later steps for the id are not run. In each case the next id starts from
  the state the last step left; nothing is rolled back.
\<close>

theorem delete_reports_every_id:
  "\<exists>result s'.
     delete env ids options s = (Inr result, s')
     \<and> map del_id result = ids
     \<and> (\<forall>k < length ids. \<exists>sk sk'.
           delete env (take k ids) options s = (Inr (take k result), sk)
           \<and> delete env (take (Suc k) ids) options s = (Inr (take (Suc k) result), sk')
           \<and> (\<forall>error s1. get env (ids ! k) sk = (Inl error, s1) \<longrightarrow>
        result ! k = \<lparr>del_id = (ids ! k), del_name = None, del_success = False,
                    del_response = Some (ingestErrorToResponseOptions env error)\<rparr>
        \<and> sk' = s1)
   \<and> (\<forall>s1. get env (ids ! k) sk = (Inr None, s1) \<longrightarrow>
        result ! k = \<lparr>del_id = (ids ! k), del_name = None, del_success = False,
                    del_response = Some (ingestErrorToResponseOptions env (Error ''Package policy not found''))\<rparr>
        \<and> sk' = s1)
   \<and> (\<forall>packagePolicy s1. get env (ids ! k) sk = (Inr (Some packagePolicy), s1) \<longrightarrow>
        (\<forall>error s2.
           (if opt_skipUnassignFromAgentPolicies options \<noteq> Some True then
                   call_unassignPackagePolicies env (policy_id packagePolicy)
                     [pp_id packagePolicy] (opt_user options)
                 else return ()) s1 = (Inl error, s2) \<longrightarrow>
           result ! k = \<lparr>del_id = (ids ! k), del_name = None, del_success = False,
                    del_response = Some (ingestErrorToResponseOptions env error)\<rparr>
           \<and> sk' = s2)
        \<and> (\<forall>s2.
             (if opt_skipUnassignFromAgentPolicies options \<noteq> Some True then
                   call_unassignPackagePolicies env (policy_id packagePolicy)
                     [pp_id packagePolicy] (opt_user options)
                 else return ()) s1 = (Inr (), s2) \<longrightarrow>
             (\<forall>error s3. call_soClient_delete env (ids ! k) s2 = (Inl error, s3) \<longrightarrow>
                result ! k = \<lparr>del_id = (ids ! k), del_name = None, del_success = False,
                    del_response = Some (ingestErrorToResponseOptions env error)\<rparr>
                \<and> sk' = s3)
             \<and> (\<forall>s3. call_soClient_delete env (ids ! k) s2 = (Inr (), s3) \<longrightarrow>
                  result ! k = \<lparr>del_id = (ids ! k), del_name = Some (name packagePolicy),
                              del_success = True, del_response = None\<rparr>
                  \<and> sk' = s3)))
   \<and> (del_success (result ! k) \<longrightarrow>
        (\<exists>packagePolicy :: package_policy.
           del_name (result ! k) = Some (name packagePolicy)
           \<and> calls sk' = calls sk
               @ [SoGet (SAVED_OBJECT_TYPE env) (ids ! k)]
               @ (if opt_skipUnassignFromAgentPolicies options \<noteq> Some True then
                    [UnassignPackagePolicies (policy_id packagePolicy) [pp_id packagePolicy]
                       (opt_user options)]
                  else [])
               @ [SoDelete (SAVED_OBJECT_TYPE env) (ids ! k)])))"
proof -
  from delete_loop_total [of env options ids "[]" s]
  obtain result s' where run: "delete env ids options s = (Inr result, s')"
    and ids: "map del_id result = ids"
    by (auto simp: delete_def)
  from ids have len: "length result = length ids" by (metis length_map)
  have "\<exists>sk sk'.
           delete env (take k ids) options s = (Inr (take k result), sk)
           \<and> delete env (take (Suc k) ids) options s = (Inr (take (Suc k) result), sk')
           \<and> delete_one env options (ids ! k) sk = (Inr (result ! k), sk')"
    if k: "k < length ids" for k
  proof -
    from k have split: "ids = take k ids @ (ids ! k # drop (Suc k) ids)"
      by (simp add: id_take_nth_drop)
    from run have "delete env (take k ids @ (ids ! k # drop (Suc k) ids)) options s = (Inr result, s')"
      using split by simp
    from delete_append [OF this]
    obtain r1 sk r2 where before: "delete env (take k ids) options s = (Inr r1, sk)"
      and after: "delete env (ids ! k # drop (Suc k) ids) options sk = (Inr r2, s')"
      and result: "result = r1 @ r2" and len1: "length r1 = length (take k ids)"
      by (elim exE conjE)
    from delete_one_total [of env options "ids ! k" sk]
    obtain entry sk' where one: "delete_one env options (ids ! k) sk = (Inr entry, sk')"
      by (elim exE conjE)
    from delete_loop_total [of env options "drop (Suc k) ids" "[]" sk']
    obtain rest s2 where rest: "delete env (drop (Suc k) ids) options sk' = (Inr rest, s2)"
      by (auto simp: delete_def)
    from delete_Cons [OF one rest] after have r2: "r2 = entry # rest" by simp
    from len1 k have lenk: "length r1 = k" by simp
    with result r2 have at: "result ! k = entry" and pre: "take k result = r1"
      by (simp_all add: nth_append)
    from k len have "take (Suc k) result = take k result @ [result ! k]"
      by (simp add: take_Suc_conv_app_nth)
    moreover from k have "take (Suc k) ids = take k ids @ [ids ! k]"
      by (simp add: take_Suc_conv_app_nth)
    moreover note delete_snoc [OF before one]
    ultimately have "delete env (take (Suc k) ids) options s = (Inr (take (Suc k) result), sk')"
      using at pre by simp
    with before one at pre show ?thesis by (intro exI conjI) simp_all
  qed
  then have each: "\<exists>sk sk'.
           delete env (take k ids) options s = (Inr (take k result), sk)
           \<and> delete env (take (Suc k) ids) options s = (Inr (take (Suc k) result), sk')
           \<and> (\<forall>error s1. get env (ids ! k) sk = (Inl error, s1) \<longrightarrow>
        result ! k = \<lparr>del_id = (ids ! k), del_name = None, del_success = False,
                    del_response = Some (ingestErrorToResponseOptions env error)\<rparr>
        \<and> sk' = s1)
   \<and> (\<forall>s1. get env (ids ! k) sk = (Inr None, s1) \<longrightarrow>
        result ! k = \<lparr>del_id = (ids ! k), del_name = None, del_success = False,
                    del_response = Some (ingestErrorToResponseOptions env (Error ''Package policy not found''))\<rparr>
        \<and> sk' = s1)
   \<and> (\<forall>packagePolicy s1. get env (ids ! k) sk = (Inr (Some packagePolicy), s1) \<longrightarrow>
        (\<forall>error s2.
           (if opt_skipUnassignFromAgentPolicies options \<noteq> Some True then
                   call_unassignPackagePolicies env (policy_id packagePolicy)
                     [pp_id packagePolicy] (opt_user options)
                 else return ()) s1 = (Inl error, s2) \<longrightarrow>
           result ! k = \<lparr>del_id = (ids ! k), del_name = None, del_success = False,
                    del_response = Some (ingestErrorToResponseOptions env error)\<rparr>
           \<and> sk' = s2)
        \<and> (\<forall>s2.
             (if opt_skipUnassignFromAgentPolicies options \<noteq> Some True then
                   call_unassignPackagePolicies env (policy_id packagePolicy)
                     [pp_id packagePolicy] (opt_user options)
                 else return ()) s1 = (Inr (), s2) \<longrightarrow>
             (\<forall>error s3. call_soClient_delete env (ids ! k) s2 = (Inl error, s3) \<longrightarrow>
                result ! k = \<lparr>del_id = (ids ! k), del_name = None, del_success = False,
                    del_response = Some (ingestErrorToResponseOptions env error)\<rparr>
                \<and> sk' = s3)
             \<and> (\<forall>s3. call_soClient_delete env (ids ! k) s2 = (Inr (), s3) \<longrightarrow>
                  result ! k = \<lparr>del_id = (ids ! k), del_name = Some (name packagePolicy),
                              del_success = True, del_response = None\<rparr>
                  \<and> sk' = s3)))
   \<and> (del_success (result ! k) \<longrightarrow>
        (\<exists>packagePolicy :: package_policy.
           del_name (result ! k) = Some (name packagePolicy)
           \<and> calls sk' = calls sk
               @ [SoGet (SAVED_OBJECT_TYPE env) (ids ! k)]
               @ (if opt_skipUnassignFromAgentPolicies options \<noteq> Some True then
                    [UnassignPackagePolicies (policy_id packagePolicy) [pp_id packagePolicy]
                       (opt_user options)]
                  else [])
               @ [SoDelete (SAVED_OBJECT_TYPE env) (ids ! k)]))"
    if k: "k < length ids" for k
  proof -
    from \<open>\<And>k. k < length ids \<Longrightarrow> \<exists>sk sk'.
           delete env (take k ids) options s = (Inr (take k result), sk)
           \<and> delete env (take (Suc k) ids) options s = (Inr (take (Suc k) result), sk')
           \<and> delete_one env options (ids ! k) sk = (Inr (result ! k), sk')\<close> [OF k]
    obtain sk sk' where
      before: "delete env (take k ids) options s = (Inr (take k result), sk)"
      and upto: "delete env (take (Suc k) ids) options s = (Inr (take (Suc k) result), sk')"
      and one: "delete_one env options (ids ! k) sk = (Inr (result ! k), sk')"
      by (elim exE conjE)
    from before upto delete_one_outcome [OF one] show ?thesis
      by (intro exI conjI) (elim conjE, assumption)+
  qed
  show ?thesis
    apply (rule exI [of _ result], rule exI [of _ s'])
    apply (intro conjI allI impI)
      apply (fact run)
     apply (fact ids)
    apply (erule each)
    done
qed

lemma delete_batch_run:
  "fst (delete mem_env [''zz'', ''pp-1'', ''yy''] no_options mem_stored)
   = Inr [\<lparr>del_id = ''zz'', del_name = None, del_success = False,
            del_response = Some \<lparr>statusCode = 500, body_message = ''Saved object not found''\<rparr>\<rparr>,
          \<lparr>del_id = ''pp-1'', del_name = Some ''nginx-1'', del_success = True,
            del_response = None\<rparr>,
          \<lparr>del_id = ''yy'', del_name = None, del_success = False,
            del_response = Some \<lparr>statusCode = 500, body_message = ''Saved object not found''\<rparr>\<rparr>]"
  by code_simp

lemma mem_batch_get:
  "get mem_env ''pp-1''
     \<lparr>world = world mem_stored, calls = [SoGet ''ingest-package-policies'' ''zz'']\<rparr>
   = (Inr (Some (saved_object_to_package_policy nginx_stored)),
      \<lparr>world = world mem_stored,
       calls = [SoGet ''ingest-package-policies'' ''zz'',
                SoGet ''ingest-package-policies'' ''pp-1'']\<rparr>)"
  by (simp add: get_def bind_def call_soClient_get_def invoke_def return_def mem_env_def
        mem_so_get_def mem_stored_def nginx_stored_def)

lemma mem_batch_unassign:
  "(if opt_skipUnassignFromAgentPolicies no_options \<noteq> Some True then
      call_unassignPackagePolicies mem_env
        (policy_id (saved_object_to_package_policy nginx_stored))
        [pp_id (saved_object_to_package_policy nginx_stored)] (opt_user no_options)
    else return ())
     \<lparr>world = world mem_stored,
      calls = [SoGet ''ingest-package-policies'' ''zz'',
               SoGet ''ingest-package-policies'' ''pp-1'']\<rparr>
   = (Inr (),
      \<lparr>world = (world mem_stored)
                 \<lparr>mw_agent_policies := [(''agent-1'', False, []), (''agent-1'', False, [''pp-1''])],
                    mw_bumps := 1\<rparr>,
       calls = [SoGet ''ingest-package-policies'' ''zz'',
                SoGet ''ingest-package-policies'' ''pp-1'',
                UnassignPackagePolicies ''agent-1'' [''pp-1''] None]\<rparr>)"
  by (simp add: no_options_def call_unassignPackagePolicies_def invoke_def mem_env_def
        mem_agent_unassign_def mem_stored_def nginx_stored_def nginx_policy_def
        saved_object_to_package_policy_simps new_attributes_simps)

lemma mem_batch_delete:
  "call_soClient_delete mem_env ''pp-1''
     \<lparr>world = (world mem_stored)
                \<lparr>mw_agent_policies := [(''agent-1'', False, []), (''agent-1'', False, [''pp-1''])],
                   mw_bumps := 1\<rparr>,
      calls = [SoGet ''ingest-package-policies'' ''zz'',
               SoGet ''ingest-package-policies'' ''pp-1'',
               UnassignPackagePolicies ''agent-1'' [''pp-1''] None]\<rparr>
   = (Inr (),
      \<lparr>world = (world mem_stored)
                 \<lparr>mw_objects := [],
                    mw_agent_policies := [(''agent-1'', False, []), (''agent-1'', False, [''pp-1''])],
                    mw_bumps := 1\<rparr>,
       calls = [SoGet ''ingest-package-policies'' ''zz'',
                SoGet ''ingest-package-policies'' ''pp-1'',
                UnassignPackagePolicies ''agent-1'' [''pp-1''] None,
                SoDelete ''ingest-package-policies'' ''pp-1'']\<rparr>)"
  by (simp add: call_soClient_delete_def invoke_def mem_env_def mem_so_delete_def mem_stored_def)

theorem delete_reports_every_id_witness:
  "\<exists>result s'.
     delete mem_env [''zz'', ''pp-1'', ''yy''] no_options mem_stored = (Inr result, s')
     \<and> map del_id result = [''zz'', ''pp-1'', ''yy'']
     \<and> map del_success result = [False, True, False]
     \<and> result ! 0
         = \<lparr>del_id = ''zz'', del_name = None, del_success = False,
            del_response = Some \<lparr>statusCode = 500, body_message = ''Saved object not found''\<rparr>\<rparr>
     \<and> result ! 1
         = \<lparr>del_id = ''pp-1'', del_name = Some ''nginx-1'', del_success = True,
            del_response = None\<rparr>
     \<and> delete mem_env [''zz''] no_options mem_stored
         = (Inr (take 1 result),
            \<lparr>world = world mem_stored, calls = [SoGet ''ingest-package-policies'' ''zz'']\<rparr>)
     \<and> delete mem_env [''zz'', ''pp-1''] no_options mem_stored
         = (Inr (take 2 result),
            \<lparr>world = (world mem_stored)
                 \<lparr>mw_objects := [],
                    mw_agent_policies := [(''agent-1'', False, []), (''agent-1'', False, [''pp-1''])],
                    mw_bumps := 1\<rparr>,
             calls = [SoGet ''ingest-package-policies'' ''zz'',
                      SoGet ''ingest-package-policies'' ''pp-1'',
                      UnassignPackagePolicies ''agent-1'' [''pp-1''] None,
                      SoDelete ''ingest-package-policies'' ''pp-1'']\<rparr>)"
proof -
  let ?ids = "[''zz'', ''pp-1'', ''yy'']"
  have zero: "0 < length ?ids" and one: "1 < length ?ids"
    by simp_all
  from delete_reports_every_id [of mem_env ?ids no_options mem_stored] show ?thesis
  proof (elim exE conjE, goal_cases)
    case (1 result s')
    note run = 1(1) and ids = 1(2) and each = 1(3)
    from each [rule_format, OF zero] show ?case
    proof (elim exE conjE, goal_cases)
      case (1 sk0 sk0')
      note before0 = 1(1) and upto0 = 1(2) and fails0 = 1(3)
      from before0 have start: "sk0 = mem_stored" by (simp add: delete_def return_def)
      have missing: "get mem_env (?ids ! 0) sk0
          = (Inl (OtherError ''Saved object not found''), \<lparr>world = world mem_stored, calls = [SoGet ''ingest-package-policies'' ''zz'']\<rparr>)"
        using mem_missing_get start by simp
      from fails0 [rule_format, OF missing]
      have first: "result ! 0
         = \<lparr>del_id = ''zz'', del_name = None, del_success = False,
            del_response = Some \<lparr>statusCode = 500, body_message = ''Saved object not found''\<rparr>\<rparr>"
        and after0: "sk0' = \<lparr>world = world mem_stored, calls = [SoGet ''ingest-package-policies'' ''zz'']\<rparr>"
        by (simp_all add: mem_env_def mem_error_response_def)
      from each [rule_format, OF one] show ?case
      proof (elim exE conjE, goal_cases)
        case (1 sk1 sk1')
        note before1 = 1(1) and upto1 = 1(2) and found1 = 1(5)
        from before1 upto0 after0
        have at1: "sk1 = \<lparr>world = world mem_stored, calls = [SoGet ''ingest-package-policies'' ''zz'']\<rparr>"
          by simp
        have got: "get mem_env (?ids ! 1) sk1
           = (Inr (Some (saved_object_to_package_policy nginx_stored)),
              \<lparr>world = world mem_stored,
               calls = [SoGet ''ingest-package-policies'' ''zz'',
                        SoGet ''ingest-package-policies'' ''pp-1'']\<rparr>)"
          using mem_batch_get at1 by simp
        have gone: "call_soClient_delete mem_env (?ids ! 1)
     \<lparr>world = (world mem_stored)
                \<lparr>mw_agent_policies := [(''agent-1'', False, []), (''agent-1'', False, [''pp-1''])],
                   mw_bumps := 1\<rparr>,
      calls = [SoGet ''ingest-package-policies'' ''zz'',
               SoGet ''ingest-package-policies'' ''pp-1'',
               UnassignPackagePolicies ''agent-1'' [''pp-1''] None]\<rparr>
   = (Inr (),
      \<lparr>world = (world mem_stored)
                 \<lparr>mw_objects := [],
                    mw_agent_policies := [(''agent-1'', False, []), (''agent-1'', False, [''pp-1''])],
                    mw_bumps := 1\<rparr>,
       calls = [SoGet ''ingest-package-policies'' ''zz'',
                SoGet ''ingest-package-policies'' ''pp-1'',
                UnassignPackagePolicies ''agent-1'' [''pp-1''] None,
                SoDelete ''ingest-package-policies'' ''pp-1'']\<rparr>)"
          using mem_batch_delete by simp
        from found1 [rule_format, OF got, THEN conjunct2, rule_format, OF mem_batch_unassign,
                     THEN conjunct2, rule_format, OF gone]
        have second: "result ! 1
         = \<lparr>del_id = ''pp-1'', del_name = Some ''nginx-1'', del_success = True,
            del_response = None\<rparr>"
          and after1: "sk1' = \<lparr>world = (world mem_stored)
                 \<lparr>mw_objects := [],
                    mw_agent_policies := [(''agent-1'', False, []), (''agent-1'', False, [''pp-1''])],
                    mw_bumps := 1\<rparr>,
       calls = [SoGet ''ingest-package-policies'' ''zz'',
                SoGet ''ingest-package-policies'' ''pp-1'',
                UnassignPackagePolicies ''agent-1'' [''pp-1''] None,
                SoDelete ''ingest-package-policies'' ''pp-1'']\<rparr>"
          by (simp_all add: saved_object_to_package_policy_simps nginx_stored_def nginx_policy_def
                new_attributes_simps)
        from run delete_batch_run
        have outcome: "map del_success result = [False, True, False]"
          by simp
        from before1 at1 have only_zz: "delete mem_env [''zz''] no_options mem_stored
         = (Inr (take 1 result),
            \<lparr>world = world mem_stored, calls = [SoGet ''ingest-package-policies'' ''zz'']\<rparr>)"
          by simp
        from upto1 after1 have both: "delete mem_env [''zz'', ''pp-1''] no_options mem_stored
         = (Inr (take 2 result),
            \<lparr>world = (world mem_stored)
                 \<lparr>mw_objects := [],
                    mw_agent_policies := [(''agent-1'', False, []), (''agent-1'', False, [''pp-1''])],
                    mw_bumps := 1\<rparr>,
       calls = [SoGet ''ingest-package-policies'' ''zz'',
                SoGet ''ingest-package-policies'' ''pp-1'',
                UnassignPackagePolicies ''agent-1'' [''pp-1''] None,
                SoDelete ''ingest-package-policies'' ''pp-1'']\<rparr>)"
          by (simp add: numeral_2_eq_2)
        show ?case
          apply (rule exI [of _ result], rule exI [of _ s'])
          apply (intro conjI)
                apply (fact run)
               apply (fact ids)
              apply (fact outcome)
             apply (fact first)
            apply (fact second)
           apply (fact only_zz)
          apply (fact both)
          done
      qed
    qed
  qed
qed

subsection \<open>External callbacks\<close>

text \<open>
  Claim C8. When no callback is registered for the kind, be it that the registry has no
  entry or an empty set, \<open>runExternalCallbacks\<close> returns the policy it was given and leaves
  the state as it was, for every policy and every kind.
\<close>

theorem runExternalCallbacks_no_callbacks:
  assumes "getExternalCallbacks env externalCallbackType = None
           \<or> getExternalCallbacks env externalCallbackType = Some []"
  shows "runExternalCallbacks env externalCallbackType newPackagePolicy context request s
           = (Inr newPackagePolicy, s)"
  using assms by (auto simp: runExternalCallbacks_def return_def)

theorem runExternalCallbacks_no_callbacks_witness:
  "getExternalCallbacks mem_env ''packagePolicyCreate'' = None
   \<and> runExternalCallbacks mem_env ''packagePolicyCreate'' nginx_policy undefined undefined mem_start
       = (Inr nginx_policy, mem_start)
   \<and> getExternalCallbacks (mem_env\<lparr>getExternalCallbacks := \<lambda>_. Some []\<rparr>) ''packagePolicyUpdate''
       = Some []
   \<and> runExternalCallbacks (mem_env\<lparr>getExternalCallbacks := \<lambda>_. Some []\<rparr>) ''packagePolicyUpdate''
         nginx_policy undefined undefined mem_start
       = (Inr nginx_policy, mem_start)"
proof -
  have none: "getExternalCallbacks mem_env ''packagePolicyCreate'' = None"
    by (simp add: mem_env_def)
  have empty: "getExternalCallbacks (mem_env\<lparr>getExternalCallbacks := \<lambda>_. Some []\<rparr>)
                 ''packagePolicyUpdate'' = Some []"
    by simp
  from runExternalCallbacks_no_callbacks [OF disjI1, OF none]
       runExternalCallbacks_no_callbacks [OF disjI2, OF empty] none empty
  show ?thesis by simp
qed

end
